theory Spec2Isabelle
  imports Complex_Main "HOL-Library.Multiset"
begin

section \<open>Values of the host language\<close>

text \<open>
  The scoring engines are pure TypeScript functions over plain data. Numbers are IEEE
  doubles in the source; the model reads a finite double as the real number it denotes
  and does arithmetic exactly. The values that are not real numbers are explicit where
  the source can meet them: \<open>undefined\<close>, \<open>null\<close> and \<open>NaN\<close> are constructors of
  \<open>jsval\<close>, an optional field of an interface (\<open>revenue?: number\<close>) is a
  \<open>real option\<close>, and an exception is the \<open>Inl\<close> of a sum. Infinities are not
  represented: every division of the engines is guarded by the source against a zero
  divisor, except the one by \<open>recency_half_life_days\<close> in \<open>getDocWeight\<close>, whose
  model is only meaningful for a non-zero half-life.
\<close>

datatype jsval = JUndefined | JNull | JNaN | JNum real

datatype error = TypeError | RangeError

text \<open>\<open>ToNumber\<close> on these values (\<open>None\<close> is \<open>NaN\<close>), and its inverse.\<close>

fun toNumber :: "jsval \<Rightarrow> real option" where
  "toNumber JUndefined = None"
| "toNumber JNull = Some 0"
| "toNumber JNaN = None"
| "toNumber (JNum x) = Some x"

fun ofNumber :: "real option \<Rightarrow> jsval" where
  "ofNumber None = JNaN"
| "ofNumber (Some x) = JNum x"

definition jsArith :: "(real \<Rightarrow> real \<Rightarrow> real) \<Rightarrow> jsval \<Rightarrow> jsval \<Rightarrow> jsval" where
  "jsArith f a b =
     (case (toNumber a, toNumber b) of
        (Some x, Some y) \<Rightarrow> JNum (f x y)
      | _ \<Rightarrow> JNaN)"

definition jsAdd :: "jsval \<Rightarrow> jsval \<Rightarrow> jsval" where
  "jsAdd = jsArith (+)"

definition jsMul :: "jsval \<Rightarrow> jsval \<Rightarrow> jsval" where
  "jsMul = jsArith (*)"

text \<open>\<open>Math.min\<close> and \<open>Math.max\<close> of two arguments: \<open>NaN\<close> as soon as one is.\<close>

definition mathMin :: "jsval \<Rightarrow> jsval \<Rightarrow> jsval" where
  "mathMin = jsArith min"

definition mathMax :: "jsval \<Rightarrow> jsval \<Rightarrow> jsval" where
  "mathMax = jsArith max"

text \<open>\<open>a <= b\<close> on numbers: false as soon as one side is \<open>NaN\<close>.\<close>

definition jsLe :: "jsval \<Rightarrow> jsval \<Rightarrow> bool" where
  "jsLe a b =
     (case (toNumber a, toNumber b) of
        (Some x, Some y) \<Rightarrow> x \<le> y
      | _ \<Rightarrow> False)"

text \<open>\<open>Math.round\<close> rounds half up; \<open>toFixed(2)\<close> read back by \<open>Number\<close> rounds
  the magnitude to two decimals, half away from zero.\<close>

definition mathRound :: "real \<Rightarrow> real" where
  "mathRound x = of_int \<lfloor>x + 1 / 2\<rfloor>"

definition toFixed2 :: "real \<Rightarrow> real" where
  "toFixed2 x = sgn x * of_int \<lfloor>\<bar>x\<bar> * 100 + 1 / 2\<rfloor> / 100"

text \<open>\<open>ToIntegerOrInfinity\<close>: truncation towards zero.\<close>

definition toInteger :: "real \<Rightarrow> int" where
  "toInteger x = (if 0 \<le> x then \<lfloor>x\<rfloor> else \<lceil>x\<rceil>)"

text \<open>
  \<open>xs.slice(k)\<close> for an integer \<open>k\<close>: from index \<open>k\<close>, counted from the end when
  \<open>k\<close> is negative. \<open>xs.slice(-n)\<close> for a literal \<open>n\<close> is \<open>sliceFrom (- n) xs\<close>.
\<close>

definition sliceFrom :: "int \<Rightarrow> 'a list \<Rightarrow> 'a list" where
  "sliceFrom k xs =
     (if k < 0 then drop (nat (int (length xs) + k)) xs else drop (nat k) xs)"

text \<open>\<open>xs[i]\<close> for an integer index: \<open>undefined\<close> outside the array.\<close>

definition elemAt :: "real list \<Rightarrow> int \<Rightarrow> jsval" where
  "elemAt xs i = (if 0 \<le> i \<and> i < int (length xs) then JNum (xs ! nat i) else JUndefined)"

text \<open>Truthiness of a string and of a number (\<open>NaN\<close> is not a value of \<open>real\<close>).\<close>

definition truthyStr :: "string option \<Rightarrow> bool" where
  "truthyStr s = (case s of None \<Rightarrow> False | Some t \<Rightarrow> t \<noteq> [])"

definition truthy :: "real option \<Rightarrow> bool" where
  "truthy v = (case v of None \<Rightarrow> False | Some x \<Rightarrow> x \<noteq> 0)"

text \<open>
  \<open>Array.prototype.sort(comparefn)\<close> belongs to the host. ECMAScript fixes its result
  when the comparator is consistent on the elements (its sign is a total preorder on
  them): the array sorted by the comparator, elements that compare equal in their
  original order. \<open>arraySort\<close> computes that result, by insertion. For a comparator
  that is not consistent the order is implementation-defined and differs between
  engines; \<open>arraySort\<close> is then one admissible order among others, and no property below
  is claimed of the code from it, beyond the result being a permutation of the array.
  The comparators of the source are differences of numbers, which are consistent, except
  the one of \<open>sortByReportPeriod\<close>, which is consistent when every date parses.
\<close>

fun insertBy :: "('a \<Rightarrow> 'a \<Rightarrow> real) \<Rightarrow> 'a \<Rightarrow> 'a list \<Rightarrow> 'a list" where
  "insertBy cmp x [] = [x]"
| "insertBy cmp x (y # ys) =
     (if cmp x y \<le> 0 then x # y # ys else y # insertBy cmp x ys)"

definition arraySort :: "('a \<Rightarrow> 'a \<Rightarrow> real) \<Rightarrow> 'a list \<Rightarrow> 'a list" where
  "arraySort cmp xs = foldr (insertBy cmp) xs []"

section \<open>Series utilities\<close>

record DatedValue =
  report_period :: string

record TtmPoint = DatedValue +
  "value" :: real

text \<open>
  \<open>new Date(s)\<close> is the host's date parser. It is a parameter \<open>newDate\<close> of every
  function that parses a date: \<open>newDate s\<close> is \<open>getTime()\<close> of the parsed date in
  milliseconds, or \<open>None\<close> for an Invalid Date.
\<close>

type_synonym dateParser = "string \<Rightarrow> real option"

definition parseReportDate :: "dateParser \<Rightarrow> string \<Rightarrow> real option" where
  "parseReportDate newDate v = (case newDate v of None \<Rightarrow> None | Some t \<Rightarrow> Some t)"

definition compareReportPeriod ::
  "dateParser \<Rightarrow> 'a DatedValue_scheme \<Rightarrow> 'a DatedValue_scheme \<Rightarrow> real" where
  "compareReportPeriod newDate a b =
     (case parseReportDate newDate (report_period a) of
        None \<Rightarrow> 0
      | Some da \<Rightarrow>
          (case parseReportDate newDate (report_period b) of
             None \<Rightarrow> 0
           | Some db \<Rightarrow> da - db))"

definition sortByReportPeriod ::
  "dateParser \<Rightarrow> 'a DatedValue_scheme list \<Rightarrow> 'a DatedValue_scheme list" where
  "sortByReportPeriod newDate rows = arraySort (compareReportPeriod newDate) rows"

definition median :: "real list \<Rightarrow> real option" where
  "median values =
     (if length values = 0 then None
      else
        let sorted = arraySort (\<lambda>a b. a - b) values;
            mid = length sorted div 2
        in if length sorted mod 2 = 0
           then Some ((sorted ! (mid - 1) + sorted ! mid) / 2)
           else Some (sorted ! mid))"

text \<open>\<open>percentile\<close> returns \<open>null\<close> on an empty array; an index outside the sorted
  array (a \<open>p\<close> outside \<open>[0,1]\<close>) reads \<open>undefined\<close>, and arithmetic on it is \<open>NaN\<close>.\<close>

definition percentile :: "real list \<Rightarrow> real \<Rightarrow> jsval" where
  "percentile values p =
     (if length values = 0 then JNull
      else
        let sorted = arraySort (\<lambda>a b. a - b) values;
            idx = (real (length sorted) - 1) * p;
            lower = \<lfloor>idx\<rfloor>;
            upper = \<lceil>idx\<rceil>
        in if lower = upper then elemAt sorted lower
           else
             let weight = idx - of_int lower
             in jsAdd (jsMul (elemAt sorted lower) (JNum (1 - weight)))
                      (jsMul (elemAt sorted upper) (JNum weight)))"

text \<open>The comparator \<open>a - b\<close> of \<open>percentileRank\<close> on numbers that may be \<open>NaN\<close>: a
  \<open>NaN\<close> result counts as \<open>0\<close>.\<close>

definition compareNumbers :: "jsval \<Rightarrow> jsval \<Rightarrow> real" where
  "compareNumbers a b =
     (case (toNumber a, toNumber b) of
        (Some x, Some y) \<Rightarrow> x - y
      | _ \<Rightarrow> 0)"

definition percentileRank :: "jsval list \<Rightarrow> jsval \<Rightarrow> real option" where
  "percentileRank values v =
     (if length values = 0 then None
      else
        let sorted = arraySort compareNumbers values;
            count = length (filter (\<lambda>w. jsLe w v) sorted)
        in Some (real count / real (length sorted)))"

definition stdev :: "real list \<Rightarrow> real option" where
  "stdev values =
     (if length values = 0 then None
      else
        let avg = foldl (\<lambda>s v. s + v) 0 values / real (length values);
            variance = foldl (\<lambda>s v. s + (v - avg)\<^sup>2) 0 values / real (length values)
        in Some (sqrt variance))"

definition slope :: "real list \<Rightarrow> real option" where
  "slope values =
     (if length values < 2 then None
      else
        let first = values ! 0;
            lastv = values ! (length values - 1)
        in Some ((lastv - first) / (real (length values) - 1)))"

definition clamp :: "real \<Rightarrow> real \<Rightarrow> real \<Rightarrow> real" where
  "clamp v lo hi = max lo (min hi v)"

definition clampJs :: "jsval \<Rightarrow> jsval \<Rightarrow> jsval \<Rightarrow> jsval" where
  "clampJs v lo hi = mathMax lo (mathMin hi v)"

fun missing :: "jsval \<Rightarrow> bool" where
  "missing (JNum x) = False"
| "missing v = True"

fun numberOf :: "jsval \<Rightarrow> real" where
  "numberOf (JNum x) = x"
| "numberOf v = 0"

definition sum_values :: "jsval list \<Rightarrow> real option" where
  "sum_values values =
     (if list_ex missing values then None
      else Some (foldl (\<lambda>acc v. acc + numberOf v) 0 values))"

text \<open>The body of the loop of \<open>rollingTtmSeries\<close> at index \<open>i\<close>, then the loop.\<close>

definition ttmPoint ::
  "('a DatedValue_scheme \<Rightarrow> jsval) \<Rightarrow> 'a DatedValue_scheme list \<Rightarrow> nat \<Rightarrow> TtmPoint option" where
  "ttmPoint getValue rows i =
     (let slice = take 4 (drop (i - 3) rows);
          values = map getValue slice
      in case sum_values values of
           None \<Rightarrow> None
         | Some tot \<Rightarrow> Some \<lparr>report_period = report_period (rows ! i), value = tot\<rparr>)"

definition rollingTtmSeries ::
  "dateParser \<Rightarrow> 'a DatedValue_scheme list \<Rightarrow> ('a DatedValue_scheme \<Rightarrow> jsval) \<Rightarrow> TtmPoint list" where
  "rollingTtmSeries newDate rows getValue =
     (let sorted = sortByReportPeriod newDate rows
      in List.map_filter (ttmPoint getValue sorted) [3..<length sorted])"

text \<open>\<open>nearestByDate\<close>: the loop keeps the first row of least distance within the
  tolerance.\<close>

definition nearestStep ::
  "dateParser \<Rightarrow> real \<Rightarrow> real \<Rightarrow> ('a DatedValue_scheme \<times> real) option \<Rightarrow> 'a DatedValue_scheme
     \<Rightarrow> ('a DatedValue_scheme \<times> real) option" where
  "nearestStep newDate targetDate maxDaysDiff best row =
     (case parseReportDate newDate (report_period row) of
        None \<Rightarrow> best
      | Some date \<Rightarrow>
          let diff = \<bar>date - targetDate\<bar> / (1000 * 60 * 60 * 24)
          in if diff > maxDaysDiff then best
             else (case best of
                     None \<Rightarrow> Some (row, diff)
                   | Some (r, d) \<Rightarrow> if diff < d then Some (row, diff) else best))"

definition nearestByDate ::
  "dateParser \<Rightarrow> 'a DatedValue_scheme list \<Rightarrow> real \<Rightarrow> real \<Rightarrow> 'a DatedValue_scheme option" where
  "nearestByDate newDate rows targetDate maxDaysDiff =
     (let sorted = sortByReportPeriod newDate rows
      in map_option fst (foldl (nearestStep newDate targetDate maxDaysDiff) None sorted))"

section \<open>Data model of the BRS engine\<close>

text \<open>
  The interfaces of the source, one record each. An interface with a \<open>report_period\<close>
  extends \<open>DatedValue\<close>, as the generic functions of the series utilities require
  (\<open>T extends DatedValue\<close>); \<open>UniverseMetric\<close> repeats the fields of \<open>CompanyFacts\<close>
  and is written as its extension. An optional field is an \<open>option\<close>.
\<close>

record CompanyFacts =
  ticker :: string
  sector :: "string option"
  industry :: "string option"

record IncomeStatement = DatedValue +
  revenue :: "real option"
  gross_profit :: "real option"
  ebit :: "real option"
  interest_expense :: "real option"

record BalanceSheet = DatedValue +
  total_debt :: "real option"
  cash_and_equivalents :: "real option"

record CashFlowStatement = DatedValue +
  depreciation_and_amortization :: "real option"
  net_cash_flow_from_operations :: "real option"
  free_cash_flow :: "real option"
  capital_expenditure :: "real option"
  dividends_and_other_cash_distributions :: "real option"
  issuance_or_purchase_of_equity_shares :: "real option"
  share_based_compensation :: "real option"

record MetricsPoint = DatedValue +
  enterprise_value_to_ebitda_ratio :: "real option"
  free_cash_flow_yield :: "real option"
  return_on_invested_capital :: "real option"
  interest_coverage :: "real option"
  gross_margin :: "real option"
  market_cap :: "real option"
  enterprise_value :: "real option"

text \<open>\<open>ev_to_ebitda\<close> is \<open>number | null | undefined\<close>; the source only keeps the
  finite numbers, so \<open>None\<close> stands for both \<open>null\<close> and \<open>undefined\<close>.\<close>

record UniverseMetric = CompanyFacts +
  ev_to_ebitda :: "real option"
  roic_series :: "TtmPoint list option"

record MedianBands =
  cheap :: real
  mid :: real
  rich :: real

record BrsConfig =
  min_peers :: real
  gm_stdev_threshold :: real
  low_history_gm_multiplier :: real
  winsor_low :: real
  winsor_high :: real
  median_bands :: MedianBands

definition DEFAULT_BRS_CONFIG :: BrsConfig where
  "DEFAULT_BRS_CONFIG =
     \<lparr>min_peers = 15,
      gm_stdev_threshold = 0.02,
      low_history_gm_multiplier = 0.5,
      winsor_low = 0.05,
      winsor_high = 0.95,
      median_bands = \<lparr>cheap = 0.7, mid = 1.0, rich = 1.3\<rparr>\<rparr>"

text \<open>\<open>Partial<BrsConfig>\<close>: every key may be absent. The spread
  \<open>{...DEFAULT_BRS_CONFIG, ...(inputs.config ?? {})}\<close> replaces the keys that are present.\<close>

record PartialBrsConfig =
  min_peers_opt :: "real option"
  gm_stdev_threshold_opt :: "real option"
  low_history_gm_multiplier_opt :: "real option"
  winsor_low_opt :: "real option"
  winsor_high_opt :: "real option"
  median_bands_opt :: "MedianBands option"

definition orDefault :: "'a \<Rightarrow> 'a option \<Rightarrow> 'a" where
  "orDefault d v = (case v of None \<Rightarrow> d | Some x \<Rightarrow> x)"

definition mergeBrsConfig :: "PartialBrsConfig option \<Rightarrow> BrsConfig" where
  "mergeBrsConfig c =
     (case c of
        None \<Rightarrow> DEFAULT_BRS_CONFIG
      | Some p \<Rightarrow>
          \<lparr>min_peers = orDefault (min_peers DEFAULT_BRS_CONFIG) (min_peers_opt p),
           gm_stdev_threshold =
             orDefault (gm_stdev_threshold DEFAULT_BRS_CONFIG) (gm_stdev_threshold_opt p),
           low_history_gm_multiplier =
             orDefault (low_history_gm_multiplier DEFAULT_BRS_CONFIG)
               (low_history_gm_multiplier_opt p),
           winsor_low = orDefault (winsor_low DEFAULT_BRS_CONFIG) (winsor_low_opt p),
           winsor_high = orDefault (winsor_high DEFAULT_BRS_CONFIG) (winsor_high_opt p),
           median_bands = orDefault (median_bands DEFAULT_BRS_CONFIG) (median_bands_opt p)\<rparr>)"

record BrsInputs =
  ticker :: string
  company_facts :: "CompanyFacts list"
  income_statements :: "IncomeStatement list"
  balance_sheets :: "BalanceSheet list"
  cash_flow_statements :: "CashFlowStatement list"
  metrics_history :: "MetricsPoint list"
  universe_metrics :: "UniverseMetric list"
  config :: "PartialBrsConfig option"

record BrsScores =
  valuation_sanity :: real
  cash_truth_quality :: real
  capital_efficiency :: real
  balance_sheet_risk :: real
  durability_alignment :: real
  total :: real

record BrsSubscores =
  ev_to_ebitda :: real
  fcf_yield :: real
  cash_conversion :: real
  fcf_conversion :: real
  roic_vs_wacc :: real
  incremental_roic :: real
  net_debt_to_ebitda :: real
  interest_coverage :: real
  gross_margin_stability :: real
  shareholder_yield :: real
  sbc_to_fcf :: real

text \<open>\<open>asof_date\<close> is the date itself (its \<open>getTime()\<close>), not the ISO string the
  source prints from it.\<close>

record BrsResult =
  ticker :: string
  asof_date :: "real option"
  scores :: BrsScores
  subscores :: BrsSubscores
  warnings :: "string list"

section \<open>The BRS engine\<close>

text \<open>A field read \<open>r.f\<close> of an optional number, and \<open>r.f ?? null\<close>.\<close>

definition field :: "real option \<Rightarrow> jsval" where
  "field v = (case v of None \<Rightarrow> JUndefined | Some x \<Rightarrow> JNum x)"

definition fieldOrNull :: "real option \<Rightarrow> jsval" where
  "fieldOrNull v = (case v of None \<Rightarrow> JNull | Some x \<Rightarrow> JNum x)"

text \<open>The elements of \<open>new Set(xs)\<close> in iteration order: first occurrences.\<close>

definition newSet :: "string list \<Rightarrow> string list" where
  "newSet xs = foldl (\<lambda>acc x. if x \<in> set acc then acc else acc @ [x]) [] xs"

definition latestReportDate :: "dateParser \<Rightarrow> 'a DatedValue_scheme list \<Rightarrow> real option" where
  "latestReportDate newDate rows =
     (let sorted = sortByReportPeriod newDate rows
      in if sorted = [] then None
         else parseReportDate newDate (report_period (last sorted)))"

text \<open>\<open>a || b\<close> on dates: a date object is truthy, \<open>null\<close> is not.\<close>

definition orElse :: "'a option \<Rightarrow> 'a option \<Rightarrow> 'a option" where
  "orElse a b = (case a of None \<Rightarrow> b | Some x \<Rightarrow> Some x)"

text \<open>
  \<open>resolveAsofDate\<close> returns the date and the warnings it pushes. When some report
  period is common to the three statements but none of the common ones parses, the
  source reads \<open>.date\<close> of \<open>sorted[-1]\<close>, which is \<open>undefined\<close>: a TypeError.
\<close>

definition parsedCandidates :: "dateParser \<Rightarrow> string list \<Rightarrow> (string \<times> real) list" where
  "parsedCandidates newDate candidates =
     arraySort (\<lambda>a b. snd a - snd b)
       (List.map_filter (\<lambda>d. map_option (Pair d) (parseReportDate newDate d)) candidates)"

definition resolveAsofDate ::
  "dateParser \<Rightarrow> IncomeStatement list \<Rightarrow> BalanceSheet list \<Rightarrow> CashFlowStatement list
     \<Rightarrow> error + (real option \<times> string list)" where
  "resolveAsofDate newDate income balance cashflow =
     (let incomeDates = newSet (map report_period income);
          balanceDates = newSet (map report_period balance);
          cashDates = newSet (map report_period cashflow);
          candidates = filter (\<lambda>d. d \<in> set balanceDates \<and> d \<in> set cashDates) incomeDates
      in if length candidates > 0
         then (let sorted = parsedCandidates newDate candidates
               in if sorted = [] then Inl TypeError
                  else Inr (Some (snd (last sorted)), []))
         else Inr (orElse (latestReportDate newDate income)
                     (orElse (latestReportDate newDate balance)
                        (latestReportDate newDate cashflow)),
                   [''asof_misalignment'']))"

definition lastNRows ::
  "dateParser \<Rightarrow> 'a DatedValue_scheme list \<Rightarrow> real \<Rightarrow> nat \<Rightarrow> 'a DatedValue_scheme list" where
  "lastNRows newDate rows asofDate n =
     (let sorted = sortByReportPeriod newDate rows;
          filtered = filter (\<lambda>row. case parseReportDate newDate (report_period row) of
                                      None \<Rightarrow> False
                                    | Some date \<Rightarrow> date \<le> asofDate) sorted
      in sliceFrom (- int n) filtered)"

definition sumTtm ::
  "dateParser \<Rightarrow> 'a DatedValue_scheme list \<Rightarrow> real \<Rightarrow> ('a DatedValue_scheme \<Rightarrow> jsval)
     \<Rightarrow> real option" where
  "sumTtm newDate rows asofDate getValue =
     (let slice = lastNRows newDate rows asofDate 4
      in if length slice < 4 then None else sum_values (map getValue slice))"

definition scoreEvToEbitdaPercentile :: "real option \<Rightarrow> real \<times> string list" where
  "scoreEvToEbitdaPercentile percentileRankValue =
     (case percentileRankValue of
        None \<Rightarrow> (0, [''missing_peer_ev_to_ebitda''])
      | Some r \<Rightarrow>
          (if r \<le> 0.3 then 15 else if r \<le> 0.6 then 10 else if r \<le> 0.8 then 5 else 0, []))"

definition scoreEvToEbitdaMedian ::
  "real option \<Rightarrow> real option \<Rightarrow> MedianBands \<Rightarrow> real \<times> string list" where
  "scoreEvToEbitdaMedian v medianValue medianBands =
     (if v = None \<or> medianValue = None \<or> medianValue = Some 0
      then (0, [''missing_peer_ev_to_ebitda''])
      else
        let ratio = the v / the medianValue
        in (if ratio \<le> cheap medianBands then 15
            else if ratio \<le> mid medianBands then 10
            else if ratio \<le> rich medianBands then 5
            else 0, []))"

definition winsorize :: "real list \<Rightarrow> real \<Rightarrow> real \<Rightarrow> jsval list" where
  "winsorize values pLow pHigh =
     (let low = percentile values pLow;
          high = percentile values pHigh
      in if low = JNull \<or> high = JNull then map JNum values
         else map (\<lambda>v. mathMin high (mathMax low (JNum v))) values)"

definition scoreFcfYield :: "real option \<Rightarrow> real" where
  "scoreFcfYield v =
     (case v of
        None \<Rightarrow> 0
      | Some x \<Rightarrow> if x > 0.10 then 10 else if x \<ge> 0.06 then 7 else if x \<ge> 0.03 then 4 else 0)"

definition scoreCashConversion :: "real option \<Rightarrow> real" where
  "scoreCashConversion v =
     (case v of
        None \<Rightarrow> 0
      | Some x \<Rightarrow> if x > 0.90 then 10 else if x \<ge> 0.70 then 7 else if x \<ge> 0.50 then 3 else 0)"

definition scoreFcfConversion :: "real option \<Rightarrow> real" where
  "scoreFcfConversion v =
     (case v of
        None \<Rightarrow> 0
      | Some x \<Rightarrow> if x > 0.60 then 10 else if x \<ge> 0.40 then 6 else if x \<ge> 0.20 then 3 else 0)"

definition normalizeRoicSeries :: "dateParser \<Rightarrow> TtmPoint list \<Rightarrow> real list" where
  "normalizeRoicSeries newDate series =
     (let sorted = sortByReportPeriod newDate series
      in map value (sliceFrom (- 8) sorted))"

text \<open>The year-over-year loop shared by \<open>growthFromSeries\<close> (BRS) and
  \<open>computeYoYGrowth\<close> (MDS): index \<open>i\<close> against \<open>i - 4\<close>, skipping a zero base.\<close>

definition yoyGrowths :: "dateParser \<Rightarrow> TtmPoint list \<Rightarrow> real list" where
  "yoyGrowths newDate series =
     (let sorted = sortByReportPeriod newDate series
      in List.map_filter
           (\<lambda>i. let current = value (sorted ! i);
                     prev = value (sorted ! (i - 4))
                 in if prev = 0 then None else Some (current / prev - 1))
           [4..<length sorted])"

definition growthFromSeries :: "dateParser \<Rightarrow> TtmPoint list \<Rightarrow> real option" where
  "growthFromSeries newDate series = median (yoyGrowths newDate series)"

definition scoreIncrementalRoic ::
  "dateParser \<Rightarrow> TtmPoint list option \<Rightarrow> TtmPoint list option \<Rightarrow> real \<times> string list" where
  "scoreIncrementalRoic newDate roicSeries ebitdaSeries =
     (let growth0 = (case roicSeries of None \<Rightarrow> None | Some s \<Rightarrow> growthFromSeries newDate s);
          proxy = (growth0 = None \<and> ebitdaSeries \<noteq> None);
          growth = (if proxy then growthFromSeries newDate (the ebitdaSeries) else growth0);
          w1 = (if proxy \<and> growth \<noteq> None then [''incremental_roic_proxy_ebitda''] else [])
      in case growth of
           None \<Rightarrow> (0, w1 @ [''missing_incremental_roic''])
         | Some g \<Rightarrow> (if g > 0.15 then 10 else if g \<ge> 0.08 then 6 else 0, w1))"

definition scoreGrossMarginStability :: "real list \<Rightarrow> BrsConfig \<Rightarrow> real \<times> string list" where
  "scoreGrossMarginStability gmSeries cfg =
     (if length gmSeries < 4 then (0, [''missing_gross_margin_history''])
      else
        let seriesToUse = sliceFrom (- 8) gmSeries;
            gmSlope = slope seriesToUse;
            gmStdev = stdev seriesToUse
        in if gmSlope = None \<or> gmStdev = None then (0, [''missing_gross_margin_history''])
           else
             let isStable = (the gmSlope \<ge> 0 \<and> the gmStdev \<le> gm_stdev_threshold cfg);
                 score = (if isStable then 5 else 0)
             in if length gmSeries < 8
                then (mathRound (score * low_history_gm_multiplier cfg),
                      [''low_gross_margin_history''])
                else (score, []))"

definition buildGmSeries :: "dateParser \<Rightarrow> IncomeStatement list \<Rightarrow> real list" where
  "buildGmSeries newDate income =
     (let sorted = sortByReportPeriod newDate income
      in List.map_filter
           (\<lambda>row. if \<not> truthy (revenue row) \<or> \<not> truthy (gross_profit row) then None
                   else Some (the (gross_profit row) / the (revenue row)))
           sorted)"

text \<open>\<open>toUpperCase\<close> on the ASCII letters.\<close>

definition toUpperCase :: "string \<Rightarrow> string" where
  "toUpperCase s =
     map (\<lambda>c. let n = (of_char c :: nat)
               in if 97 \<le> n \<and> n \<le> 122 then char_of (n - 32) else c) s"

definition resolveCompanyFacts :: "string \<Rightarrow> CompanyFacts list \<Rightarrow> CompanyFacts option" where
  "resolveCompanyFacts tk facts =
     find (\<lambda>f. toUpperCase (CompanyFacts.ticker f) = toUpperCase tk) facts"

datatype PeerLevel = Industry | Sector | Universe | Median

definition resolvePeerSet ::
  "string \<Rightarrow> CompanyFacts list \<Rightarrow> UniverseMetric list \<Rightarrow> real
     \<Rightarrow> UniverseMetric list \<times> PeerLevel" where
  "resolvePeerSet tk facts universe minPeers =
     (let company = resolveCompanyFacts tk facts;
          ind = Option.bind company industry;
          sec = Option.bind company sector;
          byIndustry = (if truthyStr ind then filter (\<lambda>u. industry u = ind) universe else [])
      in if real (length byIndustry) \<ge> minPeers then (byIndustry, Industry)
         else
           let bySector = (if truthyStr sec then filter (\<lambda>u. sector u = sec) universe else [])
           in if real (length bySector) \<ge> minPeers then (bySector, Sector)
              else if real (length universe) \<ge> minPeers then (universe, Universe)
              else (if length bySector > 0 then bySector else universe, Median))"

definition medianRoicFromPeers ::
  "dateParser \<Rightarrow> UniverseMetric list \<Rightarrow> real option \<times> string list" where
  "medianRoicFromPeers newDate peers =
     (let peerMedians =
            List.map_filter
              (\<lambda>peer. case roic_series peer of
                         None \<Rightarrow> None
                       | Some rs \<Rightarrow>
                           if length rs = 0 then None
                           else median (normalizeRoicSeries newDate rs))
              peers;
          med = median peerMedians
      in (med, if med = None then [''missing_wacc_proxy''] else []))"

text \<open>
  \<open>computeBrs\<close> is one long function; each of its local constants is a definition of
  the same name here, a function of the date parser, the inputs and the as-of date that
  \<open>resolveAsofDate\<close> returned. The constants the source computes and never reads
  (\<open>revenueTtm\<close>, \<open>grossProfitTtm\<close>, \<open>capexTtm\<close>) are left out, and so is the log line.
\<close>

definition brsConfig :: "BrsInputs \<Rightarrow> BrsConfig" where
  "brsConfig inputs = mergeBrsConfig (config inputs)"

definition metricsAsOf :: "dateParser \<Rightarrow> BrsInputs \<Rightarrow> real option \<Rightarrow> MetricsPoint option" where
  "metricsAsOf newDate inputs asofDate =
     (case asofDate of
        None \<Rightarrow> None
      | Some d \<Rightarrow> nearestByDate newDate (metrics_history inputs) d 5)"

definition ttmAsOf ::
  "dateParser \<Rightarrow> 'a DatedValue_scheme list \<Rightarrow> real option \<Rightarrow> ('a DatedValue_scheme \<Rightarrow> jsval)
     \<Rightarrow> real option" where
  "ttmAsOf newDate rows asofDate getValue =
     (case asofDate of None \<Rightarrow> None | Some d \<Rightarrow> sumTtm newDate rows d getValue)"

definition ebitTtm :: "dateParser \<Rightarrow> BrsInputs \<Rightarrow> real option \<Rightarrow> real option" where
  "ebitTtm newDate inputs asofDate =
     ttmAsOf newDate (income_statements inputs) asofDate (\<lambda>r. field (ebit r))"

definition interestExpenseTtm :: "dateParser \<Rightarrow> BrsInputs \<Rightarrow> real option \<Rightarrow> real option" where
  "interestExpenseTtm newDate inputs asofDate =
     ttmAsOf newDate (income_statements inputs) asofDate (\<lambda>r. field (interest_expense r))"

definition dAndATtm :: "dateParser \<Rightarrow> BrsInputs \<Rightarrow> real option \<Rightarrow> real option" where
  "dAndATtm newDate inputs asofDate =
     ttmAsOf newDate (cash_flow_statements inputs) asofDate
       (\<lambda>r. field (depreciation_and_amortization r))"

definition ocfTtm :: "dateParser \<Rightarrow> BrsInputs \<Rightarrow> real option \<Rightarrow> real option" where
  "ocfTtm newDate inputs asofDate =
     ttmAsOf newDate (cash_flow_statements inputs) asofDate
       (\<lambda>r. field (net_cash_flow_from_operations r))"

definition fcfTtm :: "dateParser \<Rightarrow> BrsInputs \<Rightarrow> real option \<Rightarrow> real option" where
  "fcfTtm newDate inputs asofDate =
     ttmAsOf newDate (cash_flow_statements inputs) asofDate (\<lambda>r. field (free_cash_flow r))"

definition dividendsTtm :: "dateParser \<Rightarrow> BrsInputs \<Rightarrow> real option \<Rightarrow> real option" where
  "dividendsTtm newDate inputs asofDate =
     ttmAsOf newDate (cash_flow_statements inputs) asofDate
       (\<lambda>r. field (dividends_and_other_cash_distributions r))"

definition buybacksTtm :: "dateParser \<Rightarrow> BrsInputs \<Rightarrow> real option \<Rightarrow> real option" where
  "buybacksTtm newDate inputs asofDate =
     ttmAsOf newDate (cash_flow_statements inputs) asofDate
       (\<lambda>r. field (issuance_or_purchase_of_equity_shares r))"

definition sbcTtm :: "dateParser \<Rightarrow> BrsInputs \<Rightarrow> real option \<Rightarrow> real option" where
  "sbcTtm newDate inputs asofDate =
     ttmAsOf newDate (cash_flow_statements inputs) asofDate
       (\<lambda>r. field (share_based_compensation r))"

definition ebitdaTtm :: "dateParser \<Rightarrow> BrsInputs \<Rightarrow> real option \<Rightarrow> real option" where
  "ebitdaTtm newDate inputs asofDate =
     (case ebitTtm newDate inputs asofDate of
        None \<Rightarrow> None
      | Some e \<Rightarrow>
          (case dAndATtm newDate inputs asofDate of
             None \<Rightarrow> None
           | Some d \<Rightarrow> Some (e + d)))"

definition balanceAsOf :: "dateParser \<Rightarrow> BrsInputs \<Rightarrow> real option \<Rightarrow> BalanceSheet option" where
  "balanceAsOf newDate inputs asofDate =
     (case asofDate of
        None \<Rightarrow> None
      | Some d \<Rightarrow> nearestByDate newDate (balance_sheets inputs) d 5)"

definition netDebt :: "dateParser \<Rightarrow> BrsInputs \<Rightarrow> real option \<Rightarrow> real option" where
  "netDebt newDate inputs asofDate =
     (case balanceAsOf newDate inputs asofDate of
        None \<Rightarrow> None
      | Some b \<Rightarrow>
          if total_debt b \<noteq> None \<and> cash_and_equivalents b \<noteq> None
          then Some (the (total_debt b) - the (cash_and_equivalents b))
          else None)"

definition marketCap :: "dateParser \<Rightarrow> BrsInputs \<Rightarrow> real option \<Rightarrow> real option" where
  "marketCap newDate inputs asofDate =
     Option.bind (metricsAsOf newDate inputs asofDate) market_cap"

definition evToEbitda :: "dateParser \<Rightarrow> BrsInputs \<Rightarrow> real option \<Rightarrow> real option" where
  "evToEbitda newDate inputs asofDate =
     (let m = metricsAsOf newDate inputs asofDate
      in orElse (Option.bind m enterprise_value_to_ebitda_ratio)
           (if truthy (Option.bind m enterprise_value) \<and> truthy (ebitdaTtm newDate inputs asofDate)
            then Some (the (Option.bind m enterprise_value) / the (ebitdaTtm newDate inputs asofDate))
            else None))"

definition fcfYield :: "dateParser \<Rightarrow> BrsInputs \<Rightarrow> real option \<Rightarrow> real option" where
  "fcfYield newDate inputs asofDate =
     (let m = metricsAsOf newDate inputs asofDate
      in orElse (Option.bind m free_cash_flow_yield)
           (if truthy (fcfTtm newDate inputs asofDate) \<and> truthy (marketCap newDate inputs asofDate)
            then Some (the (fcfTtm newDate inputs asofDate) / the (marketCap newDate inputs asofDate))
            else None))"

definition cashConversion :: "dateParser \<Rightarrow> BrsInputs \<Rightarrow> real option \<Rightarrow> real option" where
  "cashConversion newDate inputs asofDate =
     (if truthy (ocfTtm newDate inputs asofDate) \<and> truthy (ebitdaTtm newDate inputs asofDate)
      then Some (the (ocfTtm newDate inputs asofDate) / the (ebitdaTtm newDate inputs asofDate))
      else None)"

definition fcfConversion :: "dateParser \<Rightarrow> BrsInputs \<Rightarrow> real option \<Rightarrow> real option" where
  "fcfConversion newDate inputs asofDate =
     (if truthy (fcfTtm newDate inputs asofDate) \<and> truthy (ebitdaTtm newDate inputs asofDate)
      then Some (the (fcfTtm newDate inputs asofDate) / the (ebitdaTtm newDate inputs asofDate))
      else None)"

definition roic :: "dateParser \<Rightarrow> BrsInputs \<Rightarrow> real option \<Rightarrow> real option" where
  "roic newDate inputs asofDate =
     Option.bind (metricsAsOf newDate inputs asofDate) return_on_invested_capital"

definition roicSeries :: "dateParser \<Rightarrow> BrsInputs \<Rightarrow> TtmPoint list" where
  "roicSeries newDate inputs =
     rollingTtmSeries newDate (metrics_history inputs)
       (\<lambda>r. fieldOrNull (return_on_invested_capital r))"

definition peerInfo :: "BrsInputs \<Rightarrow> UniverseMetric list \<times> PeerLevel" where
  "peerInfo inputs =
     resolvePeerSet (BrsInputs.ticker inputs) (company_facts inputs) (universe_metrics inputs)
       (min_peers (brsConfig inputs))"

definition peerValues :: "BrsInputs \<Rightarrow> real list" where
  "peerValues inputs = List.map_filter UniverseMetric.ev_to_ebitda (fst (peerInfo inputs))"

definition winsorizedPeers :: "BrsInputs \<Rightarrow> jsval list" where
  "winsorizedPeers inputs =
     winsorize (peerValues inputs) (winsor_low (brsConfig inputs)) (winsor_high (brsConfig inputs))"

text \<open>\<open>Math.min(...xs)\<close> and \<open>Math.max(...xs)\<close>; the source only calls them on a
  non-empty array.\<close>

definition mathMinOf :: "jsval list \<Rightarrow> jsval" where
  "mathMinOf xs = foldl mathMin (hd xs) (tl xs)"

definition mathMaxOf :: "jsval list \<Rightarrow> jsval" where
  "mathMaxOf xs = foldl mathMax (hd xs) (tl xs)"

definition evPercentile :: "dateParser \<Rightarrow> BrsInputs \<Rightarrow> real option \<Rightarrow> real option" where
  "evPercentile newDate inputs asofDate =
     (let w = winsorizedPeers inputs
      in case evToEbitda newDate inputs asofDate of
           None \<Rightarrow> None
         | Some ev \<Rightarrow>
             if length w > 0
             then percentileRank w (clampJs (JNum ev) (mathMinOf w) (mathMaxOf w))
             else None)"

definition evScore :: "dateParser \<Rightarrow> BrsInputs \<Rightarrow> real option \<Rightarrow> real \<times> string list" where
  "evScore newDate inputs asofDate =
     (if snd (peerInfo inputs) = Median
      then (let r = scoreEvToEbitdaMedian (evToEbitda newDate inputs asofDate)
                      (median (peerValues inputs)) (median_bands (brsConfig inputs))
            in (fst r, ''peer_set_too_small'' # snd r))
      else scoreEvToEbitdaPercentile (evPercentile newDate inputs asofDate))"

definition waccProxy :: "dateParser \<Rightarrow> BrsInputs \<Rightarrow> real option \<times> string list" where
  "waccProxy newDate inputs =
     medianRoicFromPeers newDate
       (if snd (peerInfo inputs) = Sector \<or> snd (peerInfo inputs) = Industry
        then fst (peerInfo inputs)
        else universe_metrics inputs)"

definition roicVsWaccScore :: "dateParser \<Rightarrow> BrsInputs \<Rightarrow> real option \<Rightarrow> real" where
  "roicVsWaccScore newDate inputs asofDate =
     (case roic newDate inputs asofDate of
        None \<Rightarrow> 0
      | Some r \<Rightarrow>
          (case fst (waccProxy newDate inputs) of
             None \<Rightarrow> 0
           | Some w \<Rightarrow> if r \<ge> w + 0.05 then 15 else if r \<ge> w then 10 else 0))"

text \<open>The join of the EBIT and D&A rolls on \<open>report_period\<close>, as \<open>computeBrs\<close> writes it
  inline and the MDS engine in \<open>buildEbitdaSeries\<close>.\<close>

definition buildEbitdaSeries ::
  "dateParser \<Rightarrow> IncomeStatement list \<Rightarrow> CashFlowStatement list \<Rightarrow> TtmPoint list" where
  "buildEbitdaSeries newDate income cashflow =
     (let ebitTtmSeries = rollingTtmSeries newDate income (\<lambda>r. fieldOrNull (ebit r));
          dAndATtmSeries =
            rollingTtmSeries newDate cashflow
              (\<lambda>r. fieldOrNull (depreciation_and_amortization r))
      in List.map_filter
           (\<lambda>row. case find (\<lambda>item. report_period item = report_period row) dAndATtmSeries of
                     None \<Rightarrow> None
                   | Some item \<Rightarrow>
                       Some \<lparr>report_period = report_period row, value = value row + value item\<rparr>)
           ebitTtmSeries)"

definition incrementalRoicScore :: "dateParser \<Rightarrow> BrsInputs \<Rightarrow> real \<times> string list" where
  "incrementalRoicScore newDate inputs =
     (let rs = roicSeries newDate inputs;
          es = buildEbitdaSeries newDate (income_statements inputs) (cash_flow_statements inputs)
      in scoreIncrementalRoic newDate
           (if length rs > 0 then Some rs else None)
           (if length es > 0 then Some es else None))"

definition netDebtToEbitda :: "dateParser \<Rightarrow> BrsInputs \<Rightarrow> real option \<Rightarrow> real option" where
  "netDebtToEbitda newDate inputs asofDate =
     (if netDebt newDate inputs asofDate \<noteq> None \<and> truthy (ebitdaTtm newDate inputs asofDate)
      then Some (the (netDebt newDate inputs asofDate) / the (ebitdaTtm newDate inputs asofDate))
      else None)"

definition netDebtScore :: "dateParser \<Rightarrow> BrsInputs \<Rightarrow> real option \<Rightarrow> real" where
  "netDebtScore newDate inputs asofDate =
     (case netDebtToEbitda newDate inputs asofDate of
        None \<Rightarrow> 0
      | Some x \<Rightarrow> if x < 2 then 10 else if x \<le> 4 then 5 else 0)"

definition interestCoverage :: "dateParser \<Rightarrow> BrsInputs \<Rightarrow> real option \<Rightarrow> real option" where
  "interestCoverage newDate inputs asofDate =
     (let m = metricsAsOf newDate inputs asofDate
      in orElse (Option.bind m MetricsPoint.interest_coverage)
           (if truthy (ebitTtm newDate inputs asofDate)
               \<and> truthy (interestExpenseTtm newDate inputs asofDate)
            then Some (the (ebitTtm newDate inputs asofDate)
                       / the (interestExpenseTtm newDate inputs asofDate))
            else None))"

definition interestCoverageScore :: "dateParser \<Rightarrow> BrsInputs \<Rightarrow> real option \<Rightarrow> real" where
  "interestCoverageScore newDate inputs asofDate =
     (case interestCoverage newDate inputs asofDate of
        None \<Rightarrow> 0
      | Some x \<Rightarrow> if x > 8 then 5 else if x \<ge> 4 then 3 else 0)"

definition grossMarginScore :: "dateParser \<Rightarrow> BrsInputs \<Rightarrow> real \<times> string list" where
  "grossMarginScore newDate inputs =
     scoreGrossMarginStability (buildGmSeries newDate (income_statements inputs))
       (brsConfig inputs)"

definition shareholderYieldScore ::
  "dateParser \<Rightarrow> BrsInputs \<Rightarrow> real option \<Rightarrow> real \<times> string list" where
  "shareholderYieldScore newDate inputs asofDate =
     (if dividendsTtm newDate inputs asofDate \<noteq> None
         \<and> buybacksTtm newDate inputs asofDate \<noteq> None
         \<and> truthy (marketCap newDate inputs asofDate)
      then
        let netBuybacks = - the (buybacksTtm newDate inputs asofDate);
            shareholderYield =
              (the (dividendsTtm newDate inputs asofDate) + netBuybacks)
              / the (marketCap newDate inputs asofDate)
        in (if shareholderYield > 0.05 then 5 else if shareholderYield \<ge> 0.02 then 3 else 0, [])
      else (0, [''missing_shareholder_yield'']))"

definition sbcToFcfScore :: "dateParser \<Rightarrow> BrsInputs \<Rightarrow> real option \<Rightarrow> real \<times> string list" where
  "sbcToFcfScore newDate inputs asofDate =
     (if sbcTtm newDate inputs asofDate \<noteq> None
         \<and> truthy (fcfTtm newDate inputs asofDate)
         \<and> fcfTtm newDate inputs asofDate \<noteq> Some 0
      then
        let sbcRatio = the (sbcTtm newDate inputs asofDate) / the (fcfTtm newDate inputs asofDate)
        in (if sbcRatio < 0.10 then 5 else if sbcRatio \<le> 0.25 then 3 else 0, [])
      else (0, [''missing_sbc_or_fcf'']))"

text \<open>The warnings in the order the source pushes them, after those of
  \<open>resolveAsofDate\<close>.\<close>

definition warnIf :: "bool \<Rightarrow> string \<Rightarrow> string list" where
  "warnIf b w = (if b then [w] else [])"

definition brsWarnings :: "dateParser \<Rightarrow> BrsInputs \<Rightarrow> real option \<Rightarrow> string list" where
  "brsWarnings newDate inputs asofDate =
     warnIf (asofDate = None) ''missing_asof_date''
     @ warnIf (marketCap newDate inputs asofDate = None) ''missing_market_cap''
     @ warnIf (fcfYield newDate inputs asofDate = None) ''missing_fcf_yield''
     @ warnIf (cashConversion newDate inputs asofDate = None) ''missing_cash_conversion''
     @ warnIf (fcfConversion newDate inputs asofDate = None) ''missing_fcf_conversion''
     @ warnIf (roic newDate inputs asofDate = None) ''missing_roic''
     @ snd (evScore newDate inputs asofDate)
     @ snd (waccProxy newDate inputs)
     @ snd (incrementalRoicScore newDate inputs)
     @ warnIf (netDebtToEbitda newDate inputs asofDate = None) ''missing_net_debt''
     @ warnIf (interestCoverage newDate inputs asofDate = None) ''missing_interest_coverage''
     @ snd (grossMarginScore newDate inputs)
     @ snd (shareholderYieldScore newDate inputs asofDate)
     @ snd (sbcToFcfScore newDate inputs asofDate)"

definition brsSubscores :: "dateParser \<Rightarrow> BrsInputs \<Rightarrow> real option \<Rightarrow> BrsSubscores" where
  "brsSubscores newDate inputs asofDate =
     \<lparr>ev_to_ebitda = fst (evScore newDate inputs asofDate),
      fcf_yield = scoreFcfYield (fcfYield newDate inputs asofDate),
      cash_conversion = scoreCashConversion (cashConversion newDate inputs asofDate),
      fcf_conversion = scoreFcfConversion (fcfConversion newDate inputs asofDate),
      roic_vs_wacc = roicVsWaccScore newDate inputs asofDate,
      incremental_roic = fst (incrementalRoicScore newDate inputs),
      net_debt_to_ebitda = netDebtScore newDate inputs asofDate,
      interest_coverage = interestCoverageScore newDate inputs asofDate,
      gross_margin_stability = fst (grossMarginScore newDate inputs),
      shareholder_yield = fst (shareholderYieldScore newDate inputs asofDate),
      sbc_to_fcf = fst (sbcToFcfScore newDate inputs asofDate)\<rparr>"

definition brsScores :: "BrsSubscores \<Rightarrow> BrsScores" where
  "brsScores s =
     (let valuationSanity = ev_to_ebitda s + fcf_yield s;
          cashTruthQuality = cash_conversion s + fcf_conversion s;
          capitalEfficiency = roic_vs_wacc s + incremental_roic s;
          balanceSheetRisk = net_debt_to_ebitda s + interest_coverage s;
          durabilityAlignment = gross_margin_stability s + shareholder_yield s + sbc_to_fcf s
      in \<lparr>valuation_sanity = valuationSanity,
          cash_truth_quality = cashTruthQuality,
          capital_efficiency = capitalEfficiency,
          balance_sheet_risk = balanceSheetRisk,
          durability_alignment = durabilityAlignment,
          total = valuationSanity + cashTruthQuality + capitalEfficiency + balanceSheetRisk
                  + durabilityAlignment\<rparr>)"

definition computeBrs :: "dateParser \<Rightarrow> BrsInputs \<Rightarrow> error + BrsResult" where
  "computeBrs newDate inputs =
     (case resolveAsofDate newDate (income_statements inputs) (balance_sheets inputs)
             (cash_flow_statements inputs) of
        Inl e \<Rightarrow> Inl e
      | Inr (asofDate, w0) \<Rightarrow>
          Inr \<lparr>ticker = BrsInputs.ticker inputs,
               asof_date = asofDate,
               scores = brsScores (brsSubscores newDate inputs asofDate),
               subscores = brsSubscores newDate inputs asofDate,
               warnings = w0 @ brsWarnings newDate inputs asofDate\<rparr>)"

section \<open>The narrative shock classifier\<close>

text \<open>
  Strings are sequences of code units below 256. The optional fields of a document that
  the classifier never reads (\<open>form_type\<close>, \<open>filing_item\<close>, \<open>url\<close>, \<open>id\<close>) are left
  out. \<open>NarrativeDoc\<close> and \<open>ProcessedDoc\<close> share \<open>source_type\<close> and \<open>published_at\<close>,
  written once in \<open>SourcedDoc\<close>.
\<close>

datatype SourceType = SEC_FILING | EARNINGS_RELEASE | PRESS_RELEASE | NEWS

record SourcedDoc =
  source_type :: SourceType
  published_at :: string

record NarrativeDoc = SourcedDoc +
  title :: string
  body :: string

record NarrativeShockParams =
  window_days :: real
  recency_half_life_days :: real
  source_weights :: "SourceType \<Rightarrow> real option"
  max_points_per_event_class :: "real option"
  require_confirmation_for_accounting :: bool
  structural_threshold :: real
  primary_min_threshold :: real
  macro_threshold :: real

record PartialNarrativeParams =
  window_days_opt :: "real option"
  recency_half_life_days_opt :: "real option"
  source_weights_opt :: "(SourceType \<Rightarrow> real option) option"
  max_points_per_event_class_opt :: "real option"
  require_confirmation_for_accounting_opt :: "bool option"
  structural_threshold_opt :: "real option"
  primary_min_threshold_opt :: "real option"
  macro_threshold_opt :: "real option"

text \<open>The second argument of \<open>classifyNarrativeShock\<close>:
  \<open>Partial<NarrativeShockParams> & { ticker?: string; window_end?: string }\<close>.\<close>

record NarrativeOptions = PartialNarrativeParams +
  ticker_opt :: "string option"
  window_end_opt :: "string option"

datatype ShockType = ONE_OFF | MACRO_ROTATION | STRUCTURAL_RISK | NONE

record TopMatch = SourcedDoc +
  event_class :: string
  pattern :: string
  weight :: real

text \<open>\<open>window_start\<close> and \<open>window_end\<close> are the dates themselves, not the ISO strings
  that \<open>toISOString\<close> prints; \<open>toISOString\<close> raises a RangeError on an Invalid Date.\<close>

record NarrativeShockResult =
  ticker :: "string option"
  window_start :: real
  window_end :: real
  primary_event_class :: string
  shock_type :: ShockType
  severity_0_100 :: real
  structural_risk_0_100 :: real
  mds_narrative_shock_points :: real
  top_matches :: "TopMatch list"
  secondary_event_classes :: "(string \<times> real) list"

datatype Pattern =
  Literal string
| Composite (all_of: "string list") (any_of: "string list option") (label: string)

record TierPoints =
  strong :: real
  weak :: real

record EventClass =
  ident :: string
  priority :: nat
  strong :: "Pattern list"
  weak :: "Pattern list"
  severity :: TierPoints
  structural :: TierPoints
  cap :: real

record ProcessedDoc = SourcedDoc +
  "text" :: string
  weight :: real

record DocMatch =
  doc :: ProcessedDoc
  strongMatches :: "string list"
  weakMatches :: "string list"

definition defaultSourceWeights :: "SourceType \<Rightarrow> real option" where
  "defaultSourceWeights st =
     (case st of
        SEC_FILING \<Rightarrow> Some 1.0
      | EARNINGS_RELEASE \<Rightarrow> Some 0.9
      | PRESS_RELEASE \<Rightarrow> Some 0.7
      | NEWS \<Rightarrow> Some 0.5)"

definition DEFAULT_PARAMS :: NarrativeShockParams where
  "DEFAULT_PARAMS =
     \<lparr>window_days = 30,
      recency_half_life_days = 10,
      source_weights = defaultSourceWeights,
      max_points_per_event_class = None,
      require_confirmation_for_accounting = True,
      structural_threshold = 50,
      primary_min_threshold = 10,
      macro_threshold = 10\<rparr>"

definition mergeParams :: "'a PartialNarrativeParams_scheme \<Rightarrow> NarrativeShockParams" where
  "mergeParams p =
     \<lparr>window_days = orDefault (window_days DEFAULT_PARAMS) (window_days_opt p),
      recency_half_life_days =
        orDefault (recency_half_life_days DEFAULT_PARAMS) (recency_half_life_days_opt p),
      source_weights = orDefault (source_weights DEFAULT_PARAMS) (source_weights_opt p),
      max_points_per_event_class =
        orElse (max_points_per_event_class_opt p) (max_points_per_event_class DEFAULT_PARAMS),
      require_confirmation_for_accounting =
        orDefault (require_confirmation_for_accounting DEFAULT_PARAMS)
          (require_confirmation_for_accounting_opt p),
      structural_threshold =
        orDefault (structural_threshold DEFAULT_PARAMS) (structural_threshold_opt p),
      primary_min_threshold =
        orDefault (primary_min_threshold DEFAULT_PARAMS) (primary_min_threshold_opt p),
      macro_threshold = orDefault (macro_threshold DEFAULT_PARAMS) (macro_threshold_opt p)\<rparr>"

definition tier :: "real \<Rightarrow> real \<Rightarrow> TierPoints" where
  "tier s w = \<lparr>TierPoints.strong = s, TierPoints.weak = w\<rparr>"

definition lits :: "string list \<Rightarrow> Pattern list" where
  "lits ps = map Literal ps"

definition EVENT_CLASSES :: "EventClass list" where
  "EVENT_CLASSES =
    [\<lparr>ident = ''ACCOUNTING_RESTATEMENT'', priority = 1,
      strong = lits [''restate'', ''restatement'',
        ''previously issued financial statements should no longer be relied upon'',
        ''non-reliance'', ''revision of previously issued'', ''error in previously issued''],
      weak = lits [''accounting error'', ''misstatement'', ''reclassification''],
      severity = tier 35 10, structural = tier 35 10, cap = 60\<rparr>,
     \<lparr>ident = ''FRAUD_OR_INTERNAL_CONTROL'', priority = 2,
      strong = lits [''material weakness'', ''internal control over financial reporting'',
        ''icfr'', ''auditor resignation'',
        ''resigned as our independent registered public accounting firm'',
        ''sec investigation'', ''doj investigation''],
      weak = lits [''investigation'', ''whistleblower'', ''irregularities''],
      severity = tier 30 8, structural = tier 30 8, cap = 55\<rparr>,
     \<lparr>ident = ''REGULATORY_OR_GOVERNMENT_ACTION'', priority = 3,
      strong = lits [''consent decree'', ''cease and desist'', ''license suspended'',
        ''license revoked'', ''regulatory settlement'', ''ban'', ''prohibited'', ''fined''],
      weak = lits [''inquiry'', ''notice of violation'', ''regulator''],
      severity = tier 25 6, structural = tier 20 4, cap = 45\<rparr>,
     \<lparr>ident = ''LEGAL_LITIGATION'', priority = 4,
      strong = lits [''class action'', ''lawsuit'', ''litigation'', ''settlement'', ''damages'',
        ''injunction''],
      weak = lits [''legal proceeding'', ''complaint''],
      severity = tier 18 5, structural = tier 10 2, cap = 35\<rparr>,
     \<lparr>ident = ''EXECUTIVE_CHANGE'', priority = 5,
      strong = lits [''ceo resign'', ''cfo resign'', ''chief executive officer resigned'',
        ''terminated'', ''effective immediately'', ''transition agreement''],
      weak = lits [''appointed as'', ''interim ceo''],
      severity = tier 15 4, structural = tier 10 2, cap = 25\<rparr>,
     \<lparr>ident = ''GUIDANCE_SHOCK_OR_EARNINGS_MISS'', priority = 6,
      strong = lits [''withdraw guidance'', ''suspending guidance'', ''lowered guidance'',
        ''reduced outlook'', ''missed expectations'', ''below expectations'',
        ''materially below''],
      weak = lits [''headwinds'', ''soft demand'', ''pricing pressure'', ''margin pressure''],
      severity = tier 18 4, structural = tier 10 2, cap = 35\<rparr>,
     \<lparr>ident = ''PRODUCT_RECALL_OR_SAFETY'', priority = 7,
      strong = lits [''recall'', ''safety issue'', ''product defect'', ''injury'', ''fatality''],
      weak = lits [''quality issue''],
      severity = tier 20 5, structural = tier 15 3, cap = 35\<rparr>,
     \<lparr>ident = ''CYBERSECURITY_INCIDENT'', priority = 8,
      strong = lits [''data breach'', ''ransomware'', ''cyberattack'', ''security incident'',
        ''unauthorized access''],
      weak = lits [''incident response'', ''forensic''],
      severity = tier 18 4, structural = tier 8 2, cap = 30\<rparr>,
     \<lparr>ident = ''CREDIT_LIQUIDITY_DISTRESS'', priority = 9,
      strong = lits [''going concern'', ''covenant breach'', ''default'', ''liquidity shortfall'',
        ''refinancing'', ''debt restructuring'', ''chapter 11''],
      weak = lits [''significant doubt'', ''liquidity'', ''cash burn''],
      severity = tier 30 8, structural = tier 30 8, cap = 55\<rparr>,
     \<lparr>ident = ''MAJOR_CONTRACT_OR_CUSTOMER_LOSS'', priority = 10,
      strong = lits [''terminated agreement'', ''customer churn'', ''lost a major customer'',
        ''non-renewal'', ''largest customer'', ''material customer''],
      weak = lits [''contract renewal'', ''pipeline weakness''],
      severity = tier 20 5, structural = tier 20 5, cap = 40\<rparr>,
     \<lparr>ident = ''M_AND_A_OR_STRATEGIC_REVIEW'', priority = 11,
      strong = lits [''strategic alternatives'', ''strategic review'', ''exploring a sale'',
        ''acquisition'', ''merger''],
      weak = lits [''evaluate options''],
      severity = tier 10 3, structural = tier 0 0, cap = 20\<rparr>,
     \<lparr>ident = ''CAPITAL_STRUCTURE_ACTION'', priority = 12,
      strong = lits [''dividend cut'', ''suspend dividend'', ''buyback suspended'', ''dilution'',
        ''secondary offering'', ''at-the-market offering'', ''atm offering''],
      weak = lits [''issue shares'', ''repurchase''],
      severity = tier 12 3, structural = tier 8 2, cap = 25\<rparr>,
     \<lparr>ident = ''MACRO_ROTATION'', priority = 13,
      strong = lits [''higher for longer'', ''interest rates'', ''inflation'', ''recession'',
        ''soft landing'', ''hard landing'', ''commodity cycle'', ''oil price'',
        ''china slowdown''],
      weak = lits [''macro'', ''sector rotation''],
      severity = tier 8 2, structural = tier 0 0, cap = 15\<rparr>,
     \<lparr>ident = ''STRUCTURAL_MODEL_RISK'', priority = 14,
      strong = lits [''structural decline'', ''secular decline'', ''demand destruction'',
        ''unit economics'']
        @ [Composite [''customer acquisition cost''] (Some [''rising'', ''spiking''])
             ''customer acquisition cost + rising/spiking'',
           Composite [''pricing power''] (Some [''lost'', ''deteriorating''])
             ''pricing power + lost/deteriorating'',
           Composite [''permanent''] (Some [''impairment'', ''headwind''])
             ''permanent + impairment/headwind''],
      weak = lits [''competitive pressure'', ''market share loss'', ''disruption''],
      severity = tier 0 0, structural = tier 35 10, cap = 60\<rparr>]"

definition isSpace :: "char \<Rightarrow> bool" where
  "isSpace c = ((of_char c :: nat) \<in> {9, 10, 11, 12, 13, 32, 160})"

definition toLowerCase :: "string \<Rightarrow> string" where
  "toLowerCase s =
     map (\<lambda>c. let n = (of_char c :: nat)
               in if 65 \<le> n \<and> n \<le> 90 then char_of (n + 32) else c) s"

text \<open>The class \<open>[a-z0-9%$.\-\s]\<close> of the first replacement.\<close>

definition kept :: "char \<Rightarrow> bool" where
  "kept c =
     (let n = (of_char c :: nat)
      in (97 \<le> n \<and> n \<le> 122) \<or> (48 \<le> n \<and> n \<le> 57)
         \<or> c = CHR ''%'' \<or> c = CHR ''$'' \<or> c = CHR ''.'' \<or> c = CHR ''-'' \<or> isSpace c)"

text \<open>\<open>replace(/\s+/g, ' ')\<close>: every maximal run of white space becomes one space.
  The flag says that the previous character was white space.\<close>

fun collapseFrom :: "bool \<Rightarrow> string \<Rightarrow> string" where
  "collapseFrom inRun [] = []"
| "collapseFrom inRun (c # cs) =
     (if isSpace c then (if inRun then collapseFrom True cs else CHR '' '' # collapseFrom True cs)
      else c # collapseFrom False cs)"

definition collapseSpaces :: "string \<Rightarrow> string" where
  "collapseSpaces s = collapseFrom False s"

definition trim :: "string \<Rightarrow> string" where
  "trim s = rev (dropWhile isSpace (rev (dropWhile isSpace s)))"

definition normalizeText :: "string \<Rightarrow> string" where
  "normalizeText input =
     trim (collapseSpaces (map (\<lambda>c. if kept c then c else CHR '' '') (toLowerCase input)))"

fun startsWith :: "string \<Rightarrow> string \<Rightarrow> bool" where
  "startsWith t [] = True"
| "startsWith [] (p # ps) = False"
| "startsWith (c # cs) (p # ps) = (c = p \<and> startsWith cs ps)"

fun stringIncludes :: "string \<Rightarrow> string \<Rightarrow> bool" where
  "stringIncludes [] p = (p = [])"
| "stringIncludes (c # cs) p = (startsWith (c # cs) p \<or> stringIncludes cs p)"

fun matchPattern :: "string \<Rightarrow> Pattern \<Rightarrow> bool" where
  "matchPattern t (Literal p) = stringIncludes t p"
| "matchPattern t (Composite al an lb) =
     (list_all (stringIncludes t) al
      \<and> (case an of None \<Rightarrow> True | Some ps \<Rightarrow> list_ex (stringIncludes t) ps))"

fun patternLabel :: "Pattern \<Rightarrow> string" where
  "patternLabel (Literal p) = p"
| "patternLabel (Composite al an lb) = lb"

definition daysBetween :: "real \<Rightarrow> real \<Rightarrow> real" where
  "daysBetween a b = \<bar>a - b\<bar> / (1000 * 60 * 60 * 24)"

text \<open>\<open>getDocWeight\<close> is called on documents inside the window only, whose
  \<open>published_at\<close> parses; \<open>publishedAt\<close> is that date.\<close>

definition getDocWeight :: "SourceType \<Rightarrow> real \<Rightarrow> NarrativeShockParams \<Rightarrow> real \<Rightarrow> real" where
  "getDocWeight st publishedAt params windowEnd =
     (let sourceWeight = orDefault 0.5 (source_weights params st);
          ageDays = daysBetween windowEnd publishedAt;
          decay = exp (- ln 2 * ageDays / recency_half_life_days params)
      in sourceWeight * decay)"

definition inWindow :: "dateParser \<Rightarrow> real \<Rightarrow> real \<Rightarrow> NarrativeDoc \<Rightarrow> bool" where
  "inWindow newDate windowStart windowEnd d =
     (case newDate (published_at d) of
        None \<Rightarrow> False
      | Some publishedAt \<Rightarrow> publishedAt \<ge> windowStart \<and> publishedAt \<le> windowEnd)"

definition buildProcessedDocs ::
  "dateParser \<Rightarrow> NarrativeDoc list \<Rightarrow> NarrativeShockParams \<Rightarrow> real \<Rightarrow> real
     \<Rightarrow> ProcessedDoc list" where
  "buildProcessedDocs newDate docs params windowStart windowEnd =
     map (\<lambda>d. \<lparr>source_type = source_type d,
                published_at = published_at d,
                text = normalizeText (title d @ [CHR 0x0A] @ body d),
                weight = getDocWeight (source_type d) (the (newDate (published_at d)))
                           params windowEnd\<rparr>)
       (filter (inWindow newDate windowStart windowEnd) docs)"

definition computeClassScore :: "DocMatch list \<Rightarrow> TierPoints \<Rightarrow> real \<Rightarrow> bool \<Rightarrow> real" where
  "computeClassScore matches pts cp downgradeStrong =
     (let raw =
            foldl (\<lambda>raw m.
                     let r1 = (if length (strongMatches m) > 0
                               then raw + weight (doc m)
                                      * (if downgradeStrong then TierPoints.weak pts
                                         else TierPoints.strong pts)
                               else raw)
                     in if length (weakMatches m) > 0
                        then r1 + weight (doc m) * real (length (weakMatches m))
                                  * TierPoints.weak pts
                        else r1)
              0 matches
      in min raw cp)"

definition hasAny :: "string \<Rightarrow> string list \<Rightarrow> bool" where
  "hasAny t patterns = list_ex (stringIncludes t) patterns"

text \<open>The entry of \<open>classMatches\<close> for one event class: the documents that match one of
  its patterns, in document order.\<close>

definition docMatch :: "EventClass \<Rightarrow> ProcessedDoc \<Rightarrow> DocMatch option" where
  "docMatch eventClass d =
     (let sm = map patternLabel (filter (matchPattern (text d)) (strong eventClass));
          wm = map patternLabel (filter (matchPattern (text d)) (weak eventClass))
      in if length sm = 0 \<and> length wm = 0 then None
         else Some \<lparr>doc = d, strongMatches = sm, weakMatches = wm\<rparr>)"

definition classMatches :: "ProcessedDoc list \<Rightarrow> EventClass \<Rightarrow> DocMatch list" where
  "classMatches processedDocs eventClass = List.map_filter (docMatch eventClass) processedDocs"

definition matchesOfId :: "ProcessedDoc list \<Rightarrow> string \<Rightarrow> DocMatch list" where
  "matchesOfId processedDocs cid =
     (case find (\<lambda>c. ident c = cid) EVENT_CLASSES of
        None \<Rightarrow> []
      | Some c \<Rightarrow> classMatches processedDocs c)"

definition topMatchesOf :: "EventClass \<Rightarrow> DocMatch \<Rightarrow> TopMatch list" where
  "topMatchesOf eventClass m =
     map (\<lambda>p. \<lparr>source_type = source_type (doc m),
                published_at = published_at (doc m),
                event_class = ident eventClass,
                pattern = p,
                weight = weight (doc m)\<rparr>)
       (strongMatches m @ weakMatches m)"

definition allMatches :: "ProcessedDoc list \<Rightarrow> TopMatch list" where
  "allMatches processedDocs =
     concat (map (\<lambda>d. concat (map (\<lambda>c. case docMatch c d of
                                           None \<Rightarrow> []
                                         | Some m \<Rightarrow> topMatchesOf c m)
                                 EVENT_CLASSES))
              processedDocs)"

definition accountingConfirmed :: "DocMatch list \<Rightarrow> bool" where
  "accountingConfirmed matches =
     (if length matches = 0 then False
      else
        let strongDocs = filter (\<lambda>m. length (strongMatches m) > 0) matches
        in if length strongDocs = 0 then False
           else if list_ex (\<lambda>m. source_type (doc m) = SEC_FILING) strongDocs then True
           else length (remdups (map (\<lambda>m. source_type (doc m)) strongDocs)) \<ge> 2)"

definition classCap :: "NarrativeShockParams \<Rightarrow> EventClass \<Rightarrow> real" where
  "classCap params eventClass =
     (if truthy (max_points_per_event_class params)
      then min (cap eventClass) (the (max_points_per_event_class params))
      else cap eventClass)"

definition downgradeStrong :: "NarrativeShockParams \<Rightarrow> ProcessedDoc list \<Rightarrow> EventClass \<Rightarrow> bool" where
  "downgradeStrong params processedDocs eventClass =
     (let needsConfirm =
            (require_confirmation_for_accounting params
             \<and> (ident eventClass = ''ACCOUNTING_RESTATEMENT''
                \<or> ident eventClass = ''FRAUD_OR_INTERNAL_CONTROL''));
          confirmed =
            (if needsConfirm then accountingConfirmed (matchesOfId processedDocs (ident eventClass))
             else True)
      in needsConfirm \<and> \<not> confirmed)"

definition classScore :: "NarrativeShockParams \<Rightarrow> ProcessedDoc list \<Rightarrow> EventClass \<Rightarrow> real" where
  "classScore params processedDocs eventClass =
     computeClassScore (classMatches processedDocs eventClass) (severity eventClass)
       (classCap params eventClass) (downgradeStrong params processedDocs eventClass)"

definition structuralScore :: "NarrativeShockParams \<Rightarrow> ProcessedDoc list \<Rightarrow> EventClass \<Rightarrow> real" where
  "structuralScore params processedDocs eventClass =
     computeClassScore (classMatches processedDocs eventClass) (structural eventClass)
       (classCap params eventClass) (downgradeStrong params processedDocs eventClass)"

definition classHasStrong :: "ProcessedDoc list \<Rightarrow> string \<Rightarrow> bool" where
  "classHasStrong processedDocs cid =
     list_ex (\<lambda>m. length (strongMatches m) > 0) (matchesOfId processedDocs cid)"

text \<open>\<open>processedDocs.map((d) => d.text).join(' ')\<close>.\<close>

fun joinSpace :: "string list \<Rightarrow> string" where
  "joinSpace [] = []"
| "joinSpace [t] = t"
| "joinSpace (t # u # ts) = t @ [CHR '' ''] @ joinSpace (u # ts)"

definition severityOf :: "NarrativeShockParams \<Rightarrow> ProcessedDoc list \<Rightarrow> real" where
  "severityOf params processedDocs =
     clamp (foldl (\<lambda>s v. s + v) 0 (map (classScore params processedDocs) EVENT_CLASSES)) 0 100"

definition escalation :: "ProcessedDoc list \<Rightarrow> real" where
  "escalation processedDocs =
     (let combinedText = joinSpace (map text processedDocs);
          guidanceStrongCount =
            length (filter (\<lambda>m. length (strongMatches m) > 0)
                      (matchesOfId processedDocs ''GUIDANCE_SHOCK_OR_EARNINGS_MISS''))
      in (if classHasStrong processedDocs ''CREDIT_LIQUIDITY_DISTRESS''
             \<and> hasAny combinedText [''going concern'', ''covenant breach'', ''refinancing'']
          then 30 else 0)
         + (if guidanceStrongCount \<ge> 2
               \<or> (classHasStrong processedDocs ''GUIDANCE_SHOCK_OR_EARNINGS_MISS''
                  \<and> hasAny combinedText [''demand weakening'', ''pricing pressure'', ''structural''])
            then 20 else 0)
         + (if classHasStrong processedDocs ''MAJOR_CONTRACT_OR_CUSTOMER_LOSS''
               \<and> hasAny combinedText [''largest'', ''significant portion'']
            then 25 else 0)
         + (if classHasStrong processedDocs ''ACCOUNTING_RESTATEMENT''
               \<or> (hasAny combinedText [''material weakness''] \<and> hasAny combinedText [''auditor''])
            then 35 else 0)
         + (if classHasStrong processedDocs ''PRODUCT_RECALL_OR_SAFETY''
               \<and> hasAny combinedText [''fatality'', ''ban'', ''regulator'']
            then 25 else 0)
         + (if classHasStrong processedDocs ''EXECUTIVE_CHANGE''
               \<and> hasAny combinedText [''effective immediately'', ''terminated'']
            then 15 else 0)
         + (if classHasStrong processedDocs ''REGULATORY_OR_GOVERNMENT_ACTION''
               \<and> hasAny combinedText [''consent decree'', ''settlement'', ''ban'', ''license revoked'']
            then 25 else 0))"

definition structuralRiskOf :: "NarrativeShockParams \<Rightarrow> ProcessedDoc list \<Rightarrow> real" where
  "structuralRiskOf params processedDocs =
     clamp (foldl (\<lambda>s v. s + v) 0 (map (structuralScore params processedDocs) EVENT_CLASSES)
            + escalation processedDocs) 0 100"

definition sortedByScore :: "NarrativeShockParams \<Rightarrow> ProcessedDoc list \<Rightarrow> (string \<times> real) list" where
  "sortedByScore params processedDocs =
     arraySort (\<lambda>a b. snd b - snd a)
       (map (\<lambda>c. (ident c, classScore params processedDocs c)) EVENT_CLASSES)"

definition macroScore :: "NarrativeShockParams \<Rightarrow> ProcessedDoc list \<Rightarrow> real" where
  "macroScore params processedDocs =
     (case find (\<lambda>c. ident c = ''MACRO_ROTATION'') EVENT_CLASSES of
        None \<Rightarrow> 0
      | Some c \<Rightarrow> classScore params processedDocs c)"

definition primaryEvent :: "NarrativeShockParams \<Rightarrow> ProcessedDoc list \<Rightarrow> string" where
  "primaryEvent params processedDocs =
     (let bestNonMacro = find (\<lambda>c. fst c \<noteq> ''MACRO_ROTATION'') (sortedByScore params processedDocs)
      in if bestNonMacro \<noteq> None \<and> snd (the bestNonMacro) \<ge> primary_min_threshold params
         then fst (the bestNonMacro)
         else if macroScore params processedDocs \<ge> macro_threshold params then ''MACRO_ROTATION''
         else ''NONE'')"

definition shockType :: "NarrativeShockParams \<Rightarrow> ProcessedDoc list \<Rightarrow> ShockType" where
  "shockType params processedDocs =
     (let pe = primaryEvent params processedDocs
      in if pe = ''MACRO_ROTATION'' then MACRO_ROTATION
         else if pe \<noteq> ''NONE''
         then (if structuralRiskOf params processedDocs \<ge> structural_threshold params
               then STRUCTURAL_RISK else ONE_OFF)
         else if macroScore params processedDocs \<ge> macro_threshold params then MACRO_ROTATION
         else NONE)"

definition mdsPoints :: "ShockType \<Rightarrow> real" where
  "mdsPoints st = (if st = ONE_OFF then 15 else if st = MACRO_ROTATION then 10 else 0)"

text \<open>\<open>new Date(t)\<close> on a number: \<open>TimeClip\<close>, an Invalid Date beyond the range of dates.\<close>

definition timeClip :: "real \<Rightarrow> real option" where
  "timeClip t = (if \<bar>t\<bar> > 8640000000000000 then None else Some (of_int (toInteger t)))"

text \<open>\<open>now\<close> is the clock that \<open>new Date()\<close> reads when no \<open>window_end\<close> is given.\<close>

definition windowEndOf :: "dateParser \<Rightarrow> real \<Rightarrow> 'a NarrativeOptions_scheme \<Rightarrow> real option" where
  "windowEndOf newDate now options =
     (if truthyStr (window_end_opt options) then newDate (the (window_end_opt options))
      else Some now)"

definition windowStartOf ::
  "dateParser \<Rightarrow> real \<Rightarrow> 'a NarrativeOptions_scheme \<Rightarrow> real option" where
  "windowStartOf newDate now options =
     (case windowEndOf newDate now options of
        None \<Rightarrow> None
      | Some windowEnd \<Rightarrow>
          timeClip (windowEnd - window_days (mergeParams options) * 24 * 60 * 60 * 1000))"

definition classifyNarrativeShock ::
  "dateParser \<Rightarrow> real \<Rightarrow> NarrativeDoc list \<Rightarrow> 'a NarrativeOptions_scheme
     \<Rightarrow> error + NarrativeShockResult" where
  "classifyNarrativeShock newDate now docs options =
     (let params = mergeParams options
      in case (windowEndOf newDate now options, windowStartOf newDate now options) of
           (Some windowEnd, Some windowStart) \<Rightarrow>
             (let processedDocs = buildProcessedDocs newDate docs params windowStart windowEnd;
                  pe = primaryEvent params processedDocs;
                  st = shockType params processedDocs
              in Inr \<lparr>ticker = ticker_opt options,
                      window_start = windowStart,
                      window_end = windowEnd,
                      primary_event_class = pe,
                      shock_type = st,
                      severity_0_100 = mathRound (severityOf params processedDocs),
                      structural_risk_0_100 = mathRound (structuralRiskOf params processedDocs),
                      mds_narrative_shock_points = mdsPoints st,
                      top_matches =
                        take 10 (arraySort (\<lambda>a b. TopMatch.weight b - TopMatch.weight a)
                                   (allMatches processedDocs)),
                      secondary_event_classes =
                        map (\<lambda>c. (fst c, toFixed2 (snd c)))
                          (filter (\<lambda>c. snd c > 0 \<and> fst c \<noteq> pe)
                             (sortedByScore params processedDocs))\<rparr>)
         | _ \<Rightarrow> Inl RangeError)"

section \<open>Data model of the MDS engine\<close>

text \<open>
  The entries of the configuration are numbers. The spread
  \<open>{...DEFAULT_MDS_CONFIG, ...(inputs.config ?? {})}\<close> copies every key that is present
  in \<open>inputs.config\<close>, also one whose value is \<open>undefined\<close> or \<open>NaN\<close>, which
  \<open>Partial<MdsConfig>\<close> allows. \<open>history_min\<close> is the one entry that enters a score by
  arithmetic, in \<open>applyCoverage\<close>; it is a \<open>jsval\<close>, so that these values are
  inputs of the model. The other entries are only compared with, or give the length of
  a window, and are taken to be numbers.
\<close>

record MdsConfig =
  history_short :: real
  history_long :: real
  history_min :: jsval
  ebitda_flat :: real
  ebitda_mild :: real
  ebitda_collapse :: real
  fcf_stdev_stable :: real
  fcf_stdev_volatile :: real
  ocf_stdev_stable :: real
  ocf_stdev_volatile :: real
  gm_stdev :: real
  revenue_stable :: real
  multiple_strong :: real
  multiple_mild :: real
  fcf_yield_up :: real
  eps_drop :: real
  short_elevated :: real
  short_extreme :: real
  insider_value_threshold :: real
  insider_pct_threshold :: real
  ownership_holders_drop :: real
  ownership_shares_drop :: real

definition DEFAULT_MDS_CONFIG :: MdsConfig where
  "DEFAULT_MDS_CONFIG =
     \<lparr>history_short = 12,
      history_long = 20,
      history_min = JNum 12,
      ebitda_flat = - 0.05,
      ebitda_mild = - 0.20,
      ebitda_collapse = - 0.30,
      fcf_stdev_stable = 0.03,
      fcf_stdev_volatile = 0.07,
      ocf_stdev_stable = 0.02,
      ocf_stdev_volatile = 0.05,
      gm_stdev = 0.02,
      revenue_stable = - 0.05,
      multiple_strong = 0.30,
      multiple_mild = 0.20,
      fcf_yield_up = 0.30,
      eps_drop = - 0.10,
      short_elevated = 0.10,
      short_extreme = 0.20,
      insider_value_threshold = 1000000,
      insider_pct_threshold = 0.0005,
      ownership_holders_drop = 0.10,
      ownership_shares_drop = 0.05\<rparr>"

record PartialMdsConfig =
  history_short_opt :: "real option"
  history_long_opt :: "real option"
  history_min_opt :: "jsval option"
  ebitda_flat_opt :: "real option"
  ebitda_mild_opt :: "real option"
  ebitda_collapse_opt :: "real option"
  fcf_stdev_stable_opt :: "real option"
  fcf_stdev_volatile_opt :: "real option"
  ocf_stdev_stable_opt :: "real option"
  ocf_stdev_volatile_opt :: "real option"
  gm_stdev_opt :: "real option"
  revenue_stable_opt :: "real option"
  multiple_strong_opt :: "real option"
  multiple_mild_opt :: "real option"
  fcf_yield_up_opt :: "real option"
  eps_drop_opt :: "real option"
  short_elevated_opt :: "real option"
  short_extreme_opt :: "real option"
  insider_value_threshold_opt :: "real option"
  insider_pct_threshold_opt :: "real option"
  ownership_holders_drop_opt :: "real option"
  ownership_shares_drop_opt :: "real option"

definition mergeMdsConfig :: "PartialMdsConfig option \<Rightarrow> MdsConfig" where
  "mergeMdsConfig c =
     (case c of
        None \<Rightarrow> DEFAULT_MDS_CONFIG
      | Some p \<Rightarrow>
          \<lparr>history_short = orDefault (history_short DEFAULT_MDS_CONFIG) (history_short_opt p),
           history_long = orDefault (history_long DEFAULT_MDS_CONFIG) (history_long_opt p),
           history_min = orDefault (history_min DEFAULT_MDS_CONFIG) (history_min_opt p),
           ebitda_flat = orDefault (ebitda_flat DEFAULT_MDS_CONFIG) (ebitda_flat_opt p),
           ebitda_mild = orDefault (ebitda_mild DEFAULT_MDS_CONFIG) (ebitda_mild_opt p),
           ebitda_collapse = orDefault (ebitda_collapse DEFAULT_MDS_CONFIG) (ebitda_collapse_opt p),
           fcf_stdev_stable = orDefault (fcf_stdev_stable DEFAULT_MDS_CONFIG) (fcf_stdev_stable_opt p),
           fcf_stdev_volatile = orDefault (fcf_stdev_volatile DEFAULT_MDS_CONFIG) (fcf_stdev_volatile_opt p),
           ocf_stdev_stable = orDefault (ocf_stdev_stable DEFAULT_MDS_CONFIG) (ocf_stdev_stable_opt p),
           ocf_stdev_volatile = orDefault (ocf_stdev_volatile DEFAULT_MDS_CONFIG) (ocf_stdev_volatile_opt p),
           gm_stdev = orDefault (gm_stdev DEFAULT_MDS_CONFIG) (gm_stdev_opt p),
           revenue_stable = orDefault (revenue_stable DEFAULT_MDS_CONFIG) (revenue_stable_opt p),
           multiple_strong = orDefault (multiple_strong DEFAULT_MDS_CONFIG) (multiple_strong_opt p),
           multiple_mild = orDefault (multiple_mild DEFAULT_MDS_CONFIG) (multiple_mild_opt p),
           fcf_yield_up = orDefault (fcf_yield_up DEFAULT_MDS_CONFIG) (fcf_yield_up_opt p),
           eps_drop = orDefault (eps_drop DEFAULT_MDS_CONFIG) (eps_drop_opt p),
           short_elevated = orDefault (short_elevated DEFAULT_MDS_CONFIG) (short_elevated_opt p),
           short_extreme = orDefault (short_extreme DEFAULT_MDS_CONFIG) (short_extreme_opt p),
           insider_value_threshold = orDefault (insider_value_threshold DEFAULT_MDS_CONFIG) (insider_value_threshold_opt p),
           insider_pct_threshold = orDefault (insider_pct_threshold DEFAULT_MDS_CONFIG) (insider_pct_threshold_opt p),
           ownership_holders_drop = orDefault (ownership_holders_drop DEFAULT_MDS_CONFIG) (ownership_holders_drop_opt p),
           ownership_shares_drop = orDefault (ownership_shares_drop DEFAULT_MDS_CONFIG) (ownership_shares_drop_opt p)\<rparr>)"

record EstimatePoint = DatedValue +
  eps_estimate :: "real option"
  revenue_estimate :: "real option"

record OwnershipPoint = DatedValue +
  institutional_holders :: "real option"
  institutional_shares :: "real option"

datatype TransactionType = Buy | Sell

record InsiderTrade =
  transaction_date :: string
  transaction_type :: "TransactionType option"
  transaction_value :: "real option"

record MdsSeriesInputs =
  ticker :: "string option"
  asof_date :: "string option"
  metrics_history :: "MetricsPoint list"
  income_statements :: "IncomeStatement list"
  cash_flow_statements :: "CashFlowStatement list"
  estimates :: "EstimatePoint list option"
  ownership_history :: "OwnershipPoint list option"
  insider_trades :: "InsiderTrade list option"
  short_interest_pct :: "real option"
  docs :: "NarrativeDoc list option"
  narrative_params :: "PartialNarrativeParams option"
  fundamentals_intact :: "bool option"
  config :: "PartialMdsConfig option"

record MdsSubscores =
  multiple_compression :: jsval
  fcf_yield_expansion :: jsval
  expectation_reset :: real
  narrative_shock :: real
  operating_resilience :: real
  market_positioning :: real
  gm_defense :: real
  ocf_stability :: real
  capex_discipline :: real
  short_interest :: real
  ownership_capitulation :: real
  insider_bonus :: real

record MdsResult =
  ticker :: "string option"
  multiple_compression_points :: jsval
  expectation_reset_points :: real
  narrative_shock_points :: real
  operating_resilience_points :: real
  market_positioning_points :: real
  expectation_reset_total :: real
  total_mds_points :: jsval
  narrative_detail :: "NarrativeShockResult option"

record MdsSeriesResult = MdsResult +
  subscores :: MdsSubscores
  warnings :: "string list"

section \<open>The MDS engine\<close>

text \<open>
  The MDS module has its own \<open>resolveAsofDate\<close>, over the income and cash-flow
  statements only; it fails like the one of the BRS module when the common report
  periods exist and none parses.
\<close>

definition resolveAsofDateMds ::
  "dateParser \<Rightarrow> IncomeStatement list \<Rightarrow> CashFlowStatement list
     \<Rightarrow> error + (real option \<times> string list)" where
  "resolveAsofDateMds newDate income cashflow =
     (let incomeDates = newSet (map report_period income);
          cashDates = newSet (map report_period cashflow);
          candidates = filter (\<lambda>d. d \<in> set cashDates) incomeDates
      in if length candidates > 0
         then (let sorted = parsedCandidates newDate candidates
               in if sorted = [] then Inl TypeError
                  else Inr (Some (snd (last sorted)), []))
         else
           let incomeLatest =
                 (if length income > 0
                  then Some (report_period (last (sortByReportPeriod newDate income)))
                  else None);
               cashLatest =
                 (if length cashflow > 0
                  then Some (report_period (last (sortByReportPeriod newDate cashflow)))
                  else None);
               candidatesFallback =
                 List.map_filter (parseReportDate newDate)
                   (List.map_filter (\<lambda>r. r) [incomeLatest, cashLatest])
           in if length candidatesFallback = 0 then Inr (None, [''asof_misalignment''])
              else Inr (Some (last (arraySort (\<lambda>a b. a - b) candidatesFallback)),
                        [''asof_misalignment'']))"

definition buildRevenueSeries :: "dateParser \<Rightarrow> IncomeStatement list \<Rightarrow> TtmPoint list" where
  "buildRevenueSeries newDate income =
     rollingTtmSeries newDate income (\<lambda>r. fieldOrNull (revenue r))"

definition computeYoYGrowth :: "dateParser \<Rightarrow> TtmPoint list \<Rightarrow> real list" where
  "computeYoYGrowth newDate series = yoyGrowths newDate series"

datatype EbitdaTrend = Flat | Mild | Collapse | UnknownTrend

definition classifyEbitdaTrend :: "dateParser \<Rightarrow> TtmPoint list \<Rightarrow> MdsConfig \<Rightarrow> EbitdaTrend" where
  "classifyEbitdaTrend newDate series cfg =
     (let growths = computeYoYGrowth newDate series
      in if length growths = 0 then UnknownTrend
         else
           case median growths of
             None \<Rightarrow> UnknownTrend
           | Some medianGrowth \<Rightarrow>
               let hasSevere =
                     list_ex (\<lambda>i. growths ! i < ebitda_collapse cfg
                                   \<and> growths ! (i - 1) < ebitda_collapse cfg)
                       [1..<length growths]
               in if medianGrowth < ebitda_mild cfg \<or> hasSevere then Collapse
                  else if medianGrowth < ebitda_flat cfg then Mild
                  else Flat)"

text \<open>The ratio of each point of a series to the revenue of the same report period,
  which the source computes inline for the FCF, OCF and capex series.\<close>

definition revenueRatios :: "TtmPoint list \<Rightarrow> TtmPoint list \<Rightarrow> real list" where
  "revenueRatios series revenueSeries =
     List.map_filter
       (\<lambda>row. case find (\<lambda>r. report_period r = report_period row) revenueSeries of
                 None \<Rightarrow> None
               | Some r \<Rightarrow> if value r = 0 then None else Some (value row / value r))
       series"

datatype FcfStability = FcfStable | FcfVolatile | FcfCollapse | FcfUnknown

definition classifyFcfStability :: "TtmPoint list \<Rightarrow> TtmPoint list \<Rightarrow> MdsConfig \<Rightarrow> FcfStability" where
  "classifyFcfStability fcfSeries revenueSeries cfg =
     (let ratios = revenueRatios fcfSeries revenueSeries
      in if length ratios < 4 then FcfUnknown
         else
           let last8 = sliceFrom (- 8) ratios;
               positiveCount = length (filter (\<lambda>v. v > 0) last8);
               ratioStdev = stdev last8;
               lastTwo = sliceFrom (- 2) last8;
               collapsing =
                 (positiveCount \<le> 3
                  \<or> (length lastTwo = 2 \<and> lastTwo ! 0 < 0 \<and> lastTwo ! 1 < lastTwo ! 0))
           in if collapsing then FcfCollapse
              else if positiveCount \<ge> 6 \<and> ratioStdev \<noteq> None
                      \<and> the ratioStdev \<le> fcf_stdev_stable cfg then FcfStable
              else if positiveCount \<ge> 4
                      \<or> (ratioStdev \<noteq> None \<and> the ratioStdev \<le> fcf_stdev_volatile cfg)
              then FcfVolatile
              else FcfCollapse)"

datatype OcfStability = OcfStable | OcfVolatile | OcfDeteriorating | OcfUnknown

definition classifyOcfStability :: "TtmPoint list \<Rightarrow> TtmPoint list \<Rightarrow> MdsConfig \<Rightarrow> OcfStability" where
  "classifyOcfStability ocfSeries revenueSeries cfg =
     (let ratios = revenueRatios ocfSeries revenueSeries
      in if length ratios < 4 then OcfUnknown
         else
           let last8 = sliceFrom (- 8) ratios;
               positiveCount = length (filter (\<lambda>v. v > 0) last8);
               ratioStdev = stdev last8
           in if positiveCount \<ge> 7 \<and> ratioStdev \<noteq> None
                 \<and> the ratioStdev \<le> ocf_stdev_stable cfg then OcfStable
              else if positiveCount \<ge> 5
                      \<or> (ratioStdev \<noteq> None \<and> the ratioStdev \<le> ocf_stdev_volatile cfg)
              then OcfVolatile
              else OcfDeteriorating)"

datatype GmStatus = GmStable | GmSlight | GmCollapse | GmUnknown

text \<open>\<open>classifyGrossMargin\<close> builds the same margin series as \<open>buildGmSeries\<close>.\<close>

definition classifyGrossMargin ::
  "dateParser \<Rightarrow> IncomeStatement list \<Rightarrow> MdsConfig \<Rightarrow> GmStatus \<times> real list" where
  "classifyGrossMargin newDate income cfg =
     (let series = buildGmSeries newDate income
      in if length series < 4 then (GmUnknown, series)
         else
           let last8 = sliceFrom (- 8) series;
               gmSlope = slope last8;
               gmStdev = stdev last8
           in if gmSlope = None \<or> gmStdev = None then (GmUnknown, series)
              else if the gmStdev > gm_stdev cfg then (GmCollapse, series)
              else if the gmSlope < 0 then (GmSlight, series)
              else (GmStable, series))"

text \<open>\<open>computeHistoryScore\<close> returns the score and the number of observations, which
  is the number of values of the window that \<open>Number.isFinite\<close> keeps. The values of a
  series are finite numbers in the model, and the filter keeps them all: an observation
  that is \<open>null\<close>, \<open>NaN\<close> or infinite, which the source leaves in the window and does
  not count, is not an input of the model.\<close>

definition computeHistoryScore ::
  "dateParser \<Rightarrow> real option \<Rightarrow> TtmPoint list \<Rightarrow> real \<Rightarrow> (real \<Rightarrow> real \<Rightarrow> real)
     \<Rightarrow> real \<times> nat" where
  "computeHistoryScore newDate currentValue history windowSize scoreFn =
     (case currentValue of
        None \<Rightarrow> (0, 0)
      | Some current \<Rightarrow>
          let sorted = sortByReportPeriod newDate history;
              window = sliceFrom (toInteger (- windowSize)) sorted;
              values = map value window
          in if length values = 0 then (0, 0)
             else
               (case median values of
                  None \<Rightarrow> (0, length values)
                | Some med \<Rightarrow> (scoreFn current med, length values)))"

text \<open>
  \<open>applyCoverage\<close> returns the sub-score and the warning it pushes. Its last line,
  \<open>Number((score * ratio).toFixed(2))\<close> with \<open>ratio = available / config.history_min\<close>,
  is double arithmetic followed by a rounding to two decimals of the double product.
  The model takes the host's result as a parameter: \<open>discount score available h\<close> is the
  number that the host computes from the score, the number of observations and a
  \<open>history_min\<close> that is the number \<open>h\<close>. When \<open>history_min\<close> is \<open>NaN\<close> or
  \<open>undefined\<close> the comparison fails, the ratio and the product are \<open>NaN\<close>, and so is
  the result.
\<close>

type_synonym hostDiscount = "real \<Rightarrow> real \<Rightarrow> real \<Rightarrow> real"

definition applyCoverage ::
  "hostDiscount \<Rightarrow> real \<Rightarrow> nat \<Rightarrow> MdsConfig \<Rightarrow> string \<Rightarrow> jsval \<times> string list" where
  "applyCoverage discount score available cfg tag =
     (if jsLe (history_min cfg) (JNum (real available)) then (JNum score, [])
      else if available = 0 then (JNum 0, [''missing_history_'' @ tag])
      else
        ((case toNumber (history_min cfg) of
            None \<Rightarrow> JNaN
          | Some h \<Rightarrow> JNum (discount score (real available) h)),
         [''short_history_'' @ tag]))"

text \<open>
  As for \<open>computeBrs\<close>, the local constants of \<open>computeMdsFromSeries\<close> are definitions
  of their own, functions of the date parser, the inputs and the as-of date. Where a
  name is already taken by the BRS engine the MDS one ends in \<open>Mds\<close>.
\<close>

definition mdsConfig :: "MdsSeriesInputs \<Rightarrow> MdsConfig" where
  "mdsConfig inputs = mergeMdsConfig (config inputs)"

definition asofDateMds ::
  "dateParser \<Rightarrow> MdsSeriesInputs \<Rightarrow> error + (real option \<times> string list)" where
  "asofDateMds newDate inputs =
     (if truthyStr (asof_date inputs)
      then Inr (parseReportDate newDate (the (asof_date inputs)), [])
      else resolveAsofDateMds newDate (income_statements inputs) (cash_flow_statements inputs))"

definition metricsAsOfMds ::
  "dateParser \<Rightarrow> MdsSeriesInputs \<Rightarrow> real option \<Rightarrow> MetricsPoint option" where
  "metricsAsOfMds newDate inputs asofDate =
     (case asofDate of
        None \<Rightarrow> None
      | Some d \<Rightarrow> nearestByDate newDate (metrics_history inputs) d 5)"

definition ebitdaSeries :: "dateParser \<Rightarrow> MdsSeriesInputs \<Rightarrow> TtmPoint list" where
  "ebitdaSeries newDate inputs =
     buildEbitdaSeries newDate (income_statements inputs) (cash_flow_statements inputs)"

definition revenueSeries :: "dateParser \<Rightarrow> MdsSeriesInputs \<Rightarrow> TtmPoint list" where
  "revenueSeries newDate inputs = buildRevenueSeries newDate (income_statements inputs)"

definition ocfSeries :: "dateParser \<Rightarrow> MdsSeriesInputs \<Rightarrow> TtmPoint list" where
  "ocfSeries newDate inputs =
     rollingTtmSeries newDate (cash_flow_statements inputs)
       (\<lambda>r. fieldOrNull (net_cash_flow_from_operations r))"

definition fcfSeries :: "dateParser \<Rightarrow> MdsSeriesInputs \<Rightarrow> TtmPoint list" where
  "fcfSeries newDate inputs =
     rollingTtmSeries newDate (cash_flow_statements inputs) (\<lambda>r. fieldOrNull (free_cash_flow r))"

definition capexSeries :: "dateParser \<Rightarrow> MdsSeriesInputs \<Rightarrow> TtmPoint list" where
  "capexSeries newDate inputs =
     rollingTtmSeries newDate (cash_flow_statements inputs)
       (\<lambda>r. fieldOrNull (capital_expenditure r))"

definition evToEbitdaSeries :: "MdsSeriesInputs \<Rightarrow> TtmPoint list" where
  "evToEbitdaSeries inputs =
     List.map_filter
       (\<lambda>row. case enterprise_value_to_ebitda_ratio row of
                 Some v \<Rightarrow> Some \<lparr>report_period = report_period row, value = v\<rparr>
               | None \<Rightarrow> None)
       (metrics_history inputs)"

definition fcfYieldSeries :: "dateParser \<Rightarrow> MdsSeriesInputs \<Rightarrow> TtmPoint list" where
  "fcfYieldSeries newDate inputs =
     List.map_filter
       (\<lambda>row. case free_cash_flow_yield row of
                 Some v \<Rightarrow> Some \<lparr>report_period = report_period row, value = v\<rparr>
               | None \<Rightarrow>
                   (case market_cap row of
                      None \<Rightarrow> None
                    | Some mc \<Rightarrow>
                        (case find (\<lambda>r. report_period r = report_period row)
                                (fcfSeries newDate inputs) of
                           None \<Rightarrow> None
                         | Some f \<Rightarrow>
                             if mc = 0 then None
                             else Some \<lparr>report_period = report_period row,
                                        value = value f / mc\<rparr>)))
       (metrics_history inputs)"

text \<open>\<open>xs.slice(-1)[0]?.value ?? null\<close>.\<close>

definition latestValue :: "TtmPoint list \<Rightarrow> real option" where
  "latestValue xs = (if xs = [] then None else Some (value (last xs)))"

text \<open>\<open>series.find((row) => row.report_period === metricsAsOf?.report_period)?.value ?? null\<close>.\<close>

definition valueAsOf :: "TtmPoint list \<Rightarrow> MetricsPoint option \<Rightarrow> real option" where
  "valueAsOf series m =
     (case m of
        None \<Rightarrow> None
      | Some mp \<Rightarrow> map_option value (find (\<lambda>row. report_period row = report_period mp) series))"

definition currentEvToEbitda :: "dateParser \<Rightarrow> MdsSeriesInputs \<Rightarrow> real option \<Rightarrow> real option" where
  "currentEvToEbitda newDate inputs asofDate =
     (let m = metricsAsOfMds newDate inputs asofDate;
          ebitdaAsOf = valueAsOf (ebitdaSeries newDate inputs) m
      in orElse
           (orElse (Option.bind m enterprise_value_to_ebitda_ratio)
              (if truthy (Option.bind m enterprise_value) \<and> truthy ebitdaAsOf
               then Some (the (Option.bind m enterprise_value) / the ebitdaAsOf)
               else None))
           (latestValue (evToEbitdaSeries inputs)))"

definition currentFcfYield :: "dateParser \<Rightarrow> MdsSeriesInputs \<Rightarrow> real option \<Rightarrow> real option" where
  "currentFcfYield newDate inputs asofDate =
     (let m = metricsAsOfMds newDate inputs asofDate;
          fcfAsOf = valueAsOf (fcfSeries newDate inputs) m
      in orElse
           (orElse (Option.bind m free_cash_flow_yield)
              (if truthy (Option.bind m market_cap) \<and> truthy fcfAsOf
               then Some (the fcfAsOf / the (Option.bind m market_cap))
               else None))
           (latestValue (fcfYieldSeries newDate inputs)))"

definition ebitdaTrend :: "dateParser \<Rightarrow> MdsSeriesInputs \<Rightarrow> EbitdaTrend" where
  "ebitdaTrend newDate inputs =
     classifyEbitdaTrend newDate (ebitdaSeries newDate inputs) (mdsConfig inputs)"

definition fcfStability :: "dateParser \<Rightarrow> MdsSeriesInputs \<Rightarrow> FcfStability" where
  "fcfStability newDate inputs =
     classifyFcfStability (fcfSeries newDate inputs) (revenueSeries newDate inputs)
       (mdsConfig inputs)"

definition compressionScoreFn :: "MdsConfig \<Rightarrow> EbitdaTrend \<Rightarrow> real \<Rightarrow> real \<Rightarrow> real" where
  "compressionScoreFn cfg trend current med =
     (if med \<le> 0 \<or> current \<le> 0 then 0
      else
        let compression = 1 - current / med
        in if trend = UnknownTrend then 0
           else if compression \<ge> multiple_strong cfg \<and> trend = Flat then 15
           else if compression \<ge> multiple_mild cfg \<and> trend \<noteq> Collapse then 10
           else if compression > 0 \<and> trend = Collapse then 0
           else 0)"

definition fcfYieldScoreFn :: "MdsConfig \<Rightarrow> FcfStability \<Rightarrow> real \<Rightarrow> real \<Rightarrow> real" where
  "fcfYieldScoreFn cfg stability current med =
     (if med = 0 then 0
      else
        let change = (current - med) / \<bar>med\<bar>
        in if change < fcf_yield_up cfg then 0
           else if stability = FcfUnknown then 0
           else if stability = FcfStable then 15
           else if stability = FcfVolatile then 8
           else 0)"

text \<open>The four history scores, then the two sub-scores: the lesser of the two windows,
  each after \<open>applyCoverage\<close>.\<close>

definition h3Compression :: "dateParser \<Rightarrow> MdsSeriesInputs \<Rightarrow> real option \<Rightarrow> real \<times> nat" where
  "h3Compression newDate inputs asofDate =
     computeHistoryScore newDate (currentEvToEbitda newDate inputs asofDate)
       (evToEbitdaSeries inputs) (history_short (mdsConfig inputs))
       (compressionScoreFn (mdsConfig inputs) (ebitdaTrend newDate inputs))"

definition h5Compression :: "dateParser \<Rightarrow> MdsSeriesInputs \<Rightarrow> real option \<Rightarrow> real \<times> nat" where
  "h5Compression newDate inputs asofDate =
     computeHistoryScore newDate (currentEvToEbitda newDate inputs asofDate)
       (evToEbitdaSeries inputs) (history_long (mdsConfig inputs))
       (compressionScoreFn (mdsConfig inputs) (ebitdaTrend newDate inputs))"

definition compressionCoverage ::
  "dateParser \<Rightarrow> hostDiscount \<Rightarrow> MdsSeriesInputs \<Rightarrow> real option
     \<Rightarrow> (jsval \<times> string list) \<times> (jsval \<times> string list)" where
  "compressionCoverage newDate discount inputs asofDate =
     (applyCoverage discount (fst (h3Compression newDate inputs asofDate))
        (snd (h3Compression newDate inputs asofDate)) (mdsConfig inputs) ''multiple_h3'',
      applyCoverage discount (fst (h5Compression newDate inputs asofDate))
        (snd (h5Compression newDate inputs asofDate)) (mdsConfig inputs) ''multiple_h5'')"

definition compressionScore ::
  "dateParser \<Rightarrow> hostDiscount \<Rightarrow> MdsSeriesInputs \<Rightarrow> real option \<Rightarrow> jsval" where
  "compressionScore newDate discount inputs asofDate =
     mathMin (fst (fst (compressionCoverage newDate discount inputs asofDate)))
       (fst (snd (compressionCoverage newDate discount inputs asofDate)))"

definition h3FcfYield :: "dateParser \<Rightarrow> MdsSeriesInputs \<Rightarrow> real option \<Rightarrow> real \<times> nat" where
  "h3FcfYield newDate inputs asofDate =
     computeHistoryScore newDate (currentFcfYield newDate inputs asofDate)
       (fcfYieldSeries newDate inputs) (history_short (mdsConfig inputs))
       (fcfYieldScoreFn (mdsConfig inputs) (fcfStability newDate inputs))"

definition h5FcfYield :: "dateParser \<Rightarrow> MdsSeriesInputs \<Rightarrow> real option \<Rightarrow> real \<times> nat" where
  "h5FcfYield newDate inputs asofDate =
     computeHistoryScore newDate (currentFcfYield newDate inputs asofDate)
       (fcfYieldSeries newDate inputs) (history_long (mdsConfig inputs))
       (fcfYieldScoreFn (mdsConfig inputs) (fcfStability newDate inputs))"

definition fcfYieldCoverage ::
  "dateParser \<Rightarrow> hostDiscount \<Rightarrow> MdsSeriesInputs \<Rightarrow> real option
     \<Rightarrow> (jsval \<times> string list) \<times> (jsval \<times> string list)" where
  "fcfYieldCoverage newDate discount inputs asofDate =
     (applyCoverage discount (fst (h3FcfYield newDate inputs asofDate))
        (snd (h3FcfYield newDate inputs asofDate)) (mdsConfig inputs) ''fcf_yield_h3'',
      applyCoverage discount (fst (h5FcfYield newDate inputs asofDate))
        (snd (h5FcfYield newDate inputs asofDate)) (mdsConfig inputs) ''fcf_yield_h5'')"

definition fcfYieldScore ::
  "dateParser \<Rightarrow> hostDiscount \<Rightarrow> MdsSeriesInputs \<Rightarrow> real option \<Rightarrow> jsval" where
  "fcfYieldScore newDate discount inputs asofDate =
     mathMin (fst (fst (fcfYieldCoverage newDate discount inputs asofDate)))
       (fst (snd (fcfYieldCoverage newDate discount inputs asofDate)))"

definition multipleCompressionPoints ::
  "dateParser \<Rightarrow> hostDiscount \<Rightarrow> MdsSeriesInputs \<Rightarrow> real option \<Rightarrow> jsval" where
  "multipleCompressionPoints newDate discount inputs asofDate =
     clampJs (jsAdd (compressionScore newDate discount inputs asofDate)
                    (fcfYieldScore newDate discount inputs asofDate)) (JNum 0) (JNum 30)"

definition revenueTrend :: "dateParser \<Rightarrow> MdsSeriesInputs \<Rightarrow> real option" where
  "revenueTrend newDate inputs = median (computeYoYGrowth newDate (revenueSeries newDate inputs))"

definition expectationReset :: "dateParser \<Rightarrow> MdsSeriesInputs \<Rightarrow> real \<times> string list" where
  "expectationReset newDate inputs =
     (let cfg = mdsConfig inputs;
          epsEstimates = (case estimates inputs of
                            None \<Rightarrow> []
                          | Some es \<Rightarrow> sortByReportPeriod newDate es)
      in if length epsEstimates \<ge> 2
         then
           let recentRow = last epsEstimates;
               priorRow = epsEstimates ! (length epsEstimates - 4);
               recent = eps_estimate recentRow;
               prior = eps_estimate priorRow
           in if recent \<noteq> None \<and> prior \<noteq> None \<and> prior \<noteq> Some 0
              then
                let epsChange = (the recent - the prior) / \<bar>the prior\<bar>
                in if epsChange \<le> eps_drop cfg
                   then
                     let recentRev = revenue_estimate recentRow;
                         priorRev = revenue_estimate priorRow;
                         estimatesUsable =
                           (recentRev \<noteq> None \<and> priorRev \<noteq> None \<and> priorRev \<noteq> Some 0);
                         revenueSignalAvailable =
                           (estimatesUsable \<or> revenueTrend newDate inputs \<noteq> None);
                         revenueStable =
                           (if estimatesUsable
                            then (the recentRev - the priorRev) / \<bar>the priorRev\<bar>
                                   \<ge> revenue_stable cfg
                            else (case revenueTrend newDate inputs of
                                    None \<Rightarrow> False
                                  | Some t \<Rightarrow> t \<ge> revenue_stable cfg))
                     in if revenueSignalAvailable
                        then (if revenueStable then 10 else 5, [])
                        else (0, [''missing_revenue_signal''])
                   else (0, [])
              else (0, [])
         else (0, [''missing_eps_estimates'']))"

text \<open>The options that \<open>computeMdsFromSeries\<close> passes to the classifier:
  \<open>{ ticker, window_end: inputs.asof_date, ...(inputs.narrative_params ?? {}) }\<close>.\<close>

definition emptyParams :: PartialNarrativeParams where
  "emptyParams =
     \<lparr>window_days_opt = None, recency_half_life_days_opt = None, source_weights_opt = None,
      max_points_per_event_class_opt = None, require_confirmation_for_accounting_opt = None,
      structural_threshold_opt = None, primary_min_threshold_opt = None,
      macro_threshold_opt = None\<rparr>"

definition narrativeOptions :: "MdsSeriesInputs \<Rightarrow> NarrativeOptions" where
  "narrativeOptions inputs =
     PartialNarrativeParams.extend (orDefault emptyParams (narrative_params inputs))
       (NarrativeOptions.fields (MdsSeriesInputs.ticker inputs) (asof_date inputs))"

text \<open>The narrative points, the detail and the warning; the classifier's exception
  passes through.\<close>

definition narrativeShock ::
  "dateParser \<Rightarrow> real \<Rightarrow> MdsSeriesInputs
     \<Rightarrow> error + (real \<times> NarrativeShockResult option \<times> string list)" where
  "narrativeShock newDate now inputs =
     (if docs inputs \<noteq> None \<and> length (the (docs inputs)) > 0
      then (case classifyNarrativeShock newDate now (the (docs inputs)) (narrativeOptions inputs) of
              Inl e \<Rightarrow> Inl e
            | Inr narrativeDetail \<Rightarrow>
                Inr (mds_narrative_shock_points narrativeDetail, Some narrativeDetail, []))
      else Inr (0, None, [''missing_narrative_corpus'']))"

definition gmStatus :: "dateParser \<Rightarrow> MdsSeriesInputs \<Rightarrow> GmStatus" where
  "gmStatus newDate inputs =
     fst (classifyGrossMargin newDate (income_statements inputs) (mdsConfig inputs))"

definition gmDefense :: "dateParser \<Rightarrow> MdsSeriesInputs \<Rightarrow> real" where
  "gmDefense newDate inputs =
     (if gmStatus newDate inputs = GmStable \<and> revenueTrend newDate inputs \<noteq> None
         \<and> the (revenueTrend newDate inputs) < revenue_stable (mdsConfig inputs)
      then 10
      else if gmStatus newDate inputs = GmStable \<or> gmStatus newDate inputs = GmSlight then 5
      else 0)"

definition ocfStability :: "dateParser \<Rightarrow> MdsSeriesInputs \<Rightarrow> OcfStability" where
  "ocfStability newDate inputs =
     classifyOcfStability (ocfSeries newDate inputs) (revenueSeries newDate inputs)
       (mdsConfig inputs)"

definition ocfScore :: "dateParser \<Rightarrow> MdsSeriesInputs \<Rightarrow> real" where
  "ocfScore newDate inputs =
     (if ocfStability newDate inputs = OcfStable then 10
      else if ocfStability newDate inputs = OcfVolatile then 5
      else 0)"

definition capexRatios :: "dateParser \<Rightarrow> MdsSeriesInputs \<Rightarrow> real list" where
  "capexRatios newDate inputs =
     revenueRatios (capexSeries newDate inputs) (revenueSeries newDate inputs)"

definition capexScore :: "dateParser \<Rightarrow> MdsSeriesInputs \<Rightarrow> real \<times> string list" where
  "capexScore newDate inputs =
     (if length (capexRatios newDate inputs) \<ge> 4
      then
        let capexSlope = orDefault 0 (slope (sliceFrom (- 8) (capexRatios newDate inputs)))
        in if capexSlope \<le> 0 then (5, [])
           else if revenueTrend newDate inputs \<noteq> None \<and> the (revenueTrend newDate inputs) < 0
           then (3, [])
           else (0, [])
      else (0, [''missing_capex_history'']))"

definition operatingResilience :: "dateParser \<Rightarrow> MdsSeriesInputs \<Rightarrow> real" where
  "operatingResilience newDate inputs =
     clamp (gmDefense newDate inputs + ocfScore newDate inputs + fst (capexScore newDate inputs))
       0 25"

definition shortInterestScore :: "MdsSeriesInputs \<Rightarrow> real \<times> string list" where
  "shortInterestScore inputs =
     (case short_interest_pct inputs of
        Some v \<Rightarrow>
          (if v \<ge> short_extreme (mdsConfig inputs) then 5
           else if v \<ge> short_elevated (mdsConfig inputs) then 10
           else 0, [])
      | None \<Rightarrow> (0, [''missing_short_interest'']))"

definition ownershipScore :: "dateParser \<Rightarrow> MdsSeriesInputs \<Rightarrow> real \<times> string list" where
  "ownershipScore newDate inputs =
     (if ownership_history inputs \<noteq> None \<and> length (the (ownership_history inputs)) \<ge> 3
      then
        let cfg = mdsConfig inputs;
            sorted = sortByReportPeriod newDate (the (ownership_history inputs));
            latest = sorted ! (length sorted - 1);
            prev = sorted ! (length sorted - 3);
            holdersDrop =
              (if truthy (institutional_holders latest) \<and> truthy (institutional_holders prev)
               then (the (institutional_holders prev) - the (institutional_holders latest))
                    / the (institutional_holders prev)
               else 0);
            sharesDrop =
              (if truthy (institutional_shares latest) \<and> truthy (institutional_shares prev)
               then (the (institutional_shares prev) - the (institutional_shares latest))
                    / the (institutional_shares prev)
               else 0);
            ocfLatest = latestValue (ocfSeries newDate inputs);
            fundamentalsIntact =
              (case fundamentals_intact inputs of
                 Some b \<Rightarrow> b
               | None \<Rightarrow> ocfLatest \<noteq> None \<and> the ocfLatest > 0)
        in if fundamentalsIntact
              \<and> (holdersDrop \<ge> ownership_holders_drop cfg \<or> sharesDrop \<ge> ownership_shares_drop cfg)
           then (10, [])
           else (0, [])
      else (0, [''missing_ownership_history'']))"

definition netInsider :: "dateParser \<Rightarrow> real \<Rightarrow> InsiderTrade list \<Rightarrow> real" where
  "netInsider newDate cutoff trades =
     foldl (\<lambda>net trade.
              case parseReportDate newDate (transaction_date trade) of
                None \<Rightarrow> net
              | Some date \<Rightarrow>
                  if date < cutoff then net
                  else if \<not> truthy (transaction_value trade) \<or> transaction_type trade = None
                  then net
                  else net + (if transaction_type trade = Some Buy
                              then the (transaction_value trade)
                              else - the (transaction_value trade)))
       0 trades"

definition insiderBonus ::
  "dateParser \<Rightarrow> real \<Rightarrow> MdsSeriesInputs \<Rightarrow> real option \<Rightarrow> real \<times> string list" where
  "insiderBonus newDate now inputs asofDate =
     (let mc = Option.bind (metricsAsOfMds newDate inputs asofDate) market_cap
      in if insider_trades inputs \<noteq> None \<and> length (the (insider_trades inputs)) > 0
         then
           let cutoff = (case asofDate of
                           Some d \<Rightarrow> d - 180 * 24 * 60 * 60 * 1000
                         | None \<Rightarrow> now - 180 * 24 * 60 * 60 * 1000);
               net = netInsider newDate cutoff (the (insider_trades inputs))
           in if net > 0
              then
                let pct = (if truthy mc then net / the mc else 0)
                in if net \<ge> insider_value_threshold (mdsConfig inputs)
                      \<or> pct \<ge> insider_pct_threshold (mdsConfig inputs)
                   then (5, [])
                   else (0, [])
              else (0, [])
         else (0, [''missing_insider_trades'']))"

definition marketPositioning :: "dateParser \<Rightarrow> real \<Rightarrow> MdsSeriesInputs \<Rightarrow> real option \<Rightarrow> real" where
  "marketPositioning newDate now inputs asofDate =
     clamp (fst (shortInterestScore inputs) + fst (ownershipScore newDate inputs)
            + fst (insiderBonus newDate now inputs asofDate)) 0 20"

definition mdsWarnings ::
  "dateParser \<Rightarrow> real \<Rightarrow> hostDiscount \<Rightarrow> MdsSeriesInputs \<Rightarrow> real option \<Rightarrow> string list \<Rightarrow> string list" where
  "mdsWarnings newDate now discount inputs asofDate narrativeWarnings =
     warnIf (asofDate = None) ''missing_asof_date''
     @ warnIf (currentEvToEbitda newDate inputs asofDate = None) ''missing_ev_to_ebitda''
     @ warnIf (currentFcfYield newDate inputs asofDate = None) ''missing_fcf_yield''
     @ warnIf (ebitdaTrend newDate inputs = UnknownTrend) ''missing_ebitda_history''
     @ warnIf (fcfStability newDate inputs = FcfUnknown) ''missing_fcf_history''
     @ snd (fst (compressionCoverage newDate discount inputs asofDate))
     @ snd (snd (compressionCoverage newDate discount inputs asofDate))
     @ snd (fst (fcfYieldCoverage newDate discount inputs asofDate))
     @ snd (snd (fcfYieldCoverage newDate discount inputs asofDate))
     @ snd (expectationReset newDate inputs)
     @ narrativeWarnings
     @ warnIf (gmStatus newDate inputs = GmUnknown) ''missing_gross_margin_history''
     @ warnIf (ocfStability newDate inputs = OcfUnknown) ''missing_ocf_history''
     @ snd (capexScore newDate inputs)
     @ snd (shortInterestScore inputs)
     @ snd (ownershipScore newDate inputs)
     @ snd (insiderBonus newDate now inputs asofDate)"

definition mdsSubscores ::
  "dateParser \<Rightarrow> real \<Rightarrow> hostDiscount \<Rightarrow> MdsSeriesInputs \<Rightarrow> real option \<Rightarrow> real \<Rightarrow> MdsSubscores" where
  "mdsSubscores newDate now discount inputs asofDate narrativeShockPoints =
     \<lparr>multiple_compression = compressionScore newDate discount inputs asofDate,
      fcf_yield_expansion = fcfYieldScore newDate discount inputs asofDate,
      expectation_reset = fst (expectationReset newDate inputs),
      narrative_shock = narrativeShockPoints,
      operating_resilience = operatingResilience newDate inputs,
      market_positioning = marketPositioning newDate now inputs asofDate,
      gm_defense = gmDefense newDate inputs,
      ocf_stability = ocfScore newDate inputs,
      capex_discipline = fst (capexScore newDate inputs),
      short_interest = fst (shortInterestScore inputs),
      ownership_capitulation = fst (ownershipScore newDate inputs),
      insider_bonus = fst (insiderBonus newDate now inputs asofDate)\<rparr>"

definition mdsResult ::
  "dateParser \<Rightarrow> real \<Rightarrow> hostDiscount \<Rightarrow> MdsSeriesInputs \<Rightarrow> real option \<Rightarrow> string list
     \<Rightarrow> real \<times> NarrativeShockResult option \<times> string list \<Rightarrow> MdsSeriesResult" where
  "mdsResult newDate now discount inputs asofDate w0 narrative =
     (let narrativeShockPoints = fst narrative;
          expectationResetTotal = fst (expectationReset newDate inputs) + narrativeShockPoints
      in \<lparr>ticker = MdsSeriesInputs.ticker inputs,
          multiple_compression_points = multipleCompressionPoints newDate discount inputs asofDate,
          expectation_reset_points = fst (expectationReset newDate inputs),
          narrative_shock_points = narrativeShockPoints,
          operating_resilience_points = operatingResilience newDate inputs,
          market_positioning_points = marketPositioning newDate now inputs asofDate,
          expectation_reset_total = expectationResetTotal,
          total_mds_points =
            clampJs (jsAdd (jsAdd (jsAdd (multipleCompressionPoints newDate discount inputs asofDate)
                                         (JNum expectationResetTotal))
                                  (JNum (operatingResilience newDate inputs)))
                           (JNum (marketPositioning newDate now inputs asofDate)))
              (JNum 0) (JNum 100),
          narrative_detail = fst (snd narrative),
          subscores = mdsSubscores newDate now discount inputs asofDate narrativeShockPoints,
          warnings = w0 @ mdsWarnings newDate now discount inputs asofDate (snd (snd narrative))\<rparr>)"

definition computeMdsFromSeries ::
  "dateParser \<Rightarrow> real \<Rightarrow> hostDiscount \<Rightarrow> MdsSeriesInputs \<Rightarrow> error + MdsSeriesResult" where
  "computeMdsFromSeries newDate now discount inputs =
     (case asofDateMds newDate inputs of
        Inl e \<Rightarrow> Inl e
      | Inr (asofDate, w0) \<Rightarrow>
          (case narrativeShock newDate now inputs of
             Inl e \<Rightarrow> Inl e
           | Inr narrative \<Rightarrow> Inr (mdsResult newDate now discount inputs asofDate w0 narrative)))"

section \<open>Short interest normalisation\<close>





section \<open>The peer resolution and the confirmation rule, as the specification words them\<close>

text \<open>
  The peers of the company's industry and of its sector: none when the company is not
  among the facts or has no (or an empty) industry or sector.
\<close>

definition sameIndustry ::
  "string \<Rightarrow> CompanyFacts list \<Rightarrow> UniverseMetric list \<Rightarrow> UniverseMetric list" where
  "sameIndustry tk facts universe =
     (case resolveCompanyFacts tk facts of
        None \<Rightarrow> []
      | Some c \<Rightarrow>
          (case industry c of
             None \<Rightarrow> []
           | Some i \<Rightarrow> if i = [] then [] else filter (\<lambda>u. industry u = Some i) universe))"

definition sameSector ::
  "string \<Rightarrow> CompanyFacts list \<Rightarrow> UniverseMetric list \<Rightarrow> UniverseMetric list" where
  "sameSector tk facts universe =
     (case resolveCompanyFacts tk facts of
        None \<Rightarrow> []
      | Some c \<Rightarrow>
          (case sector c of
             None \<Rightarrow> []
           | Some i \<Rightarrow> if i = [] then [] else filter (\<lambda>u. sector u = Some i) universe))"

text \<open>The narrowest peer set with at least \<open>minPeers\<close> members: industry, then sector,
  then the universe; otherwise the median level, on the sector peers if there are any
  and on the universe if not.\<close>

definition narrowestPeerSet ::
  "string \<Rightarrow> CompanyFacts list \<Rightarrow> UniverseMetric list \<Rightarrow> real
     \<Rightarrow> UniverseMetric list \<times> PeerLevel" where
  "narrowestPeerSet tk facts universe minPeers =
     (if real (length (sameIndustry tk facts universe)) \<ge> minPeers
      then (sameIndustry tk facts universe, Industry)
      else if real (length (sameSector tk facts universe)) \<ge> minPeers
      then (sameSector tk facts universe, Sector)
      else if real (length universe) \<ge> minPeers then (universe, Universe)
      else if sameSector tk facts universe \<noteq> [] then (sameSector tk facts universe, Median)
      else (universe, Median))"

text \<open>The median-ratio banding.\<close>

definition medianRatioBand :: "MedianBands \<Rightarrow> real \<Rightarrow> real" where
  "medianRatioBand bands ratio =
     (if ratio \<le> cheap bands then 15
      else if ratio \<le> mid bands then 10
      else if ratio \<le> rich bands then 5
      else 0)"

text \<open>
  The strong matches of a confirmation-required class are corroborated when one of the
  documents that match strongly is an SEC filing, or when these documents come from at
  least two source types. The score of the class is then the capped sum, over the
  documents that match, of the weight times the tier points of a strong match (the
  strong tier when corroborated, the weak tier when not) and of the weight times the
  weak points for every weak match.
\<close>

definition strongSources :: "DocMatch list \<Rightarrow> SourceType list" where
  "strongSources matches =
     map (\<lambda>m. source_type (doc m)) (filter (\<lambda>m. strongMatches m \<noteq> []) matches)"

definition corroborated :: "DocMatch list \<Rightarrow> bool" where
  "corroborated matches =
     (SEC_FILING \<in> set (strongSources matches) \<or> card (set (strongSources matches)) \<ge> 2)"

definition tieredScore :: "DocMatch list \<Rightarrow> real \<Rightarrow> real \<Rightarrow> real \<Rightarrow> real" where
  "tieredScore matches strongPoints weakPoints cp =
     min cp
       (sum_list
          (map (\<lambda>m. (if strongMatches m \<noteq> [] then weight (doc m) * strongPoints else 0)
                     + weight (doc m) * real (length (weakMatches m)) * weakPoints)
             matches))"

section \<open>Example inputs\<close>

text \<open>The host's dates for the strings of the examples; every other string is an
  Invalid Date.\<close>

definition calendar :: dateParser where
  "calendar =
     map_of
       [(''2023-03-31'', 1680220800000), (''2023-06-30'', 1688083200000),
        (''2023-09-30'', 1696032000000), (''2023-12-31'', 1703980800000),
        (''2024-03-31'', 1711843200000), (''2024-06-30'', 1719705600000),
        (''2024-09-30'', 1727654400000), (''2024-12-31'', 1735603200000)]"

definition unsortedRows :: "DatedValue list" where
  "unsortedRows =
     [\<lparr>report_period = ''2024-09-30''\<rparr>, \<lparr>report_period = ''n/a''\<rparr>,
      \<lparr>report_period = ''pending''\<rparr>, \<lparr>report_period = ''2024-03-31''\<rparr>]"

definition datedPoints :: "TtmPoint list" where
  "datedPoints =
     [\<lparr>report_period = ''2024-09-30'', value = 1\<rparr>,
      \<lparr>report_period = ''2023-03-31'', value = 2\<rparr>,
      \<lparr>report_period = ''2024-09-30'', value = 3\<rparr>,
      \<lparr>report_period = ''2023-12-31'', value = 4\<rparr>]"

definition quarter :: "string \<Rightarrow> IncomeStatement" where
  "quarter d =
     \<lparr>report_period = d, revenue = Some 100, gross_profit = Some 40, ebit = None,
      interest_expense = None\<rparr>"

definition fourQuarters :: "IncomeStatement list" where
  "fourQuarters =
     [quarter ''2023-03-31'', quarter ''2023-06-30'', quarter ''2023-09-30'',
      quarter ''2023-12-31'']"

definition fiveQuartersOneGap :: "IncomeStatement list" where
  "fiveQuartersOneGap =
     fourQuarters
     @ [\<lparr>report_period = ''2024-03-31'', revenue = None, gross_profit = Some 40, ebit = None,
         interest_expense = None\<rparr>]"


definition noOverrides :: PartialMdsConfig where
  "noOverrides =
     \<lparr>history_short_opt = None, history_long_opt = None, history_min_opt = None,
      ebitda_flat_opt = None, ebitda_mild_opt = None, ebitda_collapse_opt = None,
      fcf_stdev_stable_opt = None, fcf_stdev_volatile_opt = None,
      ocf_stdev_stable_opt = None, ocf_stdev_volatile_opt = None, gm_stdev_opt = None,
      revenue_stable_opt = None, multiple_strong_opt = None, multiple_mild_opt = None,
      fcf_yield_up_opt = None, eps_drop_opt = None, short_elevated_opt = None,
      short_extreme_opt = None, insider_value_threshold_opt = None,
      insider_pct_threshold_opt = None, ownership_holders_drop_opt = None,
      ownership_shares_drop_opt = None\<rparr>"


text \<open>A \<open>history_min\<close> that is present and is \<open>NaN\<close>, or \<open>undefined\<close>.\<close>

definition nanHistoryMin :: PartialMdsConfig where
  "nanHistoryMin = noOverrides\<lparr>history_min_opt := Some JNaN\<rparr>"

definition undefinedHistoryMin :: PartialMdsConfig where
  "undefinedHistoryMin = noOverrides\<lparr>history_min_opt := Some JUndefined\<rparr>"


text \<open>
  The host's discount on the examples: the product \<open>score * (available / h)\<close> rounded
  to two decimals. The host rounds the double product, which can lie on the other side
  of a tie than the exact product does: \<open>15 * (1 / 200)\<close> is below 0.075 in double
  arithmetic and gives 0.07, where the exact product rounds to 0.08.
\<close>

definition doubleDiscount :: hostDiscount where
  "doubleDiscount score available h =
     (if score = 15 \<and> available = 1 \<and> h = 200 then 7 / 100
      else toFixed2 (score * (available / h)))"

text \<open>Inputs of the MDS engine with no history at all and a short interest.\<close>

definition shortInterestInputs :: "real \<Rightarrow> MdsSeriesInputs" where
  "shortInterestInputs v =
     \<lparr>MdsSeriesInputs.ticker = None, asof_date = None, metrics_history = [],
      income_statements = [],
      cash_flow_statements = [], estimates = None, ownership_history = None,
      insider_trades = None, short_interest_pct = Some v, docs = None,
      narrative_params = None, fundamentals_intact = None, config = None\<rparr>"

text \<open>Seven observations of EV/EBITDA, all 10.\<close>

definition sevenObservations :: "TtmPoint list" where
  "sevenObservations =
     map (\<lambda>d. \<lparr>report_period = d, value = 10\<rparr>)
       [''2023-03-31'', ''2023-06-30'', ''2023-09-30'', ''2023-12-31'', ''2024-03-31'',
        ''2024-06-30'', ''2024-09-30'']"

text \<open>Inputs of the BRS engine: four quarters of income statements and nothing else,
  with the low-history multiplier of the gross-margin score configured to 30.\<close>

definition overscaledConfig :: PartialBrsConfig where
  "overscaledConfig =
     \<lparr>min_peers_opt = None, gm_stdev_threshold_opt = None,
      low_history_gm_multiplier_opt = Some 30, winsor_low_opt = None, winsor_high_opt = None,
      median_bands_opt = None\<rparr>"

definition overscaledInputs :: BrsInputs where
  "overscaledInputs =
     \<lparr>BrsInputs.ticker = ''ACME'', company_facts = [],
      BrsInputs.income_statements = fourQuarters, balance_sheets = [],
      BrsInputs.cash_flow_statements = [], BrsInputs.metrics_history = [],
      universe_metrics = [], BrsInputs.config = Some overscaledConfig\<rparr>"

text \<open>Statements that share one report period, which is not a date.\<close>

definition undatedInputs :: BrsInputs where
  "undatedInputs =
     \<lparr>BrsInputs.ticker = ''ACME'', company_facts = [],
      BrsInputs.income_statements =
        [\<lparr>report_period = ''n/a'', revenue = Some 100, gross_profit = Some 40, ebit = None,
          interest_expense = None\<rparr>],
      balance_sheets =
        [\<lparr>report_period = ''n/a'', total_debt = None, cash_and_equivalents = None\<rparr>],
      BrsInputs.cash_flow_statements =
        [\<lparr>report_period = ''n/a'', depreciation_and_amortization = None,
          net_cash_flow_from_operations = None, free_cash_flow = None,
          capital_expenditure = None, dividends_and_other_cash_distributions = None,
          issuance_or_purchase_of_equity_shares = None, share_based_compensation = None\<rparr>],
      BrsInputs.metrics_history = [], universe_metrics = [], BrsInputs.config = None\<rparr>"

text \<open>Four quarters with an EBIT of 10 and a D&A of 1 each, whose operating cash flows
  and free cash flows sum to zero.\<close>

definition ebitQuarter :: "string \<Rightarrow> IncomeStatement" where
  "ebitQuarter d =
     \<lparr>report_period = d, revenue = Some 100, gross_profit = Some 40, ebit = Some 10,
      interest_expense = None\<rparr>"

definition cashQuarter :: "string \<Rightarrow> real \<Rightarrow> real \<Rightarrow> CashFlowStatement" where
  "cashQuarter d ocf fcf =
     \<lparr>report_period = d, depreciation_and_amortization = Some 1,
      net_cash_flow_from_operations = Some ocf, free_cash_flow = Some fcf,
      capital_expenditure = None, dividends_and_other_cash_distributions = None,
      issuance_or_purchase_of_equity_shares = None, share_based_compensation = None\<rparr>"

definition zeroCashInputs :: BrsInputs where
  "zeroCashInputs =
     \<lparr>BrsInputs.ticker = ''ACME'', company_facts = [],
      BrsInputs.income_statements =
        [ebitQuarter ''2023-03-31'', ebitQuarter ''2023-06-30'', ebitQuarter ''2023-09-30'',
         ebitQuarter ''2023-12-31''],
      balance_sheets = [],
      BrsInputs.cash_flow_statements =
        [cashQuarter ''2023-03-31'' 5 2, cashQuarter ''2023-06-30'' (- 5) (- 2),
         cashQuarter ''2023-09-30'' 3 1, cashQuarter ''2023-12-31'' (- 3) (- 1)],
      BrsInputs.metrics_history = [], universe_metrics = [], BrsInputs.config = None\<rparr>"

text \<open>A company in a universe of three peers, none of the peer sets reaching the default
  \<open>min_peers\<close>, with an EV/EBITDA of 11 at the as-of date.\<close>

definition peer :: "string \<Rightarrow> string \<Rightarrow> string \<Rightarrow> real \<Rightarrow> UniverseMetric" where
  "peer t sec ind ev =
     \<lparr>CompanyFacts.ticker = t, sector = Some sec, industry = Some ind,
      UniverseMetric.ev_to_ebitda = Some ev, roic_series = None\<rparr>"

definition smallUniverse :: "UniverseMetric list" where
  "smallUniverse =
     [peer ''AAA'' ''Technology'' ''Software'' 10, peer ''BBB'' ''Technology'' ''Hardware'' 12,
      peer ''CCC'' ''Energy'' ''Oil'' 4]"

definition acmeFacts :: "CompanyFacts list" where
  "acmeFacts =
     [\<lparr>CompanyFacts.ticker = ''ACME'', sector = Some ''Technology'',
       industry = Some ''Software''\<rparr>]"

definition smallPeerInputs :: BrsInputs where
  "smallPeerInputs =
     \<lparr>BrsInputs.ticker = ''acme'', company_facts = acmeFacts,
      BrsInputs.income_statements = fourQuarters, balance_sheets = [],
      BrsInputs.cash_flow_statements = [],
      BrsInputs.metrics_history =
        [\<lparr>report_period = ''2023-12-31'', enterprise_value_to_ebitda_ratio = Some 11,
          free_cash_flow_yield = None, return_on_invested_capital = None,
          MetricsPoint.interest_coverage = None, gross_margin = None, market_cap = None,
          enterprise_value = None\<rparr>],
      universe_metrics = smallUniverse, BrsInputs.config = None\<rparr>"

text \<open>The restatement text of the specification's scenarios, in a document of a given
  source type published on the day the window ends.\<close>

definition restatementDoc :: "SourceType \<Rightarrow> NarrativeDoc" where
  "restatementDoc st =
     \<lparr>source_type = st, published_at = ''2024-12-31'', title = ''Quarterly update'',
      body = ''The Company will restate previously issued financial statements.''\<rparr>"

definition restatementOptions :: NarrativeOptions where
  "restatementOptions =
     PartialNarrativeParams.extend emptyParams
       (NarrativeOptions.fields (Some ''ACME'') (Some ''2024-12-31''))"

text \<open>Inputs of the MDS engine with documents and an as-of date that is not a date.\<close>

definition undatedMdsInputs :: MdsSeriesInputs where
  "undatedMdsInputs =
     (shortInterestInputs 0.25)\<lparr>asof_date := Some ''n/a'', docs := Some [restatementDoc NEWS]\<rparr>"

text \<open>
  Inputs of the MDS engine with eight quarters of statements, of constant EBIT,
  depreciation and cash flows, and seven quarters of EV/EBITDA: six at 10 and the last
  one, at the as-of date, at 7.5. The same inputs with a \<open>history_min\<close> that is \<open>NaN\<close>.
\<close>

definition eightQuarters :: "string list" where
  "eightQuarters =
     [''2023-03-31'', ''2023-06-30'', ''2023-09-30'', ''2023-12-31'', ''2024-03-31'',
      ''2024-06-30'', ''2024-09-30'', ''2024-12-31'']"

definition multipleAt :: "string \<Rightarrow> real \<Rightarrow> MetricsPoint" where
  "multipleAt d v =
     \<lparr>report_period = d, enterprise_value_to_ebitda_ratio = Some v,
      free_cash_flow_yield = None, return_on_invested_capital = None,
      MetricsPoint.interest_coverage = None, gross_margin = None, market_cap = None,
      enterprise_value = None\<rparr>"

definition shortHistoryInputs :: MdsSeriesInputs where
  "shortHistoryInputs =
     \<lparr>MdsSeriesInputs.ticker = None, asof_date = None,
      metrics_history =
        map (\<lambda>d. multipleAt d 10)
          [''2023-06-30'', ''2023-09-30'', ''2023-12-31'', ''2024-03-31'', ''2024-06-30'',
           ''2024-09-30'']
        @ [multipleAt ''2024-12-31'' (15 / 2)],
      income_statements = map ebitQuarter eightQuarters,
      cash_flow_statements = map (\<lambda>d. cashQuarter d 5 2) eightQuarters,
      estimates = None, ownership_history = None, insider_trades = None,
      short_interest_pct = None, docs = None, narrative_params = None,
      fundamentals_intact = None, config = None\<rparr>"

definition nanHistoryInputs :: MdsSeriesInputs where
  "nanHistoryInputs = shortHistoryInputs\<lparr>config := Some nanHistoryMin\<rparr>"

section \<open>Properties of the series utilities\<close>

lemma mset_insertBy: "mset (insertBy cmp x ys) = add_mset x (mset ys)"
  by (induction ys) auto

lemma mset_arraySort: "mset (arraySort cmp xs) = mset xs"
  unfolding arraySort_def by (induction xs) (auto simp: mset_insertBy)

lemma set_arraySort: "set (arraySort cmp xs) = set xs"
  by (metis mset_arraySort set_mset_mset)

lemma length_arraySort: "length (arraySort cmp xs) = length xs"
  by (metis mset_arraySort size_mset)

text \<open>When the comparator is the order of a key, \<open>arraySort\<close> is the library's stable
  sort by that key.\<close>

lemma insertBy_insort_key:
  "\<forall>y\<in>set ys. (cmp x y \<le> 0) = (k x \<le> k y) \<Longrightarrow> insertBy cmp x ys = insort_key k x ys"
  by (induction ys) auto

lemma arraySort_sort_key:
  "\<forall>x\<in>set xs. \<forall>y\<in>set xs. (cmp x y \<le> 0) = (k x \<le> k y) \<Longrightarrow>
   arraySort cmp xs = sort_key k xs"
proof (induction xs)
  case Nil
  then show ?case by (simp add: arraySort_def)
next
  case (Cons a xs)
  then have ih: "arraySort cmp xs = sort_key k xs" by simp
  have "\<forall>y\<in>set (sort_key k xs). (cmp a y \<le> 0) = (k a \<le> k y)"
    using Cons.prems by simp
  then have "insertBy cmp a (sort_key k xs) = insort_key k a (sort_key k xs)"
    by (rule insertBy_insort_key)
  then show ?case using ih by (simp add: arraySort_def)
qed

lemma arraySort_numbers: "arraySort (\<lambda>a b. a - b) xs = sort xs"
  by (rule arraySort_sort_key) simp

lemma sortByReportPeriod_all_parse:
  assumes "\<forall>r\<in>set rows. parseReportDate nd (report_period r) \<noteq> None"
  shows "sortByReportPeriod nd rows =
         sort_key (\<lambda>r. the (parseReportDate nd (report_period r))) rows"
  unfolding sortByReportPeriod_def
  by (rule arraySort_sort_key)
     (use assms in \<open>auto simp: compareReportPeriod_def split: option.splits\<close>)

lemma length_sortByReportPeriod: "length (sortByReportPeriod nd rows) = length rows"
  by (simp add: sortByReportPeriod_def length_arraySort)

lemma set_sortByReportPeriod: "set (sortByReportPeriod nd rows) = set rows"
  by (simp add: sortByReportPeriod_def set_arraySort)

text \<open>
  Claim C8, as amended. \<open>sortByReportPeriod\<close> returns a permutation of its input (no
  row is dropped). When every row's date parses, the output is in non-decreasing date
  order and rows of equal date keep their original relative order (the sort is
  stable). When some row's date does not parse the comparator answers 0 for it and is no
  longer consistent: the order of the output is then left to the host, and neither the
  date order of the parseable rows nor the relative order of the other rows is claimed.
\<close>

theorem sortByReportPeriod_stable_when_dates_parse:
  "mset (sortByReportPeriod nd rows) = mset rows
   \<and> ((\<forall>r\<in>set rows. parseReportDate nd (report_period r) \<noteq> None) \<longrightarrow>
        sorted (map (\<lambda>r. the (parseReportDate nd (report_period r)))
                  (sortByReportPeriod nd rows))
        \<and> (\<forall>t. filter (\<lambda>r. parseReportDate nd (report_period r) = Some t)
                    (sortByReportPeriod nd rows)
                 = filter (\<lambda>r. parseReportDate nd (report_period r) = Some t) rows))"
proof (intro conjI impI allI)
  show "mset (sortByReportPeriod nd rows) = mset rows"
    by (simp add: sortByReportPeriod_def mset_arraySort)
next
  assume all: "\<forall>r\<in>set rows. parseReportDate nd (report_period r) \<noteq> None"
  show "sorted (map (\<lambda>r. the (parseReportDate nd (report_period r)))
                 (sortByReportPeriod nd rows))"
    by (simp add: sortByReportPeriod_all_parse[OF all])
next
  fix t
  assume all: "\<forall>r\<in>set rows. parseReportDate nd (report_period r) \<noteq> None"
  let ?k = "\<lambda>r. the (parseReportDate nd (report_period r))"
  have eq: "\<And>xs. \<forall>r\<in>set xs. parseReportDate nd (report_period r) \<noteq> None \<Longrightarrow>
      filter (\<lambda>r. parseReportDate nd (report_period r) = Some t) xs = filter (\<lambda>r. ?k r = t) xs"
    by (rule filter_cong) auto
  have "filter (\<lambda>r. parseReportDate nd (report_period r) = Some t) (sort_key ?k rows)
        = filter (\<lambda>r. ?k r = t) (sort_key ?k rows)"
    using all by (intro eq) simp
  also have "\<dots> = filter (\<lambda>r. ?k r = t) rows"
    by (rule sort_key_stable)
  also have "\<dots> = filter (\<lambda>r. parseReportDate nd (report_period r) = Some t) rows"
    using all by (rule eq[symmetric])
  finally show "filter (\<lambda>r. parseReportDate nd (report_period r) = Some t)
                  (sortByReportPeriod nd rows)
                = filter (\<lambda>r. parseReportDate nd (report_period r) = Some t) rows"
    by (simp add: sortByReportPeriod_all_parse[OF all])
qed

lemmas sort_eval =
  sortByReportPeriod_def arraySort_def compareReportPeriod_def parseReportDate_def calendar_def

lemma sorted_datedPoints:
  "sortByReportPeriod calendar datedPoints =
     [\<lparr>report_period = ''2023-03-31'', value = 2\<rparr>,
      \<lparr>report_period = ''2023-12-31'', value = 4\<rparr>,
      \<lparr>report_period = ''2024-09-30'', value = 1\<rparr>,
      \<lparr>report_period = ''2024-09-30'', value = 3\<rparr>]"
  by (simp add: sort_eval datedPoints_def)

theorem sortByReportPeriod_stable_witness:
  "list_all (\<lambda>r. parseReportDate calendar (report_period r) \<noteq> None) datedPoints
   \<and> sorted (map (\<lambda>r. the (parseReportDate calendar (report_period r)))
               (sortByReportPeriod calendar datedPoints))
   \<and> filter (\<lambda>r. parseReportDate calendar (report_period r) = Some 1727654400000)
        (sortByReportPeriod calendar datedPoints)
      = [\<lparr>report_period = ''2024-09-30'', value = 1\<rparr>,
         \<lparr>report_period = ''2024-09-30'', value = 3\<rparr>]"
proof -
  have h: "\<forall>r\<in>set datedPoints. parseReportDate calendar (report_period r) \<noteq> None"
    by (simp add: datedPoints_def parseReportDate_def calendar_def)
  have f: "filter (\<lambda>r. parseReportDate calendar (report_period r) = Some 1727654400000)
             datedPoints
           = [\<lparr>report_period = ''2024-09-30'', value = 1\<rparr>,
              \<lparr>report_period = ''2024-09-30'', value = 3\<rparr>]"
    by (simp add: datedPoints_def parseReportDate_def calendar_def)
  from sortByReportPeriod_stable_when_dates_parse[of calendar datedPoints] h f
  show ?thesis by (simp add: list_all_iff)
qed

text \<open>
  Claim C8 as stated fails: with two rows without a parseable date between a later and
  an earlier quarter, every comparison of neighbours answers 0, the array counts as
  ordered and comes back as it is (from the insertion sort as from the run detection of a
  merge sort), with the two quarters in decreasing date order.
\<close>

theorem sortByReportPeriod_unparseable_counterexample:
  "sortByReportPeriod calendar unsortedRows = unsortedRows
   \<and> parseReportDate calendar (report_period (unsortedRows ! 0)) = Some 1727654400000
   \<and> parseReportDate calendar (report_period (unsortedRows ! 3)) = Some 1711843200000
   \<and> (1711843200000 :: real) < 1727654400000"
  by (simp add: sort_eval unsortedRows_def)

section \<open>The trailing-twelve-month roll\<close>

lemma window4:
  assumes "3 \<le> i" "i < length rows"
  shows "take 4 (drop (i - 3) rows) = [rows ! (i - 3), rows ! (i - 2), rows ! (i - 1), rows ! i]"
proof (rule nth_equalityI)
  show "length (take 4 (drop (i - 3) rows))
        = length [rows ! (i - 3), rows ! (i - 2), rows ! (i - 1), rows ! i]"
    using assms by simp
next
  fix k assume "k < length (take 4 (drop (i - 3) rows))"
  then have k: "k < 4" by simp
  then consider "k = 0" | "k = 1" | "k = 2" | "k = 3" by linarith
  then show "take 4 (drop (i - 3) rows) ! k
             = [rows ! (i - 3), rows ! (i - 2), rows ! (i - 1), rows ! i] ! k"
  proof cases
    case 1 then show ?thesis using assms by simp
  next
    case 2
    have "i - 3 + 1 = i - 2" using assms by simp
    then show ?thesis using 2 assms by simp
  next
    case 3
    have "i - 3 + 2 = i - 1" using assms by simp
    then show ?thesis using 3 assms by simp
  next
    case 4
    have "i - 3 + 3 = i" using assms by simp
    then show ?thesis using 4 assms by (simp add: numeral_3_eq_3)
  qed
qed

text \<open>The window of index \<open>i\<close> is complete when none of its four values is missing.\<close>

lemma ttmPoint_window:
  assumes "3 \<le> i" "i < length rows"
  shows "ttmPoint g rows i =
     (if missing (g (rows ! (i - 3))) \<or> missing (g (rows ! (i - 2)))
         \<or> missing (g (rows ! (i - 1))) \<or> missing (g (rows ! i))
      then None
      else Some \<lparr>report_period = report_period (rows ! i),
                 value = numberOf (g (rows ! (i - 3))) + numberOf (g (rows ! (i - 2)))
                         + numberOf (g (rows ! (i - 1))) + numberOf (g (rows ! i))\<rparr>)"
  by (simp add: ttmPoint_def window4[OF assms] sum_values_def)

lemma map_filter_as_map:
  "List.map_filter f xs = map (\<lambda>x. the (f x)) (filter (\<lambda>x. f x \<noteq> None) xs)"
  by (simp add: List.map_filter_def comp_def)

lemma rollingTtmSeries_points:
  "rollingTtmSeries nd rows g =
     map (\<lambda>i. \<lparr>report_period = report_period (sortByReportPeriod nd rows ! i),
                value = numberOf (g (sortByReportPeriod nd rows ! (i - 3)))
                        + numberOf (g (sortByReportPeriod nd rows ! (i - 2)))
                        + numberOf (g (sortByReportPeriod nd rows ! (i - 1)))
                        + numberOf (g (sortByReportPeriod nd rows ! i))\<rparr>)
       (filter (\<lambda>i. \<not> (missing (g (sortByReportPeriod nd rows ! (i - 3)))
                        \<or> missing (g (sortByReportPeriod nd rows ! (i - 2)))
                        \<or> missing (g (sortByReportPeriod nd rows ! (i - 1)))
                        \<or> missing (g (sortByReportPeriod nd rows ! i))))
          [3..<length rows])"
proof -
  let ?s = "sortByReportPeriod nd rows"
  let ?ok = "\<lambda>i. \<not> (missing (g (?s ! (i - 3))) \<or> missing (g (?s ! (i - 2)))
                    \<or> missing (g (?s ! (i - 1))) \<or> missing (g (?s ! i)))"
  have len: "length ?s = length rows" by (rule length_sortByReportPeriod)
  have f: "filter (\<lambda>i. ttmPoint g ?s i \<noteq> None) [3..<length rows] = filter ?ok [3..<length rows]"
    by (rule filter_cong) (auto simp: ttmPoint_window len)
  have "rollingTtmSeries nd rows g
        = map (\<lambda>i. the (ttmPoint g ?s i))
            (filter (\<lambda>i. ttmPoint g ?s i \<noteq> None) [3..<length rows])"
    by (simp only: rollingTtmSeries_def Let_def map_filter_as_map len)
  also have "\<dots> = map (\<lambda>i. the (ttmPoint g ?s i)) (filter ?ok [3..<length rows])"
    by (simp only: f)
  also have "\<dots> = map (\<lambda>i. \<lparr>report_period = report_period (?s ! i),
                value = numberOf (g (?s ! (i - 3))) + numberOf (g (?s ! (i - 2)))
                        + numberOf (g (?s ! (i - 1))) + numberOf (g (?s ! i))\<rparr>)
                  (filter ?ok [3..<length rows])"
    by (rule map_cong) (auto simp: ttmPoint_window len)
  finally show ?thesis .
qed

lemma rollingTtmSeries_full:
  assumes "\<forall>r\<in>set rows. \<not> missing (g r)"
  shows "length (rollingTtmSeries nd rows g) = length rows - 3"
proof -
  let ?s = "sortByReportPeriod nd rows"
  have nm: "\<And>j. j < length rows \<Longrightarrow> \<not> missing (g (?s ! j))"
    using assms by (metis nth_mem length_sortByReportPeriod set_sortByReportPeriod)
  have "filter (\<lambda>i. \<not> (missing (g (?s ! (i - 3))) \<or> missing (g (?s ! (i - 2)))
        \<or> missing (g (?s ! (i - 1))) \<or> missing (g (?s ! i)))) [3..<length rows]
        = [3..<length rows]"
    by (rule filter_True) (auto simp: nm)
  then show ?thesis by (simp add: rollingTtmSeries_points)
qed

text \<open>
  Claim C7. A value is missing when it is \<open>null\<close>, \<open>undefined\<close> or \<open>NaN\<close>. In date
  order, the roll emits one point for each index \<open>i\<close> from 3 on whose four rows
  \<open>i - 3 .. i\<close> all have a value, the sum of the four, and no point for a window with a
  missing value; so \<open>N\<close> rows that all have a value give exactly \<open>N - 3\<close> points, for
  \<open>N \<ge> 4\<close> (whether or not their dates parse).
\<close>

theorem rollingTtmSeries_complete_windows_only:
  "(missing v \<longleftrightarrow> v = JNull \<or> v = JUndefined \<or> v = JNaN)
   \<and> rollingTtmSeries nd rows g =
       map (\<lambda>i. \<lparr>report_period = report_period (sortByReportPeriod nd rows ! i),
                  value = numberOf (g (sortByReportPeriod nd rows ! (i - 3)))
                          + numberOf (g (sortByReportPeriod nd rows ! (i - 2)))
                          + numberOf (g (sortByReportPeriod nd rows ! (i - 1)))
                          + numberOf (g (sortByReportPeriod nd rows ! i))\<rparr>)
         (filter (\<lambda>i. \<not> (missing (g (sortByReportPeriod nd rows ! (i - 3)))
                          \<or> missing (g (sortByReportPeriod nd rows ! (i - 2)))
                          \<or> missing (g (sortByReportPeriod nd rows ! (i - 1)))
                          \<or> missing (g (sortByReportPeriod nd rows ! i))))
            [3..<length rows])
   \<and> (3 \<le> i \<and> i < length rows
        \<and> (missing (g (sortByReportPeriod nd rows ! (i - 3)))
           \<or> missing (g (sortByReportPeriod nd rows ! (i - 2)))
           \<or> missing (g (sortByReportPeriod nd rows ! (i - 1)))
           \<or> missing (g (sortByReportPeriod nd rows ! i)))
        \<longrightarrow> ttmPoint g (sortByReportPeriod nd rows) i = None)
   \<and> ((\<forall>r\<in>set rows. \<not> missing (g r)) \<and> 4 \<le> length rows
        \<longrightarrow> length (rollingTtmSeries nd rows g) = length rows - 3)"
proof (intro conjI impI)
  show "missing v \<longleftrightarrow> v = JNull \<or> v = JUndefined \<or> v = JNaN"
    by (cases v) simp_all
next
  show "rollingTtmSeries nd rows g =
       map (\<lambda>i. \<lparr>report_period = report_period (sortByReportPeriod nd rows ! i),
                  value = numberOf (g (sortByReportPeriod nd rows ! (i - 3)))
                          + numberOf (g (sortByReportPeriod nd rows ! (i - 2)))
                          + numberOf (g (sortByReportPeriod nd rows ! (i - 1)))
                          + numberOf (g (sortByReportPeriod nd rows ! i))\<rparr>)
         (filter (\<lambda>i. \<not> (missing (g (sortByReportPeriod nd rows ! (i - 3)))
                          \<or> missing (g (sortByReportPeriod nd rows ! (i - 2)))
                          \<or> missing (g (sortByReportPeriod nd rows ! (i - 1)))
                          \<or> missing (g (sortByReportPeriod nd rows ! i))))
            [3..<length rows])"
    by (rule rollingTtmSeries_points)
next
  assume "3 \<le> i \<and> i < length rows
        \<and> (missing (g (sortByReportPeriod nd rows ! (i - 3)))
           \<or> missing (g (sortByReportPeriod nd rows ! (i - 2)))
           \<or> missing (g (sortByReportPeriod nd rows ! (i - 1)))
           \<or> missing (g (sortByReportPeriod nd rows ! i)))"
  then show "ttmPoint g (sortByReportPeriod nd rows) i = None"
    by (simp add: ttmPoint_window length_sortByReportPeriod)
next
  assume "(\<forall>r\<in>set rows. \<not> missing (g r)) \<and> 4 \<le> length rows"
  then show "length (rollingTtmSeries nd rows g) = length rows - 3"
    by (simp add: rollingTtmSeries_full)
qed

lemma sorted_fourQuarters: "sortByReportPeriod calendar fourQuarters = fourQuarters"
  by (simp add: sort_eval fourQuarters_def quarter_def)

lemma sorted_fiveQuartersOneGap:
  "sortByReportPeriod calendar fiveQuartersOneGap = fiveQuartersOneGap"
  by (simp add: sort_eval fiveQuartersOneGap_def fourQuarters_def quarter_def)

theorem rollingTtmSeries_windows_witness:
  "list_all (\<lambda>r. \<not> missing (field (revenue r))) fourQuarters
   \<and> 4 \<le> length fourQuarters
   \<and> length (rollingTtmSeries calendar fourQuarters (\<lambda>r. field (revenue r))) = 1
   \<and> missing (field (revenue (sortByReportPeriod calendar fiveQuartersOneGap ! 4)))
   \<and> ttmPoint (\<lambda>r. field (revenue r)) (sortByReportPeriod calendar fiveQuartersOneGap) 4 = None"
proof -
  have h: "\<forall>r\<in>set fourQuarters. \<not> missing (field (revenue r))"
    by (simp add: fourQuarters_def quarter_def field_def)
  have m: "missing (field (revenue (sortByReportPeriod calendar fiveQuartersOneGap ! 4)))"
    by (simp add: sorted_fiveQuartersOneGap)
       (simp add: fiveQuartersOneGap_def fourQuarters_def field_def)
  have l: "length fiveQuartersOneGap = 5" "length fourQuarters = 4"
    by (simp_all add: fiveQuartersOneGap_def fourQuarters_def)
  have t4: "(\<forall>r\<in>set fourQuarters. \<not> missing (field (revenue r))) \<and> 4 \<le> length fourQuarters
        \<longrightarrow> length (rollingTtmSeries calendar fourQuarters (\<lambda>r. field (revenue r)))
            = length fourQuarters - 3"
    using rollingTtmSeries_complete_windows_only
            [of JNull calendar fourQuarters "\<lambda>r. field (revenue r)" 3]
    by blast
  have n: "length (rollingTtmSeries calendar fourQuarters (\<lambda>r. field (revenue r))) = 1"
    using t4 h l by simp
  have t5: "3 \<le> (4::nat) \<and> 4 < length fiveQuartersOneGap
        \<and> (missing (field (revenue (sortByReportPeriod calendar fiveQuartersOneGap ! (4 - 3))))
           \<or> missing (field (revenue (sortByReportPeriod calendar fiveQuartersOneGap ! (4 - 2))))
           \<or> missing (field (revenue (sortByReportPeriod calendar fiveQuartersOneGap ! (4 - 1))))
           \<or> missing (field (revenue (sortByReportPeriod calendar fiveQuartersOneGap ! 4))))
        \<longrightarrow> ttmPoint (\<lambda>r. field (revenue r)) (sortByReportPeriod calendar fiveQuartersOneGap) 4
            = None"
    using rollingTtmSeries_complete_windows_only
            [of JNull calendar fiveQuartersOneGap "\<lambda>r. field (revenue r)" 4]
    by blast
  have p: "ttmPoint (\<lambda>r. field (revenue r)) (sortByReportPeriod calendar fiveQuartersOneGap) 4
           = None"
    using t5 m l by simp
  show ?thesis using h l n m p by (simp add: list_all_iff)
qed

lemma rollingTtmSeries_four_equal:
  assumes len: "length rows = 4" and eq: "\<forall>r\<in>set rows. g r = JNum x"
  shows "map value (rollingTtmSeries nd rows g) = [4 * x]"
proof -
  let ?s = "sortByReportPeriod nd rows"
  have v: "\<And>j. j < 4 \<Longrightarrow> g (?s ! j) = JNum x"
    using eq len by (metis nth_mem length_sortByReportPeriod set_sortByReportPeriod)
  have "g (?s ! 0) = JNum x" "g (?s ! 1) = JNum x" "g (?s ! 2) = JNum x" "g (?s ! 3) = JNum x"
    by (simp_all add: v)
  then show ?thesis
    by (simp add: rollingTtmSeries_points len)
qed

lemma rollingTtmSeries_fourQuarters:
  "rollingTtmSeries calendar fourQuarters (\<lambda>r. field (gross_profit r))
     = [\<lparr>report_period = ''2023-12-31'', value = 160\<rparr>]"
  "rollingTtmSeries calendar fourQuarters (\<lambda>r. field (revenue r))
     = [\<lparr>report_period = ''2023-12-31'', value = 400\<rparr>]"
  by (simp_all add: rollingTtmSeries_points sorted_fourQuarters)
     (simp_all add: fourQuarters_def quarter_def field_def)

text \<open>
  Claim C2, as amended. Four quarterly income statements, each with revenue 100 and
  gross profit 40, roll to exactly one trailing-twelve-month point for gross profit, of
  value 160, and one for revenue, of value 400, whatever the dates are; with the dates of
  2023 the point is that of the last quarter. The gross margin of that period is
  160 / 400 = 0.4.
\<close>

theorem rollingTtmSeries_four_quarters_margin:
  "map value (rollingTtmSeries nd fourQuarters (\<lambda>r. field (gross_profit r))) = [160]
   \<and> map value (rollingTtmSeries nd fourQuarters (\<lambda>r. field (revenue r))) = [400]
   \<and> rollingTtmSeries calendar fourQuarters (\<lambda>r. field (gross_profit r))
       = [\<lparr>report_period = ''2023-12-31'', value = 160\<rparr>]
   \<and> rollingTtmSeries calendar fourQuarters (\<lambda>r. field (revenue r))
       = [\<lparr>report_period = ''2023-12-31'', value = 400\<rparr>]
   \<and> map2 (\<lambda>g r. value g / value r)
        (rollingTtmSeries calendar fourQuarters (\<lambda>r. field (gross_profit r)))
        (rollingTtmSeries calendar fourQuarters (\<lambda>r. field (revenue r)))
       = [0.4]"
proof -
  have len: "length fourQuarters = 4" by (simp add: fourQuarters_def)
  have g: "\<forall>r\<in>set fourQuarters. field (gross_profit r) = JNum 40"
    by (simp add: fourQuarters_def quarter_def field_def)
  have r: "\<forall>r\<in>set fourQuarters. field (revenue r) = JNum 100"
    by (simp add: fourQuarters_def quarter_def field_def)
  show ?thesis
    using rollingTtmSeries_four_equal[OF len g, of nd]
          rollingTtmSeries_four_equal[OF len r, of nd]
    by (simp add: rollingTtmSeries_fourQuarters)
qed

text \<open>Claim C2 as stated fails in its last part: the margin of the period is not 0.25.\<close>

theorem rollingTtmSeries_margin_counterexample:
  "map2 (\<lambda>g r. value g / value r)
     (rollingTtmSeries calendar fourQuarters (\<lambda>r. field (gross_profit r)))
     (rollingTtmSeries calendar fourQuarters (\<lambda>r. field (revenue r)))
   \<noteq> [0.25]"
  by (simp add: rollingTtmSeries_fourQuarters)

section \<open>Short interest\<close>




section \<open>The MDS engine: short interest\<close>

lemma computeMdsFromSeries_Inr:
  "computeMdsFromSeries nd now ds inputs = Inr r \<Longrightarrow>
   \<exists>asofDate w0 narrative.
     asofDateMds nd inputs = Inr (asofDate, w0) \<and> narrativeShock nd now inputs = Inr narrative
     \<and> r = mdsResult nd now ds inputs asofDate w0 narrative"
  by (auto simp: computeMdsFromSeries_def split: sum.splits prod.splits)

lemma mdsResult_short_interest:
  "short_interest (MdsSeriesResult.subscores (mdsResult nd now ds inputs asofDate w0 narrative))
     = fst (shortInterestScore inputs)"
  by (simp add: mdsResult_def mdsSubscores_def Let_def)

text \<open>
  Claim C3. Whenever \<open>computeMdsFromSeries\<close> returns a result and
  \<open>short_interest_pct\<close> is supplied, the short-interest sub-score is 5 for a value at or
  above the extreme threshold, 10 for a value at or above the elevated threshold and
  below the extreme one, and 0 otherwise. The default thresholds are 0.20 and 0.10, so
  that without a configuration 0.25 scores 5, 0.15 scores 10 and 0.05 scores 0.
\<close>

theorem short_interest_banding:
  "(computeMdsFromSeries nd now ds inputs = Inr r \<and> short_interest_pct inputs = Some v \<longrightarrow>
      short_interest (MdsSeriesResult.subscores r)
        = (if v \<ge> short_extreme (mdsConfig inputs) then 5
           else if v \<ge> short_elevated (mdsConfig inputs) then 10
           else 0))
   \<and> short_extreme DEFAULT_MDS_CONFIG = 0.20
   \<and> short_elevated DEFAULT_MDS_CONFIG = 0.10
   \<and> (computeMdsFromSeries nd now ds inputs = Inr r \<and> config inputs = None
        \<and> short_interest_pct inputs = Some 0.25
      \<longrightarrow> short_interest (MdsSeriesResult.subscores r) = 5)
   \<and> (computeMdsFromSeries nd now ds inputs = Inr r \<and> config inputs = None
        \<and> short_interest_pct inputs = Some 0.15
      \<longrightarrow> short_interest (MdsSeriesResult.subscores r) = 10)
   \<and> (computeMdsFromSeries nd now ds inputs = Inr r \<and> config inputs = None
        \<and> short_interest_pct inputs = Some 0.05
      \<longrightarrow> short_interest (MdsSeriesResult.subscores r) = 0)"
proof -
  have band: "computeMdsFromSeries nd now ds inputs = Inr r \<Longrightarrow> short_interest_pct inputs = Some w \<Longrightarrow>
      short_interest (MdsSeriesResult.subscores r)
        = (if w \<ge> short_extreme (mdsConfig inputs) then 5
           else if w \<ge> short_elevated (mdsConfig inputs) then 10
           else 0)" for w
    by (auto dest!: computeMdsFromSeries_Inr simp: mdsResult_short_interest shortInterestScore_def)
  have dflt: "config inputs = None \<Longrightarrow> mdsConfig inputs = DEFAULT_MDS_CONFIG"
    by (simp add: mdsConfig_def mergeMdsConfig_def)
  have d: "short_extreme DEFAULT_MDS_CONFIG = 0.20" "short_elevated DEFAULT_MDS_CONFIG = 0.10"
    by (simp_all add: DEFAULT_MDS_CONFIG_def)
  show ?thesis
    using band[of v] band[of "0.25"] band[of "0.15"] band[of "0.05"] dflt d by simp
qed

lemma asofDateMds_shortInterestInputs:
  "asofDateMds nd (shortInterestInputs v) = Inr (None, [''asof_misalignment''])"
  by (simp add: asofDateMds_def shortInterestInputs_def truthyStr_def resolveAsofDateMds_def
      newSet_def List.map_filter_def)

lemma computeMdsFromSeries_shortInterestInputs:
  "computeMdsFromSeries nd now ds (shortInterestInputs v)
     = Inr (mdsResult nd now ds (shortInterestInputs v) None [''asof_misalignment'']
              (0, None, [''missing_narrative_corpus'']))"
  by (simp add: computeMdsFromSeries_def asofDateMds_shortInterestInputs narrativeShock_def)
     (simp add: shortInterestInputs_def)

theorem short_interest_banding_witness:
  "map_sum (\<lambda>e. e) (\<lambda>r. short_interest (MdsSeriesResult.subscores r))
     (computeMdsFromSeries calendar 0 doubleDiscount (shortInterestInputs 0.25)) = Inr 5
   \<and> map_sum (\<lambda>e. e) (\<lambda>r. short_interest (MdsSeriesResult.subscores r))
     (computeMdsFromSeries calendar 0 doubleDiscount (shortInterestInputs 0.15)) = Inr 10
   \<and> map_sum (\<lambda>e. e) (\<lambda>r. short_interest (MdsSeriesResult.subscores r))
     (computeMdsFromSeries calendar 0 doubleDiscount (shortInterestInputs 0.05)) = Inr 0"
proof -
  have c: "config (shortInterestInputs v) = None"
          "short_interest_pct (shortInterestInputs v) = Some v" for v
    by (simp_all add: shortInterestInputs_def)
  let ?R = "\<lambda>v. mdsResult calendar 0 doubleDiscount (shortInterestInputs v) None [''asof_misalignment'']
                 (0, None, [''missing_narrative_corpus''])"
  show ?thesis
    using short_interest_banding[of calendar 0 doubleDiscount "shortInterestInputs 0.25" "?R 0.25" "0.25"]
          short_interest_banding[of calendar 0 doubleDiscount "shortInterestInputs 0.15" "?R 0.15" "0.15"]
          short_interest_banding[of calendar 0 doubleDiscount "shortInterestInputs 0.05" "?R 0.05" "0.05"]
    by (simp add: computeMdsFromSeries_shortInterestInputs c)
qed


section \<open>The BRS engine: sub-scores, sums and warnings\<close>

lemma computeBrs_Inr:
  assumes "computeBrs nd inputs = Inr r"
  shows "\<exists>asofDate w0.
     resolveAsofDate nd (BrsInputs.income_statements inputs) (balance_sheets inputs)
       (BrsInputs.cash_flow_statements inputs) = Inr (asofDate, w0)
     \<and> BrsResult.asof_date r = asofDate
     \<and> scores r = brsScores (brsSubscores nd inputs asofDate)
     \<and> BrsResult.subscores r = brsSubscores nd inputs asofDate
     \<and> BrsResult.warnings r = w0 @ brsWarnings nd inputs asofDate"
  using assms by (auto simp: computeBrs_def split: sum.splits prod.splits)

lemma evScore_range: "0 \<le> fst (evScore nd inputs a) \<and> fst (evScore nd inputs a) \<le> 15"
  by (auto simp: evScore_def scoreEvToEbitdaMedian_def scoreEvToEbitdaPercentile_def Let_def
      split: option.splits)

lemma scoreFcfYield_range: "0 \<le> scoreFcfYield v \<and> scoreFcfYield v \<le> 10"
  by (auto simp: scoreFcfYield_def split: option.splits)

lemma scoreCashConversion_range: "0 \<le> scoreCashConversion v \<and> scoreCashConversion v \<le> 10"
  by (auto simp: scoreCashConversion_def split: option.splits)

lemma scoreFcfConversion_range: "0 \<le> scoreFcfConversion v \<and> scoreFcfConversion v \<le> 10"
  by (auto simp: scoreFcfConversion_def split: option.splits)

lemma roicVsWaccScore_range:
  "0 \<le> roicVsWaccScore nd inputs a \<and> roicVsWaccScore nd inputs a \<le> 15"
  by (auto simp: roicVsWaccScore_def split: option.splits)

lemma scoreIncrementalRoic_range:
  "0 \<le> fst (scoreIncrementalRoic nd rs es) \<and> fst (scoreIncrementalRoic nd rs es) \<le> 10"
  by (auto simp: scoreIncrementalRoic_def Let_def split: option.splits)

lemma netDebtScore_range: "0 \<le> netDebtScore nd inputs a \<and> netDebtScore nd inputs a \<le> 10"
  by (auto simp: netDebtScore_def split: option.splits)

lemma interestCoverageScore_range:
  "0 \<le> interestCoverageScore nd inputs a \<and> interestCoverageScore nd inputs a \<le> 5"
  by (auto simp: interestCoverageScore_def split: option.splits)

lemma mathRound_range:
  assumes "0 \<le> x" "x \<le> 5"
  shows "0 \<le> mathRound x \<and> mathRound x \<le> 5"
proof -
  have "0 \<le> \<lfloor>x + 1 / 2\<rfloor>" using assms by simp
  moreover have "\<lfloor>x + 1 / 2\<rfloor> \<le> 5" using assms by (simp add: floor_le_iff)
  ultimately show ?thesis by (simp add: mathRound_def)
qed

lemma scoreGrossMarginStability_range:
  assumes "0 \<le> low_history_gm_multiplier cfg" "low_history_gm_multiplier cfg \<le> 1"
  shows "0 \<le> fst (scoreGrossMarginStability gm cfg) \<and> fst (scoreGrossMarginStability gm cfg) \<le> 5"
proof -
  have a: "0 \<le> mathRound (5 * low_history_gm_multiplier cfg) \<and> mathRound (5 * low_history_gm_multiplier cfg) \<le> 5"
    using assms by (intro mathRound_range) simp_all
  have b: "mathRound 0 = 0" by (simp add: mathRound_def)
  show ?thesis using a b by (auto simp: scoreGrossMarginStability_def Let_def)
qed

lemma shareholderYieldScore_range:
  "0 \<le> fst (shareholderYieldScore nd inputs a) \<and> fst (shareholderYieldScore nd inputs a) \<le> 5"
  by (auto simp: shareholderYieldScore_def Let_def)

lemma sbcToFcfScore_range:
  "0 \<le> fst (sbcToFcfScore nd inputs a) \<and> fst (sbcToFcfScore nd inputs a) \<le> 5"
  by (auto simp: sbcToFcfScore_def Let_def)

lemma brs_total_sum:
  "total (brsScores s) = valuation_sanity (brsScores s) + cash_truth_quality (brsScores s)
     + capital_efficiency (brsScores s) + balance_sheet_risk (brsScores s)
     + durability_alignment (brsScores s)"
  by (simp add: brsScores_def Let_def)

lemma incrementalRoicScore_range:
  "0 \<le> fst (incrementalRoicScore nd inputs) \<and> fst (incrementalRoicScore nd inputs) \<le> 10"
  unfolding incrementalRoicScore_def Let_def by (rule scoreIncrementalRoic_range)

lemma grossMarginScore_range:
  assumes "0 \<le> low_history_gm_multiplier (brsConfig inputs)"
          "low_history_gm_multiplier (brsConfig inputs) \<le> 1"
  shows "0 \<le> fst (grossMarginScore nd inputs) \<and> fst (grossMarginScore nd inputs) \<le> 5"
  unfolding grossMarginScore_def by (rule scoreGrossMarginStability_range[OF assms])

lemma brs_total_range:
  assumes "0 \<le> low_history_gm_multiplier (brsConfig inputs)"
          "low_history_gm_multiplier (brsConfig inputs) \<le> 1"
  shows "0 \<le> total (brsScores (brsSubscores nd inputs a))
         \<and> total (brsScores (brsSubscores nd inputs a)) \<le> 100"
  using evScore_range[of nd inputs a] scoreFcfYield_range[of "fcfYield nd inputs a"]
    scoreCashConversion_range[of "cashConversion nd inputs a"]
    scoreFcfConversion_range[of "fcfConversion nd inputs a"]
    roicVsWaccScore_range[of nd inputs a]
    incrementalRoicScore_range[of nd inputs]
    netDebtScore_range[of nd inputs a] interestCoverageScore_range[of nd inputs a]
    grossMarginScore_range[OF assms, of nd]
    shareholderYieldScore_range[of nd inputs a] sbcToFcfScore_range[of nd inputs a]
  by (simp add: brsScores_def brsSubscores_def Let_def)

lemma asof_fourQuarters:
  "resolveAsofDate calendar fourQuarters [] [] = Inr (Some 1703980800000, [''asof_misalignment''])"
  by (simp add: resolveAsofDate_def newSet_def latestReportDate_def sorted_fourQuarters orElse_def)
     (simp add: fourQuarters_def quarter_def parseReportDate_def calendar_def)

lemma gm_fourQuarters: "buildGmSeries calendar fourQuarters = [2 / 5, 2 / 5, 2 / 5, 2 / 5]"
  by (simp add: buildGmSeries_def sorted_fourQuarters List.map_filter_def)
     (simp add: fourQuarters_def quarter_def truthy_def)

lemma stable_fourQuarters:
  "scoreGrossMarginStability [2 / 5, 2 / 5, 2 / 5, 2 / 5] cfg
     = (mathRound (5 * low_history_gm_multiplier cfg), [''low_gross_margin_history''])"
  if "0 \<le> gm_stdev_threshold cfg"
  using that
  by (simp add: scoreGrossMarginStability_def sliceFrom_def slope_def stdev_def Let_def)

lemma lastNRows_fourQuarters:
  "lastNRows calendar fourQuarters 1703980800000 4 = fourQuarters"
  by (simp add: lastNRows_def sorted_fourQuarters sliceFrom_def Let_def)
     (simp add: fourQuarters_def quarter_def parseReportDate_def calendar_def)

lemma sumTtm_fourQuarters_none:
  "\<forall>r\<in>set fourQuarters. g r = JUndefined \<Longrightarrow> sumTtm calendar fourQuarters 1703980800000 g = None"
  by (simp add: sumTtm_def lastNRows_fourQuarters Let_def)
     (simp add: fourQuarters_def sum_values_def)

lemma sumTtm_empty: "sumTtm nd [] t g = None"
  by (simp add: sumTtm_def lastNRows_def sortByReportPeriod_def arraySort_def sliceFrom_def)



lemma ttmAsOf_empty: "ttmAsOf nd [] a g = None"
  by (cases a) (simp_all add: ttmAsOf_def sumTtm_empty)

lemma ttmAsOf_fourQuarters_none:
  "\<forall>r\<in>set fourQuarters. g r = JUndefined \<Longrightarrow>
   ttmAsOf calendar fourQuarters (Some 1703980800000) g = None"
  by (simp add: ttmAsOf_def sumTtm_fourQuarters_none)

lemma fourQuarters_fields:
  "\<forall>r\<in>set fourQuarters. field (ebit r) = JUndefined"
  "\<forall>r\<in>set fourQuarters. field (interest_expense r) = JUndefined"
  "\<forall>r\<in>set fourQuarters. fieldOrNull (ebit r) = JNull"
  by (simp_all add: fourQuarters_def quarter_def field_def fieldOrNull_def)

lemma rollingTtmSeries_short: "length rows < 4 \<Longrightarrow> rollingTtmSeries nd rows g = []"
  by (simp add: rollingTtmSeries_points)

lemma rollingTtmSeries_fourQuarters_null:
  "rollingTtmSeries calendar fourQuarters (\<lambda>r. fieldOrNull (ebit r)) = []"
  by (simp add: rollingTtmSeries_points sorted_fourQuarters)
     (simp add: fourQuarters_def quarter_def fieldOrNull_def)

lemma buildEbitdaSeries_fourQuarters: "buildEbitdaSeries calendar fourQuarters [] = []"
  by (simp add: buildEbitdaSeries_def rollingTtmSeries_fourQuarters_null List.map_filter_def)

lemma nearestByDate_empty: "nearestByDate nd [] t m = None"
  by (simp add: nearestByDate_def sortByReportPeriod_def arraySort_def)

text \<open>Inputs whose only statements are the four quarters of the examples.\<close>

lemma income_only:
  assumes "BrsInputs.income_statements i = fourQuarters" "balance_sheets i = []"
    "BrsInputs.cash_flow_statements i = []"
  shows "ebitTtm calendar i (Some 1703980800000) = None"
    "interestExpenseTtm calendar i (Some 1703980800000) = None"
    "dAndATtm calendar i a = None" "ocfTtm calendar i a = None" "fcfTtm calendar i a = None"
    "dividendsTtm calendar i a = None" "buybacksTtm calendar i a = None"
    "sbcTtm calendar i a = None"
    "netDebt calendar i a = None"
  using assms
  by (simp_all add: ebitTtm_def interestExpenseTtm_def dAndATtm_def ocfTtm_def fcfTtm_def
      dividendsTtm_def buybacksTtm_def sbcTtm_def ttmAsOf_empty ttmAsOf_fourQuarters_none
      fourQuarters_fields netDebt_def balanceAsOf_def nearestByDate_empty split: option.splits)

lemma income_only_derived:
  assumes "BrsInputs.income_statements i = fourQuarters" "balance_sheets i = []"
    "BrsInputs.cash_flow_statements i = []"
  shows "ebitdaTtm calendar i (Some 1703980800000) = None"
    "cashConversion calendar i (Some 1703980800000) = None"
    "fcfConversion calendar i (Some 1703980800000) = None"
    "netDebtToEbitda calendar i (Some 1703980800000) = None"
    "shareholderYieldScore calendar i (Some 1703980800000) = (0, [''missing_shareholder_yield''])"
    "sbcToFcfScore calendar i (Some 1703980800000) = (0, [''missing_sbc_or_fcf''])"
    "netDebtScore calendar i (Some 1703980800000) = 0"
  by (simp_all add: ebitdaTtm_def cashConversion_def fcfConversion_def netDebtToEbitda_def
      shareholderYieldScore_def sbcToFcfScore_def netDebtScore_def income_only[OF assms] truthy_def)

lemma incrementalRoic_income_only:
  assumes "BrsInputs.income_statements i = fourQuarters" "BrsInputs.cash_flow_statements i = []"
    "length (BrsInputs.metrics_history i) < 4"
  shows "incrementalRoicScore calendar i = (0, [''missing_incremental_roic''])"
  using assms
  by (simp add: incrementalRoicScore_def roicSeries_def rollingTtmSeries_short
      buildEbitdaSeries_fourQuarters scoreIncrementalRoic_def Let_def)


lemma overscaled_statements:
  "BrsInputs.income_statements overscaledInputs = fourQuarters"
  "balance_sheets overscaledInputs = []"
  "BrsInputs.cash_flow_statements overscaledInputs = []"
  "BrsInputs.metrics_history overscaledInputs = []"
  "universe_metrics overscaledInputs = []"
  "company_facts overscaledInputs = []"
  "BrsInputs.ticker overscaledInputs = ''ACME''"
  by (simp_all add: overscaledInputs_def)

lemma overscaled_config:
  "brsConfig overscaledInputs = DEFAULT_BRS_CONFIG\<lparr>low_history_gm_multiplier := 30\<rparr>"
  by (simp add: brsConfig_def overscaledInputs_def mergeBrsConfig_def overscaledConfig_def
      orDefault_def DEFAULT_BRS_CONFIG_def)

lemma overscaled_metrics:
  "metricsAsOf calendar overscaledInputs a = None"
  "marketCap calendar overscaledInputs a = None"
  "roic calendar overscaledInputs a = None"
  "evToEbitda calendar overscaledInputs a = None"
  "fcfYield calendar overscaledInputs a = None"
  "interestCoverage calendar overscaledInputs (Some 1703980800000) = None"
  by (simp_all add: metricsAsOf_def marketCap_def roic_def evToEbitda_def fcfYield_def
      interestCoverage_def overscaled_statements nearestByDate_empty orElse_def truthy_def
      income_only[OF overscaled_statements(1-3)] split: option.splits)

lemma overscaled_peers:
  "peerInfo overscaledInputs = ([], Median)"
  by (simp add: peerInfo_def overscaled_statements resolvePeerSet_def resolveCompanyFacts_def
      truthyStr_def overscaled_config DEFAULT_BRS_CONFIG_def Let_def)

lemma median_empty: "median [] = None"
  by (simp add: median_def)

lemma overscaled_evScore:
  "evScore calendar overscaledInputs a = (0, [''peer_set_too_small'', ''missing_peer_ev_to_ebitda''])"
  by (simp add: evScore_def overscaled_peers overscaled_metrics scoreEvToEbitdaMedian_def Let_def)

lemma overscaled_wacc:
  "waccProxy calendar overscaledInputs = (None, [''missing_wacc_proxy''])"
  by (simp add: waccProxy_def overscaled_peers overscaled_statements medianRoicFromPeers_def
      List.map_filter_def median_empty Let_def)

lemma overscaled_gm:
  "grossMarginScore calendar overscaledInputs = (150, [''low_gross_margin_history''])"
  by (simp add: grossMarginScore_def overscaled_statements gm_fourQuarters stable_fourQuarters
      overscaled_config DEFAULT_BRS_CONFIG_def mathRound_def)

lemma overscaled_subscores:
  "brsSubscores calendar overscaledInputs (Some 1703980800000) =
     \<lparr>ev_to_ebitda = 0, fcf_yield = 0, cash_conversion = 0, fcf_conversion = 0,
      roic_vs_wacc = 0, incremental_roic = 0, net_debt_to_ebitda = 0,
      BrsSubscores.interest_coverage = 0, gross_margin_stability = 150, shareholder_yield = 0,
      sbc_to_fcf = 0\<rparr>"
  by (simp add: brsSubscores_def overscaled_evScore overscaled_metrics overscaled_wacc
      overscaled_gm income_only_derived[OF overscaled_statements(1-3)]
      incrementalRoic_income_only overscaled_statements
      scoreFcfYield_def scoreCashConversion_def scoreFcfConversion_def roicVsWaccScore_def
      interestCoverageScore_def)

lemma overscaled_warnings:
  "brsWarnings calendar overscaledInputs (Some 1703980800000) =
     [''missing_market_cap'', ''missing_fcf_yield'', ''missing_cash_conversion'',
      ''missing_fcf_conversion'', ''missing_roic'', ''peer_set_too_small'',
      ''missing_peer_ev_to_ebitda'', ''missing_wacc_proxy'', ''missing_incremental_roic'',
      ''missing_net_debt'', ''missing_interest_coverage'', ''low_gross_margin_history'',
      ''missing_shareholder_yield'', ''missing_sbc_or_fcf'']"
  by (simp add: brsWarnings_def warnIf_def overscaled_evScore overscaled_metrics overscaled_wacc
      overscaled_gm income_only_derived[OF overscaled_statements(1-3)]
      incrementalRoic_income_only overscaled_statements)

lemma computeBrs_overscaled:
  "computeBrs calendar overscaledInputs =
     Inr \<lparr>BrsResult.ticker = ''ACME'', BrsResult.asof_date = Some 1703980800000,
          scores = \<lparr>valuation_sanity = 0, cash_truth_quality = 0, capital_efficiency = 0,
                    balance_sheet_risk = 0, durability_alignment = 150, total = 150\<rparr>,
          BrsResult.subscores =
            \<lparr>ev_to_ebitda = 0, fcf_yield = 0, cash_conversion = 0, fcf_conversion = 0,
             roic_vs_wacc = 0, incremental_roic = 0, net_debt_to_ebitda = 0,
             BrsSubscores.interest_coverage = 0, gross_margin_stability = 150,
             shareholder_yield = 0, sbc_to_fcf = 0\<rparr>,
          BrsResult.warnings =
            [''asof_misalignment'', ''missing_market_cap'', ''missing_fcf_yield'',
             ''missing_cash_conversion'', ''missing_fcf_conversion'', ''missing_roic'',
             ''peer_set_too_small'', ''missing_peer_ev_to_ebitda'', ''missing_wacc_proxy'',
             ''missing_incremental_roic'', ''missing_net_debt'', ''missing_interest_coverage'',
             ''low_gross_margin_history'', ''missing_shareholder_yield'',
             ''missing_sbc_or_fcf'']\<rparr>"
  by (simp add: computeBrs_def overscaled_statements asof_fourQuarters overscaled_subscores
      overscaled_warnings brsScores_def Let_def)

lemma computeBrs_undated: "computeBrs calendar undatedInputs = Inl TypeError"
  by (simp add: computeBrs_def undatedInputs_def resolveAsofDate_def newSet_def
      parsedCandidates_def List.map_filter_def parseReportDate_def calendar_def arraySort_def)


lemma zeroCash_statements:
  "BrsInputs.income_statements zeroCashInputs =
     [ebitQuarter ''2023-03-31'', ebitQuarter ''2023-06-30'', ebitQuarter ''2023-09-30'',
      ebitQuarter ''2023-12-31'']"
  "balance_sheets zeroCashInputs = []"
  "BrsInputs.cash_flow_statements zeroCashInputs =
     [cashQuarter ''2023-03-31'' 5 2, cashQuarter ''2023-06-30'' (- 5) (- 2),
      cashQuarter ''2023-09-30'' 3 1, cashQuarter ''2023-12-31'' (- 3) (- 1)]"
  by (simp_all add: zeroCashInputs_def)

lemma zeroCash_sorted:
  "sortByReportPeriod calendar (BrsInputs.income_statements zeroCashInputs)
     = BrsInputs.income_statements zeroCashInputs"
  "sortByReportPeriod calendar (BrsInputs.cash_flow_statements zeroCashInputs)
     = BrsInputs.cash_flow_statements zeroCashInputs"
  by (simp_all add: zeroCash_statements sort_eval ebitQuarter_def cashQuarter_def)

lemma zeroCash_asof:
  "resolveAsofDate calendar (BrsInputs.income_statements zeroCashInputs)
     (balance_sheets zeroCashInputs) (BrsInputs.cash_flow_statements zeroCashInputs)
   = Inr (Some 1703980800000, [''asof_misalignment''])"
  by (simp add: resolveAsofDate_def zeroCash_statements(2) newSet_def latestReportDate_def
      zeroCash_sorted orElse_def Let_def)
     (simp add: zeroCash_statements ebitQuarter_def parseReportDate_def calendar_def)

lemma zeroCash_lastRows:
  "lastNRows calendar (BrsInputs.income_statements zeroCashInputs) 1703980800000 4
     = BrsInputs.income_statements zeroCashInputs"
  "lastNRows calendar (BrsInputs.cash_flow_statements zeroCashInputs) 1703980800000 4
     = BrsInputs.cash_flow_statements zeroCashInputs"
  by (simp_all add: lastNRows_def zeroCash_sorted Let_def)
     (simp_all add: zeroCash_statements sliceFrom_def ebitQuarter_def cashQuarter_def
        parseReportDate_def calendar_def)

lemma zeroCash_ttm0:
  "ocfTtm calendar zeroCashInputs (Some 1703980800000) = Some 0"
  "fcfTtm calendar zeroCashInputs (Some 1703980800000) = Some 0"
  "ebitTtm calendar zeroCashInputs (Some 1703980800000) = Some 40"
  "dAndATtm calendar zeroCashInputs (Some 1703980800000) = Some 4"
  by (simp_all add: ocfTtm_def fcfTtm_def ebitTtm_def dAndATtm_def ttmAsOf_def
        sumTtm_def zeroCash_lastRows Let_def)
     (simp_all add: zeroCash_statements sum_values_def field_def ebitQuarter_def cashQuarter_def)

lemma zeroCash_ttm:
  "ocfTtm calendar zeroCashInputs (Some 1703980800000) = Some 0"
  "fcfTtm calendar zeroCashInputs (Some 1703980800000) = Some 0"
  "ebitdaTtm calendar zeroCashInputs (Some 1703980800000) = Some 44"
  by (simp_all add: zeroCash_ttm0 ebitdaTtm_def)

text \<open>
  Claim C10. \<open>computeBrs\<close> treats a trailing-twelve-month aggregate that is exactly zero
  as missing. When the TTM operating cash flow or the TTM EBITDA is 0 (all four quarters
  present), the cash-conversion ratio is \<open>null\<close>, the \<open>cash_conversion\<close> sub-score is 0
  and the warning \<open>missing_cash_conversion\<close> is appended, exactly as when the aggregate
  is absent; likewise for \<open>fcf_conversion\<close> with a zero TTM free cash flow. With two
  non-zero aggregates the ratio is their quotient.
\<close>

theorem zero_ttm_is_missing:
  "(computeBrs nd inputs = Inr r
      \<and> (ocfTtm nd inputs (BrsResult.asof_date r) = Some 0
         \<or> ebitdaTtm nd inputs (BrsResult.asof_date r) = Some 0
         \<or> ocfTtm nd inputs (BrsResult.asof_date r) = None
         \<or> ebitdaTtm nd inputs (BrsResult.asof_date r) = None)
    \<longrightarrow> cashConversion nd inputs (BrsResult.asof_date r) = None
        \<and> cash_conversion (BrsResult.subscores r) = 0
        \<and> ''missing_cash_conversion'' \<in> set (BrsResult.warnings r))
   \<and> (computeBrs nd inputs = Inr r
      \<and> (fcfTtm nd inputs (BrsResult.asof_date r) = Some 0
         \<or> ebitdaTtm nd inputs (BrsResult.asof_date r) = Some 0
         \<or> fcfTtm nd inputs (BrsResult.asof_date r) = None
         \<or> ebitdaTtm nd inputs (BrsResult.asof_date r) = None)
    \<longrightarrow> fcfConversion nd inputs (BrsResult.asof_date r) = None
        \<and> fcf_conversion (BrsResult.subscores r) = 0
        \<and> ''missing_fcf_conversion'' \<in> set (BrsResult.warnings r))
   \<and> (ocfTtm nd inputs a = Some x \<and> ebitdaTtm nd inputs a = Some y \<and> x \<noteq> 0 \<and> y \<noteq> 0
    \<longrightarrow> cashConversion nd inputs a = Some (x / y))"
proof (intro conjI impI)
  assume h: "computeBrs nd inputs = Inr r
      \<and> (ocfTtm nd inputs (BrsResult.asof_date r) = Some 0
         \<or> ebitdaTtm nd inputs (BrsResult.asof_date r) = Some 0
         \<or> ocfTtm nd inputs (BrsResult.asof_date r) = None
         \<or> ebitdaTtm nd inputs (BrsResult.asof_date r) = None)"
  then obtain w0 where
    r: "BrsResult.subscores r = brsSubscores nd inputs (BrsResult.asof_date r)"
       "BrsResult.warnings r = w0 @ brsWarnings nd inputs (BrsResult.asof_date r)"
    using computeBrs_Inr[of nd inputs r] by auto
  have c: "cashConversion nd inputs (BrsResult.asof_date r) = None"
    using h by (auto simp: cashConversion_def truthy_def)
  show "cashConversion nd inputs (BrsResult.asof_date r) = None" by (rule c)
  show "cash_conversion (BrsResult.subscores r) = 0"
    by (simp add: r brsSubscores_def c scoreCashConversion_def)
  show "''missing_cash_conversion'' \<in> set (BrsResult.warnings r)"
    by (simp add: r brsWarnings_def c warnIf_def)
next
  assume h: "computeBrs nd inputs = Inr r
      \<and> (fcfTtm nd inputs (BrsResult.asof_date r) = Some 0
         \<or> ebitdaTtm nd inputs (BrsResult.asof_date r) = Some 0
         \<or> fcfTtm nd inputs (BrsResult.asof_date r) = None
         \<or> ebitdaTtm nd inputs (BrsResult.asof_date r) = None)"
  then obtain w0 where
    r: "BrsResult.subscores r = brsSubscores nd inputs (BrsResult.asof_date r)"
       "BrsResult.warnings r = w0 @ brsWarnings nd inputs (BrsResult.asof_date r)"
    using computeBrs_Inr[of nd inputs r] by auto
  have c: "fcfConversion nd inputs (BrsResult.asof_date r) = None"
    using h by (auto simp: fcfConversion_def truthy_def)
  show "fcfConversion nd inputs (BrsResult.asof_date r) = None" by (rule c)
  show "fcf_conversion (BrsResult.subscores r) = 0"
    by (simp add: r brsSubscores_def c scoreFcfConversion_def)
  show "''missing_fcf_conversion'' \<in> set (BrsResult.warnings r)"
    by (simp add: r brsWarnings_def c warnIf_def)
next
  assume "ocfTtm nd inputs a = Some x \<and> ebitdaTtm nd inputs a = Some y \<and> x \<noteq> 0 \<and> y \<noteq> 0"
  then show "cashConversion nd inputs a = Some (x / y)"
    by (simp add: cashConversion_def truthy_def)
qed

lemma computeBrs_zeroCash:
  "computeBrs calendar zeroCashInputs =
     Inr \<lparr>BrsResult.ticker = ''ACME'', BrsResult.asof_date = Some 1703980800000,
          scores = brsScores (brsSubscores calendar zeroCashInputs (Some 1703980800000)),
          BrsResult.subscores = brsSubscores calendar zeroCashInputs (Some 1703980800000),
          BrsResult.warnings =
            ''asof_misalignment'' # brsWarnings calendar zeroCashInputs (Some 1703980800000)\<rparr>"
  by (simp add: computeBrs_def zeroCash_asof) (simp add: zeroCashInputs_def)

theorem zero_ttm_is_missing_witness:
  "ocfTtm calendar zeroCashInputs (Some 1703980800000) = Some 0
   \<and> fcfTtm calendar zeroCashInputs (Some 1703980800000) = Some 0
   \<and> ebitdaTtm calendar zeroCashInputs (Some 1703980800000) = Some 44
   \<and> map_sum (\<lambda>e. e)
        (\<lambda>r. (cash_conversion (BrsResult.subscores r), fcf_conversion (BrsResult.subscores r),
              ''missing_cash_conversion'' \<in> set (BrsResult.warnings r),
              ''missing_fcf_conversion'' \<in> set (BrsResult.warnings r)))
        (computeBrs calendar zeroCashInputs)
       = Inr (0, 0, True, True)"
proof -
  let ?R = "\<lparr>BrsResult.ticker = ''ACME'', BrsResult.asof_date = Some 1703980800000,
          scores = brsScores (brsSubscores calendar zeroCashInputs (Some 1703980800000)),
          BrsResult.subscores = brsSubscores calendar zeroCashInputs (Some 1703980800000),
          BrsResult.warnings =
            ''asof_misalignment'' # brsWarnings calendar zeroCashInputs (Some 1703980800000)\<rparr>"
  show ?thesis
    using zero_ttm_is_missing[of calendar zeroCashInputs ?R "Some 1703980800000" 1 1]
    by (simp add: computeBrs_zeroCash zeroCash_ttm)
qed


lemma resolvePeerSet_narrowest:
  "resolvePeerSet tk facts universe minPeers = narrowestPeerSet tk facts universe minPeers"
  by (auto simp: resolvePeerSet_def narrowestPeerSet_def sameIndustry_def sameSector_def
      truthyStr_def Let_def split: option.splits)

lemma evScore_median:
  assumes "snd (peerInfo inputs) = Median"
  shows "evScore nd inputs a =
     (case (evToEbitda nd inputs a, median (peerValues inputs)) of
        (Some v, Some m) \<Rightarrow>
          if m = 0 then (0, [''peer_set_too_small'', ''missing_peer_ev_to_ebitda''])
          else (medianRatioBand (median_bands (brsConfig inputs)) (v / m), [''peer_set_too_small''])
      | _ \<Rightarrow> (0, [''peer_set_too_small'', ''missing_peer_ev_to_ebitda'']))"
  using assms
  by (auto simp: evScore_def scoreEvToEbitdaMedian_def medianRatioBand_def Let_def
      split: option.splits)

lemma evScore_percentile:
  assumes "snd (peerInfo inputs) \<noteq> Median"
  shows "evScore nd inputs a = scoreEvToEbitdaPercentile (evPercentile nd inputs a)"
  using assms by (simp add: evScore_def)

lemma not_too_small_parts:
  "''peer_set_too_small'' \<notin> set (snd (scoreEvToEbitdaPercentile p))"
  "''peer_set_too_small'' \<notin> set (snd (medianRoicFromPeers nd peers))"
  "''peer_set_too_small'' \<notin> set (snd (scoreIncrementalRoic nd rs es))"
  "''peer_set_too_small'' \<notin> set (snd (scoreGrossMarginStability gm cfg))"
  "''peer_set_too_small'' \<notin> set (snd (shareholderYieldScore nd inputs a))"
  "''peer_set_too_small'' \<notin> set (snd (sbcToFcfScore nd inputs a))"
proof -
  show "''peer_set_too_small'' \<notin> set (snd (scoreEvToEbitdaPercentile p))"
    by (cases p) (simp_all add: scoreEvToEbitdaPercentile_def)
  show "''peer_set_too_small'' \<notin> set (snd (medianRoicFromPeers nd peers))"
    by (simp add: medianRoicFromPeers_def Let_def)
  show "''peer_set_too_small'' \<notin> set (snd (scoreIncrementalRoic nd rs es))"
    by (simp add: scoreIncrementalRoic_def Let_def split: option.splits)
  show "''peer_set_too_small'' \<notin> set (snd (scoreGrossMarginStability gm cfg))"
    by (simp add: scoreGrossMarginStability_def Let_def)
  show "''peer_set_too_small'' \<notin> set (snd (shareholderYieldScore nd inputs a))"
    by (simp add: shareholderYieldScore_def Let_def)
  show "''peer_set_too_small'' \<notin> set (snd (sbcToFcfScore nd inputs a))"
    by (simp add: sbcToFcfScore_def Let_def)
qed

lemma not_too_small:
  assumes "snd (peerInfo inputs) \<noteq> Median"
  shows "''peer_set_too_small'' \<notin> set (brsWarnings nd inputs a)"
  using assms
  by (simp add: brsWarnings_def warnIf_def evScore_percentile not_too_small_parts waccProxy_def
      incrementalRoicScore_def grossMarginScore_def Let_def)

lemma resolveAsofDate_warnings:
  "resolveAsofDate nd income balance cash = Inr (a, w0) \<Longrightarrow> set w0 \<subseteq> {''asof_misalignment''}"
  by (auto simp: resolveAsofDate_def Let_def split: if_splits)


lemma smallPeer_statements:
  "BrsInputs.income_statements smallPeerInputs = fourQuarters"
  "balance_sheets smallPeerInputs = []"
  "BrsInputs.cash_flow_statements smallPeerInputs = []"
  "universe_metrics smallPeerInputs = smallUniverse"
  "company_facts smallPeerInputs = acmeFacts"
  "BrsInputs.ticker smallPeerInputs = ''acme''"
  "brsConfig smallPeerInputs = DEFAULT_BRS_CONFIG"
  "length (BrsInputs.metrics_history smallPeerInputs) = 1"
  by (simp_all add: smallPeerInputs_def brsConfig_def mergeBrsConfig_def)

lemma upper_acme: "toUpperCase ''acme'' = ''ACME''" "toUpperCase ''ACME'' = ''ACME''"
  by code_simp+

lemma smallPeer_company:
  "resolveCompanyFacts ''acme'' acmeFacts =
     Some \<lparr>CompanyFacts.ticker = ''ACME'', sector = Some ''Technology'',
           industry = Some ''Software''\<rparr>"
  by (simp add: resolveCompanyFacts_def acmeFacts_def upper_acme)

lemma smallPeer_peers:
  "peerInfo smallPeerInputs =
     ([peer ''AAA'' ''Technology'' ''Software'' 10, peer ''BBB'' ''Technology'' ''Hardware'' 12],
      Median)"
  by (simp add: peerInfo_def smallPeer_statements resolvePeerSet_def smallPeer_company
      truthyStr_def DEFAULT_BRS_CONFIG_def Let_def)
     (simp add: smallUniverse_def peer_def)

lemma smallPeer_values: "peerValues smallPeerInputs = [10, 12]"
  by (simp add: peerValues_def smallPeer_peers List.map_filter_def peer_def)

lemma median_10_12: "median [10, 12] = Some 11"
  by (simp add: median_def arraySort_def Let_def)

lemma smallPeer_metricsAsOf:
  "metricsAsOf calendar smallPeerInputs (Some 1703980800000) =
     Some \<lparr>report_period = ''2023-12-31'', enterprise_value_to_ebitda_ratio = Some 11,
          free_cash_flow_yield = None, return_on_invested_capital = None,
          MetricsPoint.interest_coverage = None, gross_margin = None, market_cap = None,
          enterprise_value = None\<rparr>"
  by (simp add: metricsAsOf_def nearestByDate_def smallPeerInputs_def sort_eval nearestStep_def
      Let_def)

lemma smallPeer_metrics:
  "marketCap calendar smallPeerInputs (Some 1703980800000) = None"
  "roic calendar smallPeerInputs (Some 1703980800000) = None"
  "evToEbitda calendar smallPeerInputs (Some 1703980800000) = Some 11"
  "fcfYield calendar smallPeerInputs (Some 1703980800000) = None"
  "interestCoverage calendar smallPeerInputs (Some 1703980800000) = None"
  by (simp_all add: marketCap_def roic_def evToEbitda_def fcfYield_def interestCoverage_def
      smallPeer_metricsAsOf orElse_def truthy_def income_only[OF smallPeer_statements(1-3)])

lemma smallPeer_evScore:
  "evScore calendar smallPeerInputs (Some 1703980800000) = (10, [''peer_set_too_small''])"
  by (simp add: evScore_median smallPeer_peers smallPeer_metrics smallPeer_values median_10_12
      smallPeer_statements medianRatioBand_def DEFAULT_BRS_CONFIG_def)

lemma smallPeer_wacc:
  "waccProxy calendar smallPeerInputs = (None, [''missing_wacc_proxy''])"
  by (simp add: waccProxy_def smallPeer_peers smallPeer_statements medianRoicFromPeers_def
      List.map_filter_def median_empty Let_def smallUniverse_def peer_def)

lemma smallPeer_gm:
  "grossMarginScore calendar smallPeerInputs = (3, [''low_gross_margin_history''])"
  by (simp add: grossMarginScore_def smallPeer_statements gm_fourQuarters stable_fourQuarters
      DEFAULT_BRS_CONFIG_def mathRound_def)

lemma smallPeer_subscores:
  "brsSubscores calendar smallPeerInputs (Some 1703980800000) =
     \<lparr>ev_to_ebitda = 10, fcf_yield = 0, cash_conversion = 0, fcf_conversion = 0,
      roic_vs_wacc = 0, incremental_roic = 0, net_debt_to_ebitda = 0,
      BrsSubscores.interest_coverage = 0, gross_margin_stability = 3, shareholder_yield = 0,
      sbc_to_fcf = 0\<rparr>"
  by (simp add: brsSubscores_def smallPeer_evScore smallPeer_metrics smallPeer_wacc
      smallPeer_gm income_only_derived[OF smallPeer_statements(1-3)]
      incrementalRoic_income_only smallPeer_statements
      scoreFcfYield_def scoreCashConversion_def scoreFcfConversion_def roicVsWaccScore_def
      interestCoverageScore_def)

lemma smallPeer_warnings:
  "brsWarnings calendar smallPeerInputs (Some 1703980800000) =
     [''missing_market_cap'', ''missing_fcf_yield'', ''missing_cash_conversion'',
      ''missing_fcf_conversion'', ''missing_roic'', ''peer_set_too_small'',
      ''missing_wacc_proxy'', ''missing_incremental_roic'',
      ''missing_net_debt'', ''missing_interest_coverage'', ''low_gross_margin_history'',
      ''missing_shareholder_yield'', ''missing_sbc_or_fcf'']"
  by (simp add: brsWarnings_def warnIf_def smallPeer_evScore smallPeer_metrics smallPeer_wacc
      smallPeer_gm income_only_derived[OF smallPeer_statements(1-3)]
      incrementalRoic_income_only smallPeer_statements)

lemma computeBrs_smallPeer:
  "computeBrs calendar smallPeerInputs =
     Inr \<lparr>BrsResult.ticker = ''acme'', BrsResult.asof_date = Some 1703980800000,
          scores = \<lparr>valuation_sanity = 10, cash_truth_quality = 0, capital_efficiency = 0,
                    balance_sheet_risk = 0, durability_alignment = 3, total = 13\<rparr>,
          BrsResult.subscores =
            \<lparr>ev_to_ebitda = 10, fcf_yield = 0, cash_conversion = 0, fcf_conversion = 0,
             roic_vs_wacc = 0, incremental_roic = 0, net_debt_to_ebitda = 0,
             BrsSubscores.interest_coverage = 0, gross_margin_stability = 3,
             shareholder_yield = 0, sbc_to_fcf = 0\<rparr>,
          BrsResult.warnings =
            [''asof_misalignment'', ''missing_market_cap'', ''missing_fcf_yield'',
             ''missing_cash_conversion'', ''missing_fcf_conversion'', ''missing_roic'',
             ''peer_set_too_small'', ''missing_wacc_proxy'',
             ''missing_incremental_roic'', ''missing_net_debt'', ''missing_interest_coverage'',
             ''low_gross_margin_history'', ''missing_shareholder_yield'',
             ''missing_sbc_or_fcf'']\<rparr>"
  by (simp add: computeBrs_def smallPeer_statements asof_fourQuarters smallPeer_subscores
      smallPeer_warnings brsScores_def Let_def)


text \<open>
  Claim C5. \<open>resolvePeerSet\<close> selects the narrowest peer set whose population reaches
  \<open>min_peers\<close> (default 15), industry before sector before the whole universe, and
  otherwise returns the level \<open>median\<close> with the sector peers if there are any and the
  universe if not. On the level \<open>median\<close>, \<open>computeBrs\<close> appends the warning
  \<open>peer_set_too_small\<close> and scores EV/EBITDA by the band of its ratio to the peer
  median (default bands: at most 0.7 gives 15, at most 1.0 gives 10, at most 1.3 gives 5,
  else 0; 0 with a warning when the ratio cannot be formed); on every other level it
  scores the peer percentile rank and does not append that warning.
\<close>

theorem peer_resolution_and_median_banding:
  "resolvePeerSet tk facts universe minPeers = narrowestPeerSet tk facts universe minPeers
   \<and> peerInfo inputs
       = resolvePeerSet (BrsInputs.ticker inputs) (company_facts inputs) (universe_metrics inputs)
           (min_peers (brsConfig inputs))
   \<and> min_peers DEFAULT_BRS_CONFIG = 15
   \<and> median_bands DEFAULT_BRS_CONFIG = \<lparr>cheap = 0.7, mid = 1.0, rich = 1.3\<rparr>
   \<and> (computeBrs nd inputs = Inr r \<and> snd (peerInfo inputs) = Median \<longrightarrow>
        ''peer_set_too_small'' \<in> set (BrsResult.warnings r)
        \<and> (evToEbitda nd inputs (BrsResult.asof_date r) = Some v
             \<and> median (peerValues inputs) = Some m \<and> m \<noteq> 0
           \<longrightarrow> ev_to_ebitda (BrsResult.subscores r)
                = medianRatioBand (median_bands (brsConfig inputs)) (v / m))
        \<and> (evToEbitda nd inputs (BrsResult.asof_date r) = None
             \<or> median (peerValues inputs) = None \<or> median (peerValues inputs) = Some 0
           \<longrightarrow> ev_to_ebitda (BrsResult.subscores r) = 0
               \<and> ''missing_peer_ev_to_ebitda'' \<in> set (BrsResult.warnings r)))
   \<and> (computeBrs nd inputs = Inr r \<and> snd (peerInfo inputs) \<noteq> Median \<longrightarrow>
        ''peer_set_too_small'' \<notin> set (BrsResult.warnings r)
        \<and> ev_to_ebitda (BrsResult.subscores r)
            = fst (scoreEvToEbitdaPercentile
                     (evPercentile nd inputs (BrsResult.asof_date r))))"
proof (intro conjI impI)
  show "resolvePeerSet tk facts universe minPeers = narrowestPeerSet tk facts universe minPeers"
    by (rule resolvePeerSet_narrowest)
  show "peerInfo inputs
       = resolvePeerSet (BrsInputs.ticker inputs) (company_facts inputs) (universe_metrics inputs)
           (min_peers (brsConfig inputs))"
    by (simp add: peerInfo_def)
  show "min_peers DEFAULT_BRS_CONFIG = 15" by (simp add: DEFAULT_BRS_CONFIG_def)
  show "median_bands DEFAULT_BRS_CONFIG = \<lparr>cheap = 0.7, mid = 1.0, rich = 1.3\<rparr>"
    by (simp add: DEFAULT_BRS_CONFIG_def)
next
  assume h: "computeBrs nd inputs = Inr r \<and> snd (peerInfo inputs) = Median"
  then obtain w0 where
    r: "BrsResult.subscores r = brsSubscores nd inputs (BrsResult.asof_date r)"
       "BrsResult.warnings r = w0 @ brsWarnings nd inputs (BrsResult.asof_date r)"
    using computeBrs_Inr[of nd inputs r] by auto
  note e = evScore_median[of inputs nd "BrsResult.asof_date r"]
  show "''peer_set_too_small'' \<in> set (BrsResult.warnings r)"
    using h by (simp add: r brsWarnings_def evScore_def Let_def)
  show "ev_to_ebitda (BrsResult.subscores r)
          = medianRatioBand (median_bands (brsConfig inputs)) (v / m)"
    if "evToEbitda nd inputs (BrsResult.asof_date r) = Some v
        \<and> median (peerValues inputs) = Some m \<and> m \<noteq> 0"
    using h that by (simp add: r brsSubscores_def e)
  show "ev_to_ebitda (BrsResult.subscores r) = 0"
    if "evToEbitda nd inputs (BrsResult.asof_date r) = None
        \<or> median (peerValues inputs) = None \<or> median (peerValues inputs) = Some 0"
    using h that by (auto simp: r brsSubscores_def e split: option.splits)
  show "''missing_peer_ev_to_ebitda'' \<in> set (BrsResult.warnings r)"
    if "evToEbitda nd inputs (BrsResult.asof_date r) = None
        \<or> median (peerValues inputs) = None \<or> median (peerValues inputs) = Some 0"
    using h that by (auto simp: r brsWarnings_def e split: option.splits)
next
  assume h: "computeBrs nd inputs = Inr r \<and> snd (peerInfo inputs) \<noteq> Median"
  then obtain a w0 where
    a: "resolveAsofDate nd (BrsInputs.income_statements inputs) (balance_sheets inputs)
          (BrsInputs.cash_flow_statements inputs) = Inr (a, w0)"
    and r: "BrsResult.subscores r = brsSubscores nd inputs (BrsResult.asof_date r)"
       "BrsResult.warnings r = w0 @ brsWarnings nd inputs (BrsResult.asof_date r)"
    using computeBrs_Inr[of nd inputs r] by auto
  have "''peer_set_too_small'' \<notin> set w0"
    using resolveAsofDate_warnings[OF a] by auto
  then show "''peer_set_too_small'' \<notin> set (BrsResult.warnings r)"
    using h by (simp add: r not_too_small)
  show "ev_to_ebitda (BrsResult.subscores r)
            = fst (scoreEvToEbitdaPercentile
                     (evPercentile nd inputs (BrsResult.asof_date r)))"
    using h by (simp add: r brsSubscores_def evScore_percentile)
qed

theorem peer_resolution_witness:
  "snd (peerInfo smallPeerInputs) = Median
   \<and> fst (peerInfo smallPeerInputs)
       = [peer ''AAA'' ''Technology'' ''Software'' 10, peer ''BBB'' ''Technology'' ''Hardware'' 12]
   \<and> evToEbitda calendar smallPeerInputs (Some 1703980800000) = Some 11
   \<and> median (peerValues smallPeerInputs) = Some 11
   \<and> map_sum (\<lambda>e. e)
        (\<lambda>r. (ev_to_ebitda (BrsResult.subscores r),
              ''peer_set_too_small'' \<in> set (BrsResult.warnings r)))
        (computeBrs calendar smallPeerInputs)
       = Inr (medianRatioBand \<lparr>cheap = 0.7, mid = 1.0, rich = 1.3\<rparr> (11 / 11), True)
   \<and> medianRatioBand \<lparr>cheap = 0.7, mid = 1.0, rich = 1.3\<rparr> (11 / 11) = 10"
proof -
  obtain R where R: "computeBrs calendar smallPeerInputs = Inr R"
    "BrsResult.asof_date R = Some 1703980800000"
    using computeBrs_smallPeer by simp
  have m: "median (peerValues smallPeerInputs) = Some 11"
    by (simp add: smallPeer_values median_10_12)
  have b: "median_bands (brsConfig smallPeerInputs) = \<lparr>cheap = 0.7, mid = 1.0, rich = 1.3\<rparr>"
    by (simp add: smallPeer_statements DEFAULT_BRS_CONFIG_def)
  have p: "snd (peerInfo smallPeerInputs) = Median" by (simp add: smallPeer_peers)
  have e: "evToEbitda calendar smallPeerInputs (BrsResult.asof_date R) = Some 11
           \<and> median (peerValues smallPeerInputs) = Some 11 \<and> (11 :: real) \<noteq> 0"
    by (simp add: R m smallPeer_metrics)
  have "''peer_set_too_small'' \<in> set (BrsResult.warnings R)
        \<and> ev_to_ebitda (BrsResult.subscores R)
            = medianRatioBand (median_bands (brsConfig smallPeerInputs)) (11 / 11)"
    using peer_resolution_and_median_banding[where nd = calendar and inputs = smallPeerInputs
        and r = R and v = 11 and m = 11 and tk = "''acme''" and facts = acmeFacts
        and universe = smallUniverse and minPeers = 15] R(1) p e
    by blast
  then show ?thesis
    by (simp add: R m b smallPeer_peers smallPeer_metrics medianRatioBand_def)
qed

section \<open>The MDS engine: coverage of the history windows\<close>

lemma median_nonempty: "xs \<noteq> [] \<Longrightarrow> median xs \<noteq> None"
  unfolding median_def Let_def
  by (cases "length (arraySort (\<lambda>a b. a - b) xs) mod 2 = 0") simp_all

lemma computeHistoryScore_available:
  "snd (computeHistoryScore nd (Some c) history w fn)
     = length (sliceFrom (toInteger (- w)) (sortByReportPeriod nd history))"
  using median_nonempty[of "map value (sliceFrom (toInteger (- w)) (sortByReportPeriod nd history))"]
  by (auto simp: computeHistoryScore_def Let_def split: option.splits)


lemma applyCoverage_nan:
  assumes "history_min cfg = JNaN \<or> history_min cfg = JUndefined"
  shows "0 < available \<Longrightarrow>
         applyCoverage ds score available cfg tag = (JNaN, [''short_history_'' @ tag])"
    and "available = 0 \<Longrightarrow>
         applyCoverage ds score available cfg tag = (JNum 0, [''missing_history_'' @ tag])"
  using assms by (auto simp: applyCoverage_def jsLe_def)

lemma applyCoverage_is_number:
  "history_min cfg = JNum h \<Longrightarrow> \<exists>x. fst (applyCoverage ds score available cfg tag) = JNum x"
  by (simp add: applyCoverage_def)




text \<open>The example with seven observations, for any configuration.\<close>

lemma shortHistory_fields:
  "income_statements (shortHistoryInputs\<lparr>config := c\<rparr>) = map ebitQuarter eightQuarters"
  "cash_flow_statements (shortHistoryInputs\<lparr>config := c\<rparr>)
     = map (\<lambda>d. cashQuarter d 5 2) eightQuarters"
  "metrics_history (shortHistoryInputs\<lparr>config := c\<rparr>) =
     map (\<lambda>d. multipleAt d 10)
          [''2023-06-30'', ''2023-09-30'', ''2023-12-31'', ''2024-03-31'', ''2024-06-30'',
           ''2024-09-30'']
        @ [multipleAt ''2024-12-31'' (15 / 2)]"
  "asof_date (shortHistoryInputs\<lparr>config := c\<rparr>) = None"
  "docs (shortHistoryInputs\<lparr>config := c\<rparr>) = None"
  "config (shortHistoryInputs\<lparr>config := c\<rparr>) = c"
  by (simp_all add: shortHistoryInputs_def)

lemma shortHistory_unconfigured: "shortHistoryInputs\<lparr>config := None\<rparr> = shortHistoryInputs"
  by (simp add: shortHistoryInputs_def)

lemma shortHistory_sorted:
  "sortByReportPeriod calendar (map ebitQuarter eightQuarters) = map ebitQuarter eightQuarters"
  "sortByReportPeriod calendar (map (\<lambda>d. cashQuarter d 5 2) eightQuarters)
     = map (\<lambda>d. cashQuarter d 5 2) eightQuarters"
  by (simp_all add: sort_eval eightQuarters_def ebitQuarter_def cashQuarter_def)

lemma shortHistory_asof:
  "asofDateMds calendar (shortHistoryInputs\<lparr>config := c\<rparr>) = Inr (Some 1735603200000, [])"
  by (simp add: asofDateMds_def shortHistory_fields truthyStr_def resolveAsofDateMds_def
        newSet_def eightQuarters_def ebitQuarter_def cashQuarter_def parsedCandidates_def
        List.map_filter_def parseReportDate_def calendar_def arraySort_def Let_def)

lemma shortHistory_ebitda:
  "ebitdaSeries calendar (shortHistoryInputs\<lparr>config := c\<rparr>) =
     map (\<lambda>d. \<lparr>report_period = d, value = 44\<rparr>)
       [''2023-12-31'', ''2024-03-31'', ''2024-06-30'', ''2024-09-30'', ''2024-12-31'']"
  by (simp add: ebitdaSeries_def buildEbitdaSeries_def shortHistory_fields
        rollingTtmSeries_points shortHistory_sorted List.map_filter_def Let_def)
     (simp add: eightQuarters_def ebitQuarter_def cashQuarter_def fieldOrNull_def upt_rec)

lemma shortHistory_growths:
  "computeYoYGrowth calendar (ebitdaSeries calendar (shortHistoryInputs\<lparr>config := c\<rparr>)) = [0]"
proof -
  have s: "sortByReportPeriod calendar (ebitdaSeries calendar (shortHistoryInputs\<lparr>config := c\<rparr>))
             = ebitdaSeries calendar (shortHistoryInputs\<lparr>config := c\<rparr>)"
    unfolding shortHistory_ebitda by (simp add: sort_eval)
  show ?thesis
    by (simp add: computeYoYGrowth_def yoyGrowths_def s Let_def)
       (simp add: shortHistory_ebitda List.map_filter_def upt_rec)
qed

lemma shortHistory_multiples:
  "evToEbitdaSeries (shortHistoryInputs\<lparr>config := c\<rparr>) =
     map (\<lambda>d. \<lparr>report_period = d, value = 10\<rparr>)
       [''2023-06-30'', ''2023-09-30'', ''2023-12-31'', ''2024-03-31'', ''2024-06-30'',
        ''2024-09-30'']
     @ [\<lparr>report_period = ''2024-12-31'', value = 15 / 2\<rparr>]"
  by (simp add: evToEbitdaSeries_def shortHistory_fields List.map_filter_def multipleAt_def)

lemma shortHistory_metricsAsOf:
  "metricsAsOfMds calendar (shortHistoryInputs\<lparr>config := c\<rparr>) (Some 1735603200000)
     = Some (multipleAt ''2024-12-31'' (15 / 2))"
proof -
  let ?ms = "map (\<lambda>d. multipleAt d 10)
          [''2023-06-30'', ''2023-09-30'', ''2023-12-31'', ''2024-03-31'', ''2024-06-30'',
           ''2024-09-30'']
        @ [multipleAt ''2024-12-31'' (15 / 2)]"
  have s: "sortByReportPeriod calendar ?ms = ?ms"
    by (simp add: sort_eval multipleAt_def)
  have n: "nearestByDate calendar ?ms 1735603200000 5 = Some (multipleAt ''2024-12-31'' (15 / 2))"
    unfolding nearestByDate_def s Let_def
    by (simp add: nearestStep_def multipleAt_def parseReportDate_def calendar_def Let_def)
  show ?thesis
    unfolding metricsAsOfMds_def shortHistory_fields using n by simp
qed

lemma shortHistory_current:
  "currentEvToEbitda calendar (shortHistoryInputs\<lparr>config := c\<rparr>) (Some 1735603200000)
     = Some (15 / 2)"
  "currentFcfYield calendar (shortHistoryInputs\<lparr>config := c\<rparr>) (Some 1735603200000) = None"
proof -
  have f: "fcfYieldSeries calendar (shortHistoryInputs\<lparr>config := c\<rparr>) = []"
    by (simp add: fcfYieldSeries_def shortHistory_fields List.map_filter_def multipleAt_def)
  show "currentEvToEbitda calendar (shortHistoryInputs\<lparr>config := c\<rparr>) (Some 1735603200000)
          = Some (15 / 2)"
    by (simp add: currentEvToEbitda_def shortHistory_metricsAsOf Let_def orElse_def
        multipleAt_def)
  show "currentFcfYield calendar (shortHistoryInputs\<lparr>config := c\<rparr>) (Some 1735603200000) = None"
    by (simp add: currentFcfYield_def shortHistory_metricsAsOf Let_def orElse_def
        multipleAt_def truthy_def latestValue_def f)
qed

lemma shortHistory_windows:
  "sliceFrom (toInteger (- 12))
     (sortByReportPeriod calendar (evToEbitdaSeries (shortHistoryInputs\<lparr>config := c\<rparr>)))
     = evToEbitdaSeries (shortHistoryInputs\<lparr>config := c\<rparr>)"
  "sliceFrom (toInteger (- 20))
     (sortByReportPeriod calendar (evToEbitdaSeries (shortHistoryInputs\<lparr>config := c\<rparr>)))
     = evToEbitdaSeries (shortHistoryInputs\<lparr>config := c\<rparr>)"
proof -
  have s: "sortByReportPeriod calendar (evToEbitdaSeries (shortHistoryInputs\<lparr>config := c\<rparr>))
             = evToEbitdaSeries (shortHistoryInputs\<lparr>config := c\<rparr>)"
    unfolding shortHistory_multiples by (simp add: sort_eval)
  show "sliceFrom (toInteger (- 12))
          (sortByReportPeriod calendar (evToEbitdaSeries (shortHistoryInputs\<lparr>config := c\<rparr>)))
        = evToEbitdaSeries (shortHistoryInputs\<lparr>config := c\<rparr>)"
    unfolding s by (simp add: sliceFrom_def toInteger_def shortHistory_multiples)
  show "sliceFrom (toInteger (- 20))
          (sortByReportPeriod calendar (evToEbitdaSeries (shortHistoryInputs\<lparr>config := c\<rparr>)))
        = evToEbitdaSeries (shortHistoryInputs\<lparr>config := c\<rparr>)"
    unfolding s by (simp add: sliceFrom_def toInteger_def shortHistory_multiples)
qed

lemma shortHistory_median:
  "median (map value (evToEbitdaSeries (shortHistoryInputs\<lparr>config := c\<rparr>))) = Some 10"
  by (simp add: shortHistory_multiples median_def arraySort_def Let_def)

lemma computeMdsFromSeries_shortHistory:
  "computeMdsFromSeries calendar now ds (shortHistoryInputs\<lparr>config := c\<rparr>)
     = Inr (mdsResult calendar now ds (shortHistoryInputs\<lparr>config := c\<rparr>) (Some 1735603200000) []
              (0, None, [''missing_narrative_corpus'']))"
  by (simp add: computeMdsFromSeries_def shortHistory_asof narrativeShock_def shortHistory_fields)

text \<open>Without a configuration: a flat EBITDA, a compression of a quarter against the
  median 10, hence the score 10 on seven observations in both windows.\<close>

lemma shortHistory_config: "mdsConfig shortHistoryInputs = DEFAULT_MDS_CONFIG"
  by (simp add: mdsConfig_def shortHistoryInputs_def mergeMdsConfig_def)

lemma shortHistory_trend: "ebitdaTrend calendar shortHistoryInputs = Flat"
  using shortHistory_growths[of None]
  by (simp add: shortHistory_unconfigured ebitdaTrend_def classifyEbitdaTrend_def
        shortHistory_config Let_def)
     (simp add: median_def arraySort_def DEFAULT_MDS_CONFIG_def)

lemma shortHistory_scores:
  "computeHistoryScore calendar (currentEvToEbitda calendar shortHistoryInputs (Some 1735603200000))
     (evToEbitdaSeries shortHistoryInputs) (history_short (mdsConfig shortHistoryInputs))
     (compressionScoreFn (mdsConfig shortHistoryInputs) (ebitdaTrend calendar shortHistoryInputs))
   = (10, 7)"
  "computeHistoryScore calendar (currentEvToEbitda calendar shortHistoryInputs (Some 1735603200000))
     (evToEbitdaSeries shortHistoryInputs) (history_long (mdsConfig shortHistoryInputs))
     (compressionScoreFn (mdsConfig shortHistoryInputs) (ebitdaTrend calendar shortHistoryInputs))
   = (10, 7)"
  "computeHistoryScore calendar (currentFcfYield calendar shortHistoryInputs (Some 1735603200000))
     (fcfYieldSeries calendar shortHistoryInputs) (history_short (mdsConfig shortHistoryInputs))
     (fcfYieldScoreFn (mdsConfig shortHistoryInputs) (fcfStability calendar shortHistoryInputs))
   = (0, 0)"
  "computeHistoryScore calendar (currentFcfYield calendar shortHistoryInputs (Some 1735603200000))
     (fcfYieldSeries calendar shortHistoryInputs) (history_long (mdsConfig shortHistoryInputs))
     (fcfYieldScoreFn (mdsConfig shortHistoryInputs) (fcfStability calendar shortHistoryInputs))
   = (0, 0)"
proof -
  note u = shortHistory_unconfigured
  have l: "length (evToEbitdaSeries shortHistoryInputs) = 7"
          "evToEbitdaSeries shortHistoryInputs \<noteq> []"
    using shortHistory_multiples[of None] by (simp_all add: u)
  have f: "compressionScoreFn DEFAULT_MDS_CONFIG Flat (15 / 2) 10 = 10"
    by (simp add: compressionScoreFn_def DEFAULT_MDS_CONFIG_def Let_def)
  have h: "history_short DEFAULT_MDS_CONFIG = 12" "history_long DEFAULT_MDS_CONFIG = 20"
    by (simp_all add: DEFAULT_MDS_CONFIG_def)
  note e = shortHistory_current[of None, unfolded u] shortHistory_windows[of None, unfolded u]
    shortHistory_median[of None, unfolded u]
  show "computeHistoryScore calendar
          (currentEvToEbitda calendar shortHistoryInputs (Some 1735603200000))
          (evToEbitdaSeries shortHistoryInputs) (history_short (mdsConfig shortHistoryInputs))
          (compressionScoreFn (mdsConfig shortHistoryInputs)
             (ebitdaTrend calendar shortHistoryInputs)) = (10, 7)"
    by (simp add: computeHistoryScore_def e shortHistory_config shortHistory_trend h l f Let_def)
  show "computeHistoryScore calendar
          (currentEvToEbitda calendar shortHistoryInputs (Some 1735603200000))
          (evToEbitdaSeries shortHistoryInputs) (history_long (mdsConfig shortHistoryInputs))
          (compressionScoreFn (mdsConfig shortHistoryInputs)
             (ebitdaTrend calendar shortHistoryInputs)) = (10, 7)"
    by (simp add: computeHistoryScore_def e shortHistory_config shortHistory_trend h l f Let_def)
  show "computeHistoryScore calendar
          (currentFcfYield calendar shortHistoryInputs (Some 1735603200000))
          (fcfYieldSeries calendar shortHistoryInputs)
          (history_short (mdsConfig shortHistoryInputs))
          (fcfYieldScoreFn (mdsConfig shortHistoryInputs)
             (fcfStability calendar shortHistoryInputs)) = (0, 0)"
    by (simp add: computeHistoryScore_def e)
  show "computeHistoryScore calendar
          (currentFcfYield calendar shortHistoryInputs (Some 1735603200000))
          (fcfYieldSeries calendar shortHistoryInputs)
          (history_long (mdsConfig shortHistoryInputs))
          (fcfYieldScoreFn (mdsConfig shortHistoryInputs)
             (fcfStability calendar shortHistoryInputs)) = (0, 0)"
    by (simp add: computeHistoryScore_def e)
qed

lemma shortHistory_coverage:
  "applyCoverage doubleDiscount 10 7 DEFAULT_MDS_CONFIG tag
     = (JNum (583 / 100), [''short_history_'' @ tag])"
  "applyCoverage doubleDiscount 0 0 DEFAULT_MDS_CONFIG tag
     = (JNum 0, [''missing_history_'' @ tag])"
  by (simp_all add: applyCoverage_def DEFAULT_MDS_CONFIG_def jsLe_def doubleDiscount_def
      toFixed2_def)






section \<open>The totals of the two engines\<close>

lemma smallPeer_config:
  "low_history_gm_multiplier (brsConfig smallPeerInputs) = 1 / 2"
  by (simp add: brsConfig_def smallPeerInputs_def mergeBrsConfig_def orDefault_def
      DEFAULT_BRS_CONFIG_def)

lemma narrativeShock_undated:
  "narrativeShock calendar now undatedMdsInputs = Inl RangeError"
  by (simp add: narrativeShock_def undatedMdsInputs_def shortInterestInputs_def
      classifyNarrativeShock_def windowEndOf_def windowStartOf_def narrativeOptions_def
      truthyStr_def calendar_def NarrativeOptions.defs PartialNarrativeParams.defs)

lemma asofDateMds_undated:
  "asofDateMds calendar undatedMdsInputs = Inr (None, [])"
  by (simp add: asofDateMds_def undatedMdsInputs_def shortInterestInputs_def truthyStr_def
      parseReportDate_def calendar_def)

lemma computeMdsFromSeries_undated:
  "computeMdsFromSeries calendar now ds undatedMdsInputs = Inl RangeError"
  by (simp add: computeMdsFromSeries_def asofDateMds_undated narrativeShock_undated)

text \<open>Arithmetic on numbers, and on \<open>NaN\<close>.\<close>

lemma js_numbers:
  "mathMin (JNum x) (JNum y) = JNum (min x y)"
  "jsAdd (JNum x) (JNum y) = JNum (x + y)"
  "clampJs (JNum x) (JNum lo) (JNum hi) = JNum (clamp x lo hi)"
  by (simp_all add: mathMin_def mathMax_def jsAdd_def jsArith_def clampJs_def clamp_def)

lemma js_nan:
  "mathMin JNaN v = JNaN" "jsAdd JNaN v = JNaN" "clampJs JNaN lo hi = JNaN"
  by (simp_all add: mathMin_def mathMax_def jsAdd_def jsArith_def clampJs_def
      split: option.splits)

lemma multipleCompressionPoints_number:
  assumes "history_min (mdsConfig inputs) = JNum h"
  shows "\<exists>c. multipleCompressionPoints nd ds inputs a = JNum c"
proof -
  have n: "\<And>s k tag. \<exists>x. fst (applyCoverage ds s k (mdsConfig inputs) tag) = JNum x"
    using applyCoverage_is_number[OF assms] by blast
  obtain x3 where x3: "fst (applyCoverage ds (fst (h3Compression nd inputs a))
      (snd (h3Compression nd inputs a)) (mdsConfig inputs) ''multiple_h3'') = JNum x3"
    using n by blast
  obtain x5 where x5: "fst (applyCoverage ds (fst (h5Compression nd inputs a))
      (snd (h5Compression nd inputs a)) (mdsConfig inputs) ''multiple_h5'') = JNum x5"
    using n by blast
  obtain y3 where y3: "fst (applyCoverage ds (fst (h3FcfYield nd inputs a))
      (snd (h3FcfYield nd inputs a)) (mdsConfig inputs) ''fcf_yield_h3'') = JNum y3"
    using n by blast
  obtain y5 where y5: "fst (applyCoverage ds (fst (h5FcfYield nd inputs a))
      (snd (h5FcfYield nd inputs a)) (mdsConfig inputs) ''fcf_yield_h5'') = JNum y5"
    using n by blast
  show ?thesis
    by (simp add: multipleCompressionPoints_def compressionScore_def fcfYieldScore_def
        compressionCoverage_def fcfYieldCoverage_def x3 x5 y3 y5 js_numbers)
qed

lemma mdsResult_total:
  "total_mds_points (mdsResult nd now ds inputs a w0 nar)
     = clampJs (jsAdd (jsAdd (jsAdd
         (multiple_compression_points (mdsResult nd now ds inputs a w0 nar))
         (JNum (expectation_reset_total (mdsResult nd now ds inputs a w0 nar))))
         (JNum (operating_resilience_points (mdsResult nd now ds inputs a w0 nar))))
         (JNum (market_positioning_points (mdsResult nd now ds inputs a w0 nar))))
       (JNum 0) (JNum 100)"
  "expectation_reset_total (mdsResult nd now ds inputs a w0 nar)
     = expectation_reset_points (mdsResult nd now ds inputs a w0 nar)
       + narrative_shock_points (mdsResult nd now ds inputs a w0 nar)"
  "multiple_compression_points (mdsResult nd now ds inputs a w0 nar)
     = multipleCompressionPoints nd ds inputs a"
  by (simp_all add: mdsResult_def Let_def)

lemma clamp_range: "lo \<le> hi \<Longrightarrow> lo \<le> clamp v lo hi \<and> clamp v lo hi \<le> hi"
  by (simp add: clamp_def)

text \<open>
  Claim C1, as amended. Whenever \<open>computeMdsFromSeries\<close> returns a result,
  \<open>total_mds_points\<close> is the sum of the multiple-compression points, the expectation-reset
  total (expectation reset plus narrative shock), the operating-resilience points and
  the market-positioning points, clamped to [0,100]. When the configured \<open>history_min\<close>
  is a number the total is a number, the clamped sum of the five sub-dimension scores,
  within [0,100]; when it is \<open>NaN\<close> or \<open>undefined\<close> the total can be \<open>NaN\<close>, which the
  clamp passes through. Whenever \<open>computeBrs\<close> returns a result, \<open>scores.total\<close> is the
  sum of the five sub-dimension scores, without a clamp; it lies within [0,100] when the
  configured \<open>low_history_gm_multiplier\<close> lies within [0,1] (the default is 0.5).
\<close>

theorem engine_totals:
  "(computeMdsFromSeries nd now ds m = Inr r \<longrightarrow>
      total_mds_points r
        = clampJs (jsAdd (jsAdd (jsAdd (multiple_compression_points r)
                                       (JNum (expectation_reset_total r)))
                                (JNum (operating_resilience_points r)))
                         (JNum (market_positioning_points r)))
            (JNum 0) (JNum 100)
      \<and> expectation_reset_total r = expectation_reset_points r + narrative_shock_points r
      \<and> (history_min (mdsConfig m) = JNum h \<longrightarrow>
           (\<exists>c. multiple_compression_points r = JNum c
                \<and> total_mds_points r
                    = JNum (clamp (c + expectation_reset_points r + narrative_shock_points r
                                   + operating_resilience_points r
                                   + market_positioning_points r) 0 100))
           \<and> (\<exists>t. total_mds_points r = JNum t \<and> 0 \<le> t \<and> t \<le> 100)))
   \<and> (computeBrs nd b = Inr q \<longrightarrow>
        total (scores q)
          = valuation_sanity (scores q) + cash_truth_quality (scores q)
            + capital_efficiency (scores q) + balance_sheet_risk (scores q)
            + durability_alignment (scores q)
        \<and> (0 \<le> low_history_gm_multiplier (brsConfig b)
             \<and> low_history_gm_multiplier (brsConfig b) \<le> 1
             \<longrightarrow> 0 \<le> total (scores q) \<and> total (scores q) \<le> 100))"
proof (intro conjI impI)
  assume "computeMdsFromSeries nd now ds m = Inr r"
  then obtain a w0 nar where r: "r = mdsResult nd now ds m a w0 nar"
    using computeMdsFromSeries_Inr by blast
  show "total_mds_points r
        = clampJs (jsAdd (jsAdd (jsAdd (multiple_compression_points r)
                                       (JNum (expectation_reset_total r)))
                                (JNum (operating_resilience_points r)))
                         (JNum (market_positioning_points r)))
            (JNum 0) (JNum 100)"
    unfolding r by (rule mdsResult_total(1))
  show t: "expectation_reset_total r = expectation_reset_points r + narrative_shock_points r"
    unfolding r by (rule mdsResult_total(2))
  assume "history_min (mdsConfig m) = JNum h"
  then obtain c where c: "multiple_compression_points r = JNum c"
    unfolding r mdsResult_total(3) using multipleCompressionPoints_number by blast
  have s: "total_mds_points r
             = JNum (clamp (c + expectation_reset_points r + narrative_shock_points r
                            + operating_resilience_points r
                            + market_positioning_points r) 0 100)"
    using c t unfolding r mdsResult_total(1) by (simp add: js_numbers add.assoc)
  show "\<exists>c. multiple_compression_points r = JNum c
            \<and> total_mds_points r
                = JNum (clamp (c + expectation_reset_points r + narrative_shock_points r
                               + operating_resilience_points r
                               + market_positioning_points r) 0 100)"
    using c s by blast
  show "\<exists>t. total_mds_points r = JNum t \<and> 0 \<le> t \<and> t \<le> 100"
    using s clamp_range[of 0 100] by auto
next
  assume "computeBrs nd b = Inr q"
  then obtain a where q: "scores q = brsScores (brsSubscores nd b a)"
    using computeBrs_Inr by blast
  show "total (scores q)
          = valuation_sanity (scores q) + cash_truth_quality (scores q)
            + capital_efficiency (scores q) + balance_sheet_risk (scores q)
            + durability_alignment (scores q)"
    unfolding q by (rule brs_total_sum)
  assume "0 \<le> low_history_gm_multiplier (brsConfig b)
             \<and> low_history_gm_multiplier (brsConfig b) \<le> 1"
  then show "0 \<le> total (scores q)" "total (scores q) \<le> 100"
    unfolding q using brs_total_range[of b nd a] by simp_all
qed

text \<open>The example with a \<open>history_min\<close> that is \<open>NaN\<close>: seven observations are fewer,
  and the first window is \<open>NaN\<close>.\<close>

lemma nanHistory_config:
  "history_min (mdsConfig nanHistoryInputs) = JNaN"
  "history_short (mdsConfig nanHistoryInputs) = 12"
  by (simp_all add: mdsConfig_def nanHistoryInputs_def mergeMdsConfig_def nanHistoryMin_def
      noOverrides_def orDefault_def DEFAULT_MDS_CONFIG_def)

lemma nanHistory_available:
  "snd (h3Compression calendar nanHistoryInputs (Some 1735603200000)) = 7"
proof -
  have l: "length (evToEbitdaSeries (shortHistoryInputs\<lparr>config := Some nanHistoryMin\<rparr>)) = 7"
    by (simp add: shortHistory_multiples)
  show ?thesis
    unfolding h3Compression_def nanHistory_config
    unfolding nanHistoryInputs_def shortHistory_current computeHistoryScore_available
      shortHistory_windows
    by (rule l)
qed

lemma nanHistory_total:
  "total_mds_points (mdsResult calendar now ds nanHistoryInputs (Some 1735603200000) w0 nar)
     = JNaN"
proof -
  have "fst (fst (compressionCoverage calendar ds nanHistoryInputs (Some 1735603200000))) = JNaN"
    using applyCoverage_nan(1)[of "mdsConfig nanHistoryInputs" 7 ds] nanHistory_config(1)
    by (simp add: compressionCoverage_def nanHistory_available)
  then have "multipleCompressionPoints calendar ds nanHistoryInputs (Some 1735603200000) = JNaN"
    by (simp add: multipleCompressionPoints_def compressionScore_def js_nan)
  then show ?thesis
    by (simp add: mdsResult_total js_nan)
qed

lemma computeMdsFromSeries_nanHistory:
  "computeMdsFromSeries calendar now ds nanHistoryInputs
     = Inr (mdsResult calendar now ds nanHistoryInputs (Some 1735603200000) []
              (0, None, [''missing_narrative_corpus'']))"
  unfolding nanHistoryInputs_def by (rule computeMdsFromSeries_shortHistory)

text \<open>
  Claim C1 as stated fails. With \<open>low_history_gm_multiplier = 30\<close> and four quarters of
  stable gross margin the gross-margin score of \<open>computeBrs\<close> is
  \<open>Math.round(5 * 30) = 150\<close> and so is the total, where the clamped sum would be 100.
  With a \<open>history_min\<close> that is \<open>NaN\<close> and seven observations the total of
  \<open>computeMdsFromSeries\<close> is \<open>NaN\<close>. Statements whose only common report period is not a
  date make \<open>computeBrs\<close> raise a TypeError, and an as-of date that is not a date, with
  documents present, makes \<open>computeMdsFromSeries\<close> raise a RangeError.
\<close>

theorem engine_totals_counterexample:
  "map_sum (\<lambda>e. e)
     (\<lambda>q. (total (scores q),
           clamp (valuation_sanity (scores q) + cash_truth_quality (scores q)
                  + capital_efficiency (scores q) + balance_sheet_risk (scores q)
                  + durability_alignment (scores q)) 0 100))
     (computeBrs calendar overscaledInputs) = Inr (150, 100)
   \<and> map_sum (\<lambda>e. e) total_mds_points
        (computeMdsFromSeries calendar 0 doubleDiscount nanHistoryInputs) = Inr JNaN
   \<and> computeBrs calendar undatedInputs = Inl TypeError
   \<and> computeMdsFromSeries calendar 0 doubleDiscount undatedMdsInputs = Inl RangeError"
  by (simp add: computeBrs_overscaled computeBrs_undated computeMdsFromSeries_undated clamp_def
      computeMdsFromSeries_nanHistory nanHistory_total)


text \<open>The whole result on the example with seven observations.\<close>

lemma shortHistory_inputs:
  "income_statements shortHistoryInputs = map ebitQuarter eightQuarters"
  "cash_flow_statements shortHistoryInputs = map (\<lambda>d. cashQuarter d 5 2) eightQuarters"
  "estimates shortHistoryInputs = None" "ownership_history shortHistoryInputs = None"
  "insider_trades shortHistoryInputs = None" "short_interest_pct shortHistoryInputs = None"
  by (simp_all add: shortHistoryInputs_def)

lemma shortHistory_series:
  "revenueSeries calendar shortHistoryInputs =
     map (\<lambda>d. \<lparr>report_period = d, value = 400\<rparr>)
       [''2023-12-31'', ''2024-03-31'', ''2024-06-30'', ''2024-09-30'', ''2024-12-31'']"
  "ocfSeries calendar shortHistoryInputs =
     map (\<lambda>d. \<lparr>report_period = d, value = 20\<rparr>)
       [''2023-12-31'', ''2024-03-31'', ''2024-06-30'', ''2024-09-30'', ''2024-12-31'']"
  "capexSeries calendar shortHistoryInputs = []"
  by (simp_all add: revenueSeries_def buildRevenueSeries_def ocfSeries_def capexSeries_def
        shortHistory_inputs rollingTtmSeries_points shortHistory_sorted)
     (simp_all add: eightQuarters_def ebitQuarter_def cashQuarter_def fieldOrNull_def upt_rec)

lemma shortHistory_revenueTrend: "revenueTrend calendar shortHistoryInputs = Some 0"
proof -
  have s: "sortByReportPeriod calendar (revenueSeries calendar shortHistoryInputs)
             = revenueSeries calendar shortHistoryInputs"
    unfolding shortHistory_series by (simp add: sort_eval)
  have g: "computeYoYGrowth calendar (revenueSeries calendar shortHistoryInputs) = [0]"
    by (simp add: computeYoYGrowth_def yoyGrowths_def s Let_def)
       (simp add: shortHistory_series List.map_filter_def upt_rec)
  show ?thesis
    by (simp add: revenueTrend_def g median_def arraySort_def)
qed

lemma shortHistory_gm: "gmStatus calendar shortHistoryInputs = GmStable"
proof -
  have g: "buildGmSeries calendar (map ebitQuarter eightQuarters)
             = [2 / 5, 2 / 5, 2 / 5, 2 / 5, 2 / 5, 2 / 5, 2 / 5, 2 / 5]"
    by (simp add: buildGmSeries_def shortHistory_sorted List.map_filter_def)
       (simp add: eightQuarters_def ebitQuarter_def truthy_def)
  show ?thesis
    by (simp add: gmStatus_def classifyGrossMargin_def shortHistory_inputs g Let_def
        sliceFrom_def slope_def stdev_def shortHistory_config DEFAULT_MDS_CONFIG_def)
qed

lemma shortHistory_ocf: "ocfStability calendar shortHistoryInputs = OcfVolatile"
proof -
  have r: "revenueRatios (ocfSeries calendar shortHistoryInputs)
             (revenueSeries calendar shortHistoryInputs)
           = [1 / 20, 1 / 20, 1 / 20, 1 / 20, 1 / 20]"
    by (simp add: shortHistory_series revenueRatios_def List.map_filter_simps)
  have sd: "stdev [1 / 20, 1 / 20, 1 / 20, 1 / 20, 1 / 20] = Some 0"
    by (simp add: stdev_def)
  have sl: "sliceFrom (- 8) [1 / 20, 1 / 20, 1 / 20, 1 / 20, 1 / 20 :: real]
              = [1 / 20, 1 / 20, 1 / 20, 1 / 20, 1 / 20]"
    by (simp add: sliceFrom_def)
  show ?thesis
    unfolding ocfStability_def classifyOcfStability_def r Let_def sl sd
    by simp
qed

lemma shortHistory_resilience: "operatingResilience calendar shortHistoryInputs = 10"
proof -
  have c: "capexRatios calendar shortHistoryInputs = []"
    by (simp add: capexRatios_def shortHistory_series revenueRatios_def List.map_filter_def)
  show ?thesis
    by (simp add: operatingResilience_def gmDefense_def ocfScore_def capexScore_def c
        shortHistory_gm shortHistory_ocf shortHistory_revenueTrend shortHistory_config
        DEFAULT_MDS_CONFIG_def clamp_def)
qed

lemma shortHistory_positioning:
  "marketPositioning calendar now shortHistoryInputs a = 0"
  "fst (expectationReset calendar shortHistoryInputs) = 0"
  by (simp_all add: marketPositioning_def shortInterestScore_def ownershipScore_def
      insiderBonus_def expectationReset_def shortHistory_inputs clamp_def Let_def)

lemma shortHistory_points:
  "multipleCompressionPoints calendar doubleDiscount shortHistoryInputs (Some 1735603200000)
     = JNum (583 / 100)"
  unfolding multipleCompressionPoints_def compressionScore_def fcfYieldScore_def
    compressionCoverage_def fcfYieldCoverage_def
    h3Compression_def h5Compression_def h3FcfYield_def h5FcfYield_def
  unfolding shortHistory_scores
  unfolding fst_conv snd_conv shortHistory_config
  by (simp add: shortHistory_coverage js_numbers clamp_def)

lemma shortHistory_total:
  "total_mds_points
     (mdsResult calendar now doubleDiscount shortHistoryInputs (Some 1735603200000) w0
        (0, None, w1))
   = JNum (1583 / 100)"
  by (simp add: mdsResult_def Let_def shortHistory_points shortHistory_resilience
      shortHistory_positioning js_numbers clamp_def)

theorem engine_totals_witness:
  "map_sum (\<lambda>e. e)
     (\<lambda>q. (total (scores q),
           valuation_sanity (scores q) + cash_truth_quality (scores q)
             + capital_efficiency (scores q) + balance_sheet_risk (scores q)
             + durability_alignment (scores q),
           0 \<le> total (scores q) \<and> total (scores q) \<le> 100))
     (computeBrs calendar smallPeerInputs) = Inr (13, 13, True)
   \<and> map_sum (\<lambda>e. e)
       (\<lambda>r. (total_mds_points r, multiple_compression_points r, expectation_reset_points r,
             narrative_shock_points r, operating_resilience_points r,
             market_positioning_points r))
       (computeMdsFromSeries calendar 0 doubleDiscount shortHistoryInputs)
       = Inr (JNum (1583 / 100), JNum (583 / 100), 0, 0, 10, 0)"
proof -
  let ?r = "mdsResult calendar 0 doubleDiscount shortHistoryInputs (Some 1735603200000) []
              (0, None, [''missing_narrative_corpus''])"
  obtain q where q: "computeBrs calendar smallPeerInputs = Inr q" "total (scores q) = 13"
    using computeBrs_smallPeer by simp
  have m: "computeMdsFromSeries calendar 0 doubleDiscount shortHistoryInputs = Inr ?r"
    using computeMdsFromSeries_shortHistory[of 0 doubleDiscount None]
    by (simp add: shortHistory_unconfigured)
  have h: "history_min (mdsConfig shortHistoryInputs) = JNum 12"
    by (simp add: shortHistory_config DEFAULT_MDS_CONFIG_def)
  have p: "multiple_compression_points ?r = JNum (583 / 100)"
          "expectation_reset_points ?r = 0" "narrative_shock_points ?r = 0"
          "operating_resilience_points ?r = 10" "market_positioning_points ?r = 0"
    by (simp_all add: mdsResult_def Let_def shortHistory_points shortHistory_resilience
        shortHistory_positioning)
  have l: "0 \<le> low_history_gm_multiplier (brsConfig smallPeerInputs)
           \<and> low_history_gm_multiplier (brsConfig smallPeerInputs) \<le> 1"
    by (simp add: smallPeer_config)
  note th = engine_totals[where nd = calendar and now = 0 and ds = doubleDiscount
      and m = shortHistoryInputs and r = ?r and h = 12 and b = smallPeerInputs and q = q]
  from th q(1) l
  have b: "total (scores q) = valuation_sanity (scores q) + cash_truth_quality (scores q)
             + capital_efficiency (scores q) + balance_sheet_risk (scores q)
             + durability_alignment (scores q)"
          "0 \<le> total (scores q) \<and> total (scores q) \<le> 100"
    by blast+
  from th m h
  have t: "\<exists>c. multiple_compression_points ?r = JNum c
                \<and> total_mds_points ?r
                    = JNum (clamp (c + expectation_reset_points ?r + narrative_shock_points ?r
                                   + operating_resilience_points ?r
                                   + market_positioning_points ?r) 0 100)"
    by blast
  from t p have "total_mds_points ?r = JNum (1583 / 100)"
    by (auto simp: clamp_def)
  with b q m p show ?thesis by simp
qed

end
